theory Spec2Isabelle
  imports Main "HOL-Library.Word"
begin

unbundle bit_operations_syntax

section \<open>The joystick input engine of \<^verbatim>\<open>src/joyport/joystick.c\<close>\<close>

text \<open>
  A shallow embedding of the parts of \<^verbatim>\<open>joystick.c\<close> that latch pin values, count
  presses, dispatch host events, read autofire, write snapshots, register devices and
  read and write the joystick mapping file.

  Conventions. A C array is a list; an access outside the array, a division by zero and
  a write past a fixed buffer are undefined in C and are the value \<open>None\<close> here. A C
  \<^verbatim>\<open>int\<close> that only counts or indexes is an \<open>int\<close>; a \<^verbatim>\<open>uint16_t\<close> pin mask is a
  \<open>16 word\<close>. A call into another module of the emulator (alarms, the network event log,
  the keyboard matrix, the user interface, the host driver, the log) is recorded in a
  trace, in call order.
\<close>

subsection \<open>Constants\<close>

type_synonym u16 = "16 word"

text \<open>\<^verbatim>\<open>JOYPORT_MAX_PORTS\<close>: \<^verbatim>\<open>joyport_joystick\<close> is initialised with eleven entries and the
  resources run from \<^verbatim>\<open>JoyStick1AutoFire\<close> to \<^verbatim>\<open>JoyStick11AutoFire\<close>.\<close>

definition JOYPORT_MAX_PORTS :: nat where
  "JOYPORT_MAX_PORTS = 11"

definition JOYPAD_N :: u16 where "JOYPAD_N = 0x01"
definition JOYPAD_S :: u16 where "JOYPAD_S = 0x02"
definition JOYPAD_W :: u16 where "JOYPAD_W = 0x04"
definition JOYPAD_E :: u16 where "JOYPAD_E = 0x08"
definition JOYPAD_FIRE :: u16 where "JOYPAD_FIRE = 0x10"

definition JOYPORT_FIRE :: u16 where "JOYPORT_FIRE = 0x10"

text \<open>The table \<^verbatim>\<open>joystick_opposite_direction\<close>, indexed by the low four bits (E W S N)
  of the value being set; each entry is the mask of the bits to clear.\<close>

definition joystick_opposite_direction :: "u16 list" where
  "joystick_opposite_direction =
    [ 0,
      JOYPAD_S,
      JOYPAD_N,
      JOYPAD_S OR JOYPAD_N,
      JOYPAD_E,
      JOYPAD_E OR JOYPAD_S,
      JOYPAD_E OR JOYPAD_N,
      JOYPAD_E OR JOYPAD_S OR JOYPAD_N,
      JOYPAD_W,
      JOYPAD_W OR JOYPAD_S,
      JOYPAD_W OR JOYPAD_N,
      JOYPAD_W OR JOYPAD_S OR JOYPAD_N,
      JOYPAD_E OR JOYPAD_W,
      JOYPAD_E OR JOYPAD_W OR JOYPAD_S,
      JOYPAD_E OR JOYPAD_W OR JOYPAD_N,
      JOYPAD_E OR JOYPAD_W OR JOYPAD_S OR JOYPAD_N ]"

subsection \<open>Arrays\<close>

definition rd :: "'a list \<Rightarrow> nat \<Rightarrow> 'a option" where
  "rd xs i = (if i < length xs then Some (xs ! i) else None)"

definition wr :: "'a list \<Rightarrow> nat \<Rightarrow> 'a \<Rightarrow> 'a list option" where
  "wr xs i v = (if i < length xs then Some (xs[i := v]) else None)"

subsection \<open>Mappings\<close>

text \<open>\<^verbatim>\<open>joystick_mapping_t\<close>: the action tag with the member of the union that the tag
  selects. The numbers of the actions are those the mapping file uses (the header that
  \<^verbatim>\<open>mapping_dump_header\<close> prints lists them): 0 none, 1 joystick pin, 2 keyboard
  (row, column, flags), 3 map, 4 UI activate, 5 UI function, 6 potentiometer axis.\<close>

datatype joystick_mapping =
    Action_none
  | Action_joystick u16
  | Action_keyboard int int int
  | Action_map
  | Action_ui_activate
  | Action_ui_function int
  | Action_pot_axis

subsection \<open>The state of the ports\<close>

text \<open>What the engine calls in other modules.\<close>

datatype effect =
    Network_event_delay int
  | Network_event_value nat "u16 list"
  | Joyport_handle_joystick_hook nat u16
  | Keyboard_set_keyarr_any int int int
  | Arch_ui_activate
  | Ui_action_trigger int
  | Perform_event joystick_mapping int int

record joystick_values =
  last_used_joyport :: nat
  jvalues :: "u16 list"

text \<open>
  The file's static variables, followed by what the engine reads from its environment:
  \<open>playback_active\<close> is \<^verbatim>\<open>event_playback_active()\<close>, \<open>connected\<close> is
  \<^verbatim>\<open>network_connected()\<close>, \<open>maincpu_clk\<close> the 64-bit cycle counter, \<open>cycles_per_second\<close>
  and \<open>cycles_per_frame\<close> the machine's timing, \<open>rand_src\<close> the numbers that
  \<^verbatim>\<open>lib_unsigned_rand\<close> will draw. \<open>max_pins\<close> is the constant \<^verbatim>\<open>JOYPORT_MAX_PINS\<close>
  of \<^verbatim>\<open>joyport.h\<close>, the second dimension of \<open>gtkjoy_pins\<close>; the header is not among the
  sources, so the constant is a field that no operation writes. \<open>alarm\<close> is the clock
  the joystick alarm is set to, if it is set.
\<close>

record joy_state =
  joystick_value :: "u16 list"
  network_joystick_value :: joystick_values
  latch_joystick_value :: joystick_values
  joystick_opposite_enable :: int
  joystick_autofire_enable :: "int list"
  joystick_autofire_mode :: "int list"
  joystick_autofire_speed :: "int list"
  joystick_hook :: "int list"
  joystick_hook_mask :: "u16 list"
  joystick_hook_state :: "u16 list"
  gtkjoy_pins :: "int list list"
  max_pins :: nat
  alarm :: "int option"
  trace :: "effect list"
  playback_active :: bool
  connected :: bool
  maincpu_clk :: int
  cycles_per_second :: int
  cycles_per_frame :: int
  rand_src :: "int list"

definition latch_values :: "joy_state \<Rightarrow> u16 list" where
  "latch_values s = jvalues (latch_joystick_value s)"

text \<open>\<^verbatim>\<open>lib_unsigned_rand(min, max)\<close> draws a number between its bounds.\<close>

definition lib_unsigned_rand :: "int \<Rightarrow> int \<Rightarrow> joy_state \<Rightarrow> int \<times> joy_state" where
  "lib_unsigned_rand lo hi s =
     (case rand_src s of
        [] \<Rightarrow> (lo, s)
      | r # rs \<Rightarrow> (lo + r mod (hi - lo + 1), s\<lparr>rand_src := rs\<rparr>))"

definition joystick_process_latch :: "joy_state \<Rightarrow> joy_state" where
  "joystick_process_latch s =
     (let (delay, s1) = lib_unsigned_rand 1 (cycles_per_frame s mod 2 ^ 32) s in
      if connected s1
      then s1\<lparr>trace := trace s1 @
                [Network_event_delay delay,
                 Network_event_value (last_used_joyport (latch_joystick_value s1))
                                     (jvalues (latch_joystick_value s1))]\<rparr>
      else s1\<lparr>alarm := Some ((maincpu_clk s1 + delay) mod 2 ^ 64)\<rparr>)"

definition joystick_handle_hooks :: "nat \<Rightarrow> joy_state \<Rightarrow> joy_state option" where
  "joystick_handle_hooks joyport s =
     (case rd (joystick_hook s) joyport of
        None \<Rightarrow> None
      | Some h \<Rightarrow>
          if h \<noteq> 0 then
            (case (rd (joystick_hook_state s) joyport, rd (joystick_hook_mask s) joyport,
                   rd (latch_values s) joyport) of
               (Some st, Some hmask, Some lv) \<Rightarrow>
                 (let masked_old = st AND hmask; masked_new = lv AND hmask in
                  if masked_old \<noteq> masked_new
                  then Some (s\<lparr>trace := trace s @ [Joyport_handle_joystick_hook joyport masked_new],
                               joystick_hook_state := (joystick_hook_state s)[joyport := masked_new]\<rparr>)
                  else Some s)
             | _ \<Rightarrow> None)
          else Some s)"

definition set_latch :: "nat \<Rightarrow> u16 \<Rightarrow> joy_state \<Rightarrow> joy_state" where
  "set_latch joyport v s =
     s\<lparr>latch_joystick_value := (latch_joystick_value s)\<lparr>jvalues := (latch_values s)[joyport := v]\<rparr>\<rparr>"

definition set_last_used :: "nat \<Rightarrow> joy_state \<Rightarrow> joy_state" where
  "set_last_used joyport s =
     s\<lparr>latch_joystick_value := (latch_joystick_value s)\<lparr>last_used_joyport := joyport\<rparr>\<rparr>"

definition joystick_set_value_absolute :: "nat \<Rightarrow> u16 \<Rightarrow> joy_state \<Rightarrow> joy_state option" where
  "joystick_set_value_absolute joyport v s =
     (if playback_active s then Some s
      else case rd (latch_values s) joyport of
             None \<Rightarrow> None
           | Some old \<Rightarrow>
               if old \<noteq> v
               then joystick_handle_hooks joyport
                      (joystick_process_latch (set_last_used joyport (set_latch joyport v s)))
               else Some s)"

definition joystick_set_value_or :: "nat \<Rightarrow> u16 \<Rightarrow> joy_state \<Rightarrow> joy_state option" where
  "joystick_set_value_or joyport v s =
     (if playback_active s then Some s
      else case rd (latch_values s) joyport of
             None \<Rightarrow> None
           | Some old \<Rightarrow>
               (let v1 = old OR v;
                    v2 = (if joystick_opposite_enable s = 0
                          then v1 AND NOT (joystick_opposite_direction ! unat (v AND 0xf))
                          else v1)
                in joystick_handle_hooks joyport
                     (joystick_process_latch (set_last_used joyport (set_latch joyport v2 s)))))"

definition joystick_set_value_and :: "nat \<Rightarrow> u16 \<Rightarrow> joy_state \<Rightarrow> joy_state option" where
  "joystick_set_value_and joyport v s =
     (if playback_active s then Some s
      else case rd (latch_values s) joyport of
             None \<Rightarrow> None
           | Some old \<Rightarrow>
               joystick_handle_hooks joyport
                 (joystick_process_latch (set_last_used joyport (set_latch joyport (old AND v) s))))"

text \<open>The arrays of a state have the sizes the file declares them with.\<close>

definition wf_state :: "joy_state \<Rightarrow> bool" where
  "wf_state s \<longleftrightarrow>
     length (joystick_value s) = JOYPORT_MAX_PORTS \<and>
     length (latch_values s) = JOYPORT_MAX_PORTS \<and>
     length (joystick_autofire_enable s) = JOYPORT_MAX_PORTS \<and>
     length (joystick_autofire_mode s) = JOYPORT_MAX_PORTS \<and>
     length (joystick_autofire_speed s) = JOYPORT_MAX_PORTS \<and>
     length (joystick_hook s) = JOYPORT_MAX_PORTS \<and>
     length (joystick_hook_mask s) = JOYPORT_MAX_PORTS \<and>
     length (joystick_hook_state s) = JOYPORT_MAX_PORTS \<and>
     length (gtkjoy_pins s) = JOYPORT_MAX_PORTS \<and>
     list_all (\<lambda>row. length row = max_pins s) (gtkjoy_pins s)"

text \<open>The state the file's initialisers give, with twelve pins per port, no event
  playback and no network session.\<close>

definition init_state :: joy_state where
  "init_state =
     \<lparr> joystick_value = replicate 11 0,
       network_joystick_value = \<lparr>last_used_joyport = 11, jvalues = replicate 11 0\<rparr>,
       latch_joystick_value = \<lparr>last_used_joyport = 11, jvalues = replicate 11 0\<rparr>,
       joystick_opposite_enable = 0,
       joystick_autofire_enable = replicate 11 0,
       joystick_autofire_mode = replicate 11 0,
       joystick_autofire_speed = replicate 11 0,
       joystick_hook = replicate 11 0,
       joystick_hook_mask = replicate 11 0,
       joystick_hook_state = replicate 11 0,
       gtkjoy_pins = replicate 11 (replicate 12 0),
       max_pins = 12,
       alarm = None,
       trace = [],
       playback_active = False,
       connected = False,
       maincpu_clk = 0,
       cycles_per_second = 985248,
       cycles_per_frame = 19656,
       rand_src = [] \<rparr>"

subsection \<open>Press counters\<close>

text \<open>\<^verbatim>\<open>gtkjoy_pins[joyport][i]\<close>, read and written.\<close>

definition pin_count :: "joy_state \<Rightarrow> nat \<Rightarrow> nat \<Rightarrow> int option" where
  "pin_count s joyport i =
     (case rd (gtkjoy_pins s) joyport of None \<Rightarrow> None | Some row \<Rightarrow> rd row i)"

definition set_pin_count :: "nat \<Rightarrow> nat \<Rightarrow> int \<Rightarrow> joy_state \<Rightarrow> joy_state" where
  "set_pin_count joyport i c s =
     s\<lparr>gtkjoy_pins := (gtkjoy_pins s)[joyport := (gtkjoy_pins s ! joyport)[i := c]]\<rparr>"

text \<open>The loop of \<^verbatim>\<open>gtkjoy_set_value_press\<close> over the pins \<open>i\<close> still to visit:
  \<^verbatim>\<open>if (value & (1 << i)) gtkjoy_pins[joyport][i]++\<close>.\<close>

fun press_loop :: "nat list \<Rightarrow> nat \<Rightarrow> u16 \<Rightarrow> joy_state \<Rightarrow> joy_state option" where
  "press_loop [] joyport v s = Some s"
| "press_loop (i # pins) joyport v s =
     (if bit v i
      then (case pin_count s joyport i of
              None \<Rightarrow> None
            | Some c \<Rightarrow> press_loop pins joyport v (set_pin_count joyport i (c + 1) s))
      else press_loop pins joyport v s)"

definition gtkjoy_set_value_press :: "nat \<Rightarrow> u16 \<Rightarrow> joy_state \<Rightarrow> joy_state option" where
  "gtkjoy_set_value_press joyport v s =
     (case press_loop [0..<max_pins s] joyport v s of
        None \<Rightarrow> None
      | Some s1 \<Rightarrow> joystick_set_value_or joyport v s1)"

text \<open>The loop of \<^verbatim>\<open>gtkjoy_set_value_release\<close>: a positive counter is decremented, and
  when the counter is then zero, \<^verbatim>\<open>joystick_set_value_and(joyport, ~value)\<close> is called
  with the whole of \<^verbatim>\<open>value\<close>.\<close>

fun release_loop :: "nat list \<Rightarrow> nat \<Rightarrow> u16 \<Rightarrow> joy_state \<Rightarrow> joy_state option" where
  "release_loop [] joyport v s = Some s"
| "release_loop (i # pins) joyport v s =
     (if bit v i
      then (case pin_count s joyport i of
              None \<Rightarrow> None
            | Some c \<Rightarrow>
                (let c1 = (if c > 0 then c - 1 else c);
                     s1 = (if c > 0 then set_pin_count joyport i c1 s else s)
                 in if c1 = 0
                    then (case joystick_set_value_and joyport (NOT v) s1 of
                            None \<Rightarrow> None
                          | Some s2 \<Rightarrow> release_loop pins joyport v s2)
                    else release_loop pins joyport v s1))
      else release_loop pins joyport v s)"

definition gtkjoy_set_value_release :: "nat \<Rightarrow> u16 \<Rightarrow> joy_state \<Rightarrow> joy_state option" where
  "gtkjoy_set_value_release joyport v s = release_loop [0..<max_pins s] joyport v s"

subsection \<open>Dispatch\<close>

text \<open>\<^verbatim>\<open>ACTION_NONE\<close>, the null UI action of the user interface's action table (a header
  that is not among the sources): the identifiers of real actions are greater.\<close>

definition ACTION_NONE :: int where
  "ACTION_NONE = 0"

definition add_effect :: "effect \<Rightarrow> joy_state \<Rightarrow> joy_state" where
  "add_effect e s = s\<lparr>trace := trace s @ [e]\<rparr>"

text \<open>\<^verbatim>\<open>joy_perform_event\<close>. Each call is recorded in the trace as \<open>Perform_event\<close>
  before it acts, so that a handler that performs nothing leaves no such entry.\<close>

definition joy_perform_event :: "joystick_mapping \<Rightarrow> int \<Rightarrow> int \<Rightarrow> joy_state \<Rightarrow> joy_state option" where
  "joy_perform_event event joyport v s0 =
     (let s = add_effect (Perform_event event joyport v) s0;
          port_ok = (0 \<le> joyport \<and> joyport < int JOYPORT_MAX_PORTS)
      in case event of
           Action_joystick pin \<Rightarrow>
             if port_ok
             then (if v \<noteq> 0 then gtkjoy_set_value_press (nat joyport) pin s
                   else gtkjoy_set_value_release (nat joyport) pin s)
             else Some s
         | Action_keyboard row col flags \<Rightarrow> Some (add_effect (Keyboard_set_keyarr_any row col v) s)
         | Action_ui_activate \<Rightarrow>
             if port_ok \<and> v \<noteq> 0 then Some (add_effect Arch_ui_activate s) else Some s
         | Action_ui_function a \<Rightarrow>
             if port_ok \<and> v \<noteq> 0 \<and> a > ACTION_NONE then Some (add_effect (Ui_action_trigger a) s)
             else Some s
         | _ \<Rightarrow> Some s)"

definition perform_if :: "bool \<Rightarrow> joystick_mapping \<Rightarrow> int \<Rightarrow> int \<Rightarrow> joy_state \<Rightarrow> joy_state option" where
  "perform_if c event joyport v s = (if c then joy_perform_event event joyport v s else Some s)"

subsection \<open>Host inputs and their event handlers\<close>

datatype joystick_axis_value = JOY_AXIS_NEGATIVE | JOY_AXIS_MIDDLE | JOY_AXIS_POSITIVE

record joystick_axis =
  axis_code :: nat
  axis_prev :: joystick_axis_value
  axis_index :: int
  axis_minimum :: int
  axis_maximum :: int
  axis_digital :: bool
  axis_invert :: bool
  axis_threshold_negative :: int
  axis_threshold_positive :: int
  axis_positive :: joystick_mapping
  axis_negative :: joystick_mapping
  axis_pot :: int

record joystick_button =
  button_code :: nat
  button_prev :: int
  button_index :: int
  button_mapping :: joystick_mapping

record joystick_hat =
  hat_code :: nat
  hat_prev :: int
  hat_index :: int
  hat_up :: joystick_mapping
  hat_down :: joystick_mapping
  hat_left :: joystick_mapping
  hat_right :: joystick_mapping

text \<open>A value converted to \<^verbatim>\<open>int32_t\<close> and to \<^verbatim>\<open>uint32_t\<close>.\<close>

definition s32 :: "int \<Rightarrow> int" where
  "s32 x = (x + 2 ^ 31) mod 2 ^ 32 - 2 ^ 31"

definition u32 :: "int \<Rightarrow> int" where
  "u32 x = x mod 2 ^ 32"

text \<open>The direction \<^verbatim>\<open>joy_axis_event\<close> computes from the raw value.\<close>

definition axis_direction :: "joystick_axis \<Rightarrow> int \<Rightarrow> joystick_axis_value" where
  "axis_direction axis v0 =
     (if axis_digital axis
      then (let v = (if axis_invert axis then s32 (v0 * (- 1)) else v0)
            in if v < 0 then JOY_AXIS_NEGATIVE
               else if v > 0 then JOY_AXIS_POSITIVE
               else JOY_AXIS_MIDDLE)
      else (let v = (if axis_invert axis
                     then (let range0 = u32 (axis_maximum axis - axis_minimum axis);
                               range = (if range0 < 2 ^ 32 - 1 then range0 + 1 else range0);
                               center = s32 (u32 (axis_maximum axis - range div 2))
                           in s32 (center - v0))
                     else v0)
            in if v \<le> axis_threshold_negative axis then JOY_AXIS_NEGATIVE
               else if v \<ge> axis_threshold_positive axis then JOY_AXIS_POSITIVE
               else JOY_AXIS_MIDDLE))"

text \<open>The handlers take the input, the port of its device (\<^verbatim>\<open>device->joyport\<close>) and the
  raw value, and give the input and the state back.\<close>

definition joy_axis_event ::
  "joystick_axis \<Rightarrow> int \<Rightarrow> int \<Rightarrow> joy_state \<Rightarrow> (joystick_axis \<times> joy_state) option" where
  "joy_axis_event axis joyport v s =
     (let direction = axis_direction axis v; prev = axis_prev axis
      in if direction = prev then Some (axis, s)
         else
           Option.bind (perform_if (prev = JOY_AXIS_POSITIVE) (axis_positive axis) joyport 0 s) (\<lambda>s1.
           Option.bind (perform_if (prev = JOY_AXIS_NEGATIVE) (axis_negative axis) joyport 0 s1) (\<lambda>s2.
           Option.bind (perform_if (direction = JOY_AXIS_POSITIVE) (axis_positive axis) joyport 1 s2) (\<lambda>s3.
           Option.bind (perform_if (direction = JOY_AXIS_NEGATIVE) (axis_negative axis) joyport 1 s3) (\<lambda>s4.
           Some (axis\<lparr>axis_prev := direction\<rparr>, s4))))))"

definition joy_button_event ::
  "joystick_button \<Rightarrow> int \<Rightarrow> int \<Rightarrow> joy_state \<Rightarrow> (joystick_button \<times> joy_state) option" where
  "joy_button_event button joyport v s =
     (let pressed = (if v \<noteq> 0 then 1 else 0)
      in if v \<noteq> button_prev button
         then Option.bind (joy_perform_event (button_mapping button) joyport pressed s) (\<lambda>s1.
              Some (button\<lparr>button_prev := v\<rparr>, s1))
         else Some (button, s))"

text \<open>\<^verbatim>\<open>JOYSTICK_DIRECTION_UP\<close>, \<^verbatim>\<open>DOWN\<close>, \<^verbatim>\<open>LEFT\<close> and \<^verbatim>\<open>RIGHT\<close> are the bits 0 to 3.\<close>

definition joy_hat_event ::
  "joystick_hat \<Rightarrow> int \<Rightarrow> int \<Rightarrow> joy_state \<Rightarrow> (joystick_hat \<times> joy_state) option" where
  "joy_hat_event hat joyport v s =
     (let prev = hat_prev hat
      in if v = prev then Some (hat, s)
         else
           Option.bind (perform_if (bit prev 0 \<and> \<not> bit v 0) (hat_up hat) joyport 0 s) (\<lambda>s1.
           Option.bind (perform_if (bit prev 1 \<and> \<not> bit v 1) (hat_down hat) joyport 0 s1) (\<lambda>s2.
           Option.bind (perform_if (bit prev 2 \<and> \<not> bit v 2) (hat_left hat) joyport 0 s2) (\<lambda>s3.
           Option.bind (perform_if (bit prev 3 \<and> \<not> bit v 3) (hat_right hat) joyport 0 s3) (\<lambda>s4.
           Option.bind (perform_if (\<not> bit prev 0 \<and> bit v 0) (hat_up hat) joyport 1 s4) (\<lambda>s5.
           Option.bind (perform_if (\<not> bit prev 1 \<and> bit v 1) (hat_down hat) joyport 1 s5) (\<lambda>s6.
           Option.bind (perform_if (\<not> bit prev 2 \<and> bit v 2) (hat_left hat) joyport 1 s6) (\<lambda>s7.
           Option.bind (perform_if (\<not> bit prev 3 \<and> bit v 3) (hat_right hat) joyport 1 s7) (\<lambda>s8.
           Some (hat\<lparr>hat_prev := v\<rparr>, s8))))))))))"

text \<open>The entries of the trace that record a call of \<^verbatim>\<open>joy_perform_event\<close>.\<close>

fun is_perform :: "effect \<Rightarrow> bool" where
  "is_perform (Perform_event m p v) = True"
| "is_perform _ = False"

definition performs :: "joy_state \<Rightarrow> effect list" where
  "performs s = filter is_perform (trace s)"

subsection \<open>Reading a port, with autofire\<close>






subsection \<open>Snapshots\<close>

text \<open>The snapshot module interface (\<^verbatim>\<open>snapshot.c\<close>) is not among the sources. A snapshot
  is the list of its modules; a module has a name, a version and the words written to
  it with \<^verbatim>\<open>SMW_W\<close>, which \<^verbatim>\<open>SMR_W\<close> reads back in order. Creating a module and writing
  to it are taken to succeed.\<close>

record snapshot_module =
  sm_name :: string
  sm_major :: nat
  sm_minor :: nat
  sm_data :: "u16 list"

definition DUMP_VER_MAJOR :: nat where "DUMP_VER_MAJOR = 1"
definition DUMP_VER_MINOR :: nat where "DUMP_VER_MINOR = 2"

subsection \<open>Text\<close>

definition newline :: char where "newline = CHR 0x0A"
definition sq :: string where "sq = [CHR 0x27]"
definition bq :: string where "bq = [CHR 0x60]"

text \<open>The character classes of \<^verbatim>\<open>ctype.h\<close> in the C locale.\<close>

definition isspace :: "char \<Rightarrow> bool" where
  "isspace c \<longleftrightarrow> c = CHR '' '' \<or> (9 \<le> (of_char c :: int) \<and> (of_char c :: int) \<le> 13)"

definition isdigit :: "char \<Rightarrow> bool" where
  "isdigit c \<longleftrightarrow> 48 \<le> (of_char c :: int) \<and> (of_char c :: int) \<le> 57"

definition isalpha :: "char \<Rightarrow> bool" where
  "isalpha c \<longleftrightarrow> (65 \<le> (of_char c :: int) \<and> (of_char c :: int) \<le> 90) \<or>
                 (97 \<le> (of_char c :: int) \<and> (of_char c :: int) \<le> 122)"

definition isalnum :: "char \<Rightarrow> bool" where
  "isalnum c \<longleftrightarrow> isalpha c \<or> isdigit c"

definition digit_char :: "int \<Rightarrow> char" where
  "digit_char d = char_of (48 + d)"

definition digit_val :: "char \<Rightarrow> int" where
  "digit_val c = of_char c - 48"

text \<open>The decimal digits of a number that is not negative; \<^verbatim>\<open>printf\<close> of \<^verbatim>\<open>%i\<close> and
  \<^verbatim>\<open>%d\<close> for an \<^verbatim>\<open>int\<close>, and of \<^verbatim>\<open>%u\<close> for an \<^verbatim>\<open>int\<close> read as \<^verbatim>\<open>unsigned int\<close>.\<close>

function dec :: "int \<Rightarrow> string" where
  "dec n = (if n < 10 then [digit_char n] else dec (n div 10) @ [digit_char (n mod 10)])"
  by pat_completeness auto
termination
  by (relation "measure nat") auto

declare dec.simps [simp del]

definition print_int :: "int \<Rightarrow> string" where
  "print_int x = (if x < 0 then CHR ''-'' # dec (- x) else dec x)"

definition print_uint :: "int \<Rightarrow> string" where
  "print_uint x = dec (x mod 2 ^ 32)"

text \<open>\<^verbatim>\<open>strtol(text, &endptr, 10)\<close>: white space, an optional sign, decimal digits. Without
  a digit nothing is converted (\<open>None\<close>; the C function then stores \<^verbatim>\<open>text\<close> in
  \<^verbatim>\<open>endptr\<close>). The result is clamped to the range of a \<^verbatim>\<open>long\<close> of 64 bits.\<close>

definition digits_val :: "string \<Rightarrow> int" where
  "digits_val ds = foldl (\<lambda>a c. 10 * a + digit_val c) 0 ds"

definition strtol :: "string \<Rightarrow> (int \<times> string) option" where
  "strtol text =
     (let s1 = dropWhile isspace text;
          neg = (s1 \<noteq> [] \<and> hd s1 = CHR ''-'');
          s2 = (if s1 \<noteq> [] \<and> (hd s1 = CHR ''-'' \<or> hd s1 = CHR ''+'') then tl s1 else s1);
          ds = takeWhile isdigit s2
      in if ds = [] then None
         else (let n = digits_val ds;
                   v = (if neg then - n else n)
               in Some (max (- (2 ^ 63)) (min (2 ^ 63 - 1) v), dropWhile isdigit s2)))"

text \<open>\<^verbatim>\<open>parse_int\<close>: the \<^verbatim>\<open>long\<close> is cast to \<^verbatim>\<open>int\<close> unchecked.\<close>

definition parse_int :: "string \<Rightarrow> (int \<times> string) option" where
  "parse_int text = (case strtol text of None \<Rightarrow> None | Some (v, rest) \<Rightarrow> Some (s32 v, rest))"

text \<open>\<^verbatim>\<open>util_skip_whitespace\<close> (of \<^verbatim>\<open>util.c\<close>, not among the sources) skips the leading
  white space.\<close>

definition util_skip_whitespace :: "string \<Rightarrow> string" where
  "util_skip_whitespace s = dropWhile isspace s"

text \<open>\<^verbatim>\<open>parse_int_args\<close> with \<open>num\<close> values still wanted: the values parsed and the
  final \<^verbatim>\<open>endptr\<close>.\<close>

fun parse_int_args :: "nat \<Rightarrow> string \<Rightarrow> int list \<times> string" where
  "parse_int_args 0 text = ([], text)"
| "parse_int_args (Suc num) text =
     (let s = util_skip_whitespace text
      in case parse_int s of
           None \<Rightarrow> ([], s)
         | Some (v, rest) \<Rightarrow> (let (vs, e) = parse_int_args num rest in (v # vs, e)))"

subsection \<open>Devices and their registry\<close>

record joystick_device =
  dev_name :: string
  dev_vendor :: int
  dev_product :: int
  dev_axes :: "joystick_axis list"
  dev_buttons :: "joystick_button list"
  dev_hats :: "joystick_hat list"
  dev_disable_sort :: bool
  dev_joyport :: int

datatype log_entry = Log_error string | Log_warning string | Log_message string

datatype driver_call = Driver_close joystick_device | Device_free joystick_device

text \<open>
  \<open>joystick_devices\<close> holds the \<^verbatim>\<open>num_joystick_devices\<close> registered devices and
  \<open>devices_allocated\<close> says that the array pointer is not \<^verbatim>\<open>NULL\<close>. \<open>driver_customize\<close>
  is the driver's optional \<^verbatim>\<open>customize\<close> callback. \<open>ui_actions\<close> is the table of the
  user interface's actions, names with identifiers, behind \<^verbatim>\<open>ui_action_get_id\<close> and
  \<^verbatim>\<open>ui_action_get_name\<close>. \<open>reg_log\<close> holds the calls of the log, \<open>driver_calls\<close> those of
  the driver's \<^verbatim>\<open>close\<close> and of \<^verbatim>\<open>joystick_device_free\<close>.
\<close>

record joy_registry =
  joystick_devices :: "joystick_device list"
  devices_allocated :: bool
  max_joystick_devices :: nat
  driver_customize :: "(joystick_device \<Rightarrow> joystick_device) option"
  ui_actions :: "(string \<times> int) list"
  reg_log :: "log_entry list"
  driver_calls :: "driver_call list"

text \<open>Modelled from the spec: \<^verbatim>\<open>ui_action_get_id\<close> and \<^verbatim>\<open>ui_action_get_name\<close> belong to
  the user interface, whose sources are missing. A name resolves through the action
  table and an unknown name gives an identifier that is not above \<^verbatim>\<open>ACTION_NONE\<close>; an
  identifier without a name gives \<^verbatim>\<open>NULL\<close>.\<close>

definition ui_action_get_id :: "joy_registry \<Rightarrow> string \<Rightarrow> int" where
  "ui_action_get_id r name = (case map_of (ui_actions r) name of None \<Rightarrow> - 1 | Some a \<Rightarrow> a)"

definition ui_action_get_name :: "joy_registry \<Rightarrow> int \<Rightarrow> string option" where
  "ui_action_get_name r a = map_option fst (find (\<lambda>e. snd e = a) (ui_actions r))"

definition log_add :: "log_entry \<Rightarrow> joy_registry \<Rightarrow> joy_registry" where
  "log_add e r = r\<lparr>reg_log := reg_log r @ [e]\<rparr>"

definition upd_dev ::
  "nat \<Rightarrow> (joystick_device \<Rightarrow> joystick_device) \<Rightarrow> joy_registry \<Rightarrow> joy_registry" where
  "upd_dev i f r = r\<lparr>joystick_devices := (joystick_devices r)[i := f (joystick_devices r ! i)]\<rparr>"

subsection \<open>Writing the mapping file\<close>

definition JOY_INPUT_AXIS :: int where "JOY_INPUT_AXIS = 0"
definition JOY_INPUT_BUTTON :: int where "JOY_INPUT_BUTTON = 1"
definition JOY_INPUT_HAT :: int where "JOY_INPUT_HAT = 2"
definition JOY_INPUT_BALL :: int where "JOY_INPUT_BALL = 3"
definition JOY_INPUT_MAX :: int where "JOY_INPUT_MAX = 3"

definition JOY_ACTION_NONE :: int where "JOY_ACTION_NONE = 0"
definition JOY_ACTION_JOYSTICK :: int where "JOY_ACTION_JOYSTICK = 1"
definition JOY_ACTION_KEYBOARD :: int where "JOY_ACTION_KEYBOARD = 2"
definition JOY_ACTION_MAP :: int where "JOY_ACTION_MAP = 3"
definition JOY_ACTION_UI_ACTIVATE :: int where "JOY_ACTION_UI_ACTIVATE = 4"
definition JOY_ACTION_UI_FUNCTION :: int where "JOY_ACTION_UI_FUNCTION = 5"
definition JOY_ACTION_POT_AXIS :: int where "JOY_ACTION_POT_AXIS = 6"
definition JOY_ACTION_MAX :: int where "JOY_ACTION_MAX = 6"

fun action_number :: "joystick_mapping \<Rightarrow> int" where
  "action_number Action_none = JOY_ACTION_NONE"
| "action_number (Action_joystick pin) = JOY_ACTION_JOYSTICK"
| "action_number (Action_keyboard row col flags) = JOY_ACTION_KEYBOARD"
| "action_number Action_map = JOY_ACTION_MAP"
| "action_number Action_ui_activate = JOY_ACTION_UI_ACTIVATE"
| "action_number (Action_ui_function a) = JOY_ACTION_UI_FUNCTION"
| "action_number Action_pot_axis = JOY_ACTION_POT_AXIS"

text \<open>The lines of \<^verbatim>\<open>mapping_dump_header\<close>.\<close>

definition mapping_dump_header :: "string list" where
  "mapping_dump_header =
     [''# VICE joystick mapping file'',
      ''#'',
      ''# A joystick map is read in as patch to the current map.'',
      ''#'',
      ''# File format:'',
      ''# - comment lines start with '' @ sq @ ''#'' @ sq,
      ''# - keyword lines start with '' @ sq @ ''!keyword'' @ sq,
      ''# - normal line has '' @ sq @ ''joynum inputtype inputindex action'' @ sq,
      ''#'',
      ''# Keywords and their lines are:'',
      ''# '' @ sq @ ''!CLEAR'' @ sq @ ''    clear all mappings'',
      ''#'',
      ''# inputtype:'',
      ''# 0      axis'',
      ''# 1      button'',
      ''# 2      hat'',
      ''#'',
      ''# For buttons, inputindex is the zero-based index of the button.'',
      ''# For hats: hat 0 has inputindex 0,1,2,3 respectively for up, down, left and right. Hat 1 has 5,6,7,8 etc.'',
      ''# For axes, and action 1 (joystick) and 2 (keyboard): axis 0 has inputindex 0,1 respectively for positive and negative, axis 1 has 2,3 etc.'',
      ''# For axes, and action 6 (pot axis): inputindex is the zero-based index of the axis.'',
      ''#'',
      ''# action [action_parameters]:'',
      ''# 0               none'',
      ''# 1 pin           joystick (pin: 1/2/4/8/16/32/64 = u/d/l/r/fire/fire2/fire3)'',
      ''# 2 row col       keyboard'',
      ''# 3               map'',
      ''# 4               UI activate'',
      ''# 5 action-name   UI function'',
      ''# 6 pot           potentiometer (1=pot x, 2=pot y)'',
      ''#'',
      []]"

text \<open>\<^verbatim>\<open>mapping_dump_map\<close> prints one line; \<open>None\<close> when \<^verbatim>\<open>ui_action_get_name\<close>
  returns \<^verbatim>\<open>NULL\<close> for the \<^verbatim>\<open>%s\<close> of the UI function.\<close>

definition mapping_dump_map ::
  "joy_registry \<Rightarrow> int \<Rightarrow> int \<Rightarrow> int \<Rightarrow> joystick_mapping \<Rightarrow> string option" where
  "mapping_dump_map r device_index input_type map_index m =
     (let start = print_int device_index @ '' '' @ print_uint input_type @ '' '' @
                  print_int map_index @ '' '' @ print_uint (action_number m)
      in case m of
           Action_joystick pin \<Rightarrow> Some (start @ '' '' @ print_int (uint pin))
         | Action_keyboard row col flags \<Rightarrow>
             Some (start @ '' '' @ print_int row @ '' '' @ print_int col)
         | Action_ui_function a \<Rightarrow>
             (case ui_action_get_name r a of
                None \<Rightarrow> None
              | Some name \<Rightarrow> Some (start @ '' '' @ name))
         | _ \<Rightarrow> Some start)"

text \<open>Lines that may be missing, one after the other.\<close>

fun cat_lines :: "string list option list \<Rightarrow> string list option" where
  "cat_lines [] = Some []"
| "cat_lines (None # xs) = None"
| "cat_lines (Some ls # xs) = (case cat_lines xs of None \<Rightarrow> None | Some ms \<Rightarrow> Some (ls @ ms))"

definition one_line :: "string option \<Rightarrow> string list option" where
  "one_line l = map_option (\<lambda>x. [x]) l"

text \<open>The three loops over the inputs of a device, from input \<open>inp_idx\<close> on.\<close>

definition dump_axis :: "joy_registry \<Rightarrow> int \<Rightarrow> nat \<Rightarrow> joystick_axis \<Rightarrow> string list option" where
  "dump_axis r dev_idx inp_idx axis =
     (if axis_pot axis > 0
      then Some [print_int dev_idx @ '' '' @ print_int JOY_INPUT_AXIS @ '' '' @
                 print_int (int inp_idx) @ '' '' @ print_int JOY_ACTION_POT_AXIS @ '' '' @
                 print_uint (axis_pot axis), []]
      else cat_lines
             [one_line (mapping_dump_map r dev_idx JOY_INPUT_AXIS (int (2 * inp_idx) + 0) (axis_positive axis)),
              one_line (mapping_dump_map r dev_idx JOY_INPUT_AXIS (int (2 * inp_idx) + 1) (axis_negative axis)),
              Some [[]]])"

fun dump_axes :: "joy_registry \<Rightarrow> int \<Rightarrow> nat \<Rightarrow> joystick_axis list \<Rightarrow> string list option" where
  "dump_axes r dev_idx inp_idx [] = Some []"
| "dump_axes r dev_idx inp_idx (axis # axes) =
     cat_lines [dump_axis r dev_idx inp_idx axis, dump_axes r dev_idx (Suc inp_idx) axes]"

fun dump_buttons :: "joy_registry \<Rightarrow> int \<Rightarrow> nat \<Rightarrow> joystick_button list \<Rightarrow> string list option" where
  "dump_buttons r dev_idx inp_idx [] = Some []"
| "dump_buttons r dev_idx inp_idx (button # buttons) =
     cat_lines
       [one_line (mapping_dump_map r dev_idx JOY_INPUT_BUTTON (int inp_idx) (button_mapping button)),
        dump_buttons r dev_idx (Suc inp_idx) buttons]"

definition dump_hat :: "joy_registry \<Rightarrow> int \<Rightarrow> nat \<Rightarrow> joystick_hat \<Rightarrow> string list option" where
  "dump_hat r dev_idx inp_idx hat =
     cat_lines
       [one_line (mapping_dump_map r dev_idx JOY_INPUT_HAT (int (4 * inp_idx) + 0) (hat_up hat)),
        one_line (mapping_dump_map r dev_idx JOY_INPUT_HAT (int (4 * inp_idx) + 1) (hat_down hat)),
        one_line (mapping_dump_map r dev_idx JOY_INPUT_HAT (int (4 * inp_idx) + 2) (hat_left hat)),
        one_line (mapping_dump_map r dev_idx JOY_INPUT_HAT (int (4 * inp_idx) + 3) (hat_right hat))]"

fun dump_hats :: "joy_registry \<Rightarrow> int \<Rightarrow> nat \<Rightarrow> joystick_hat list \<Rightarrow> string list option" where
  "dump_hats r dev_idx inp_idx [] = Some []"
| "dump_hats r dev_idx inp_idx (hat # hats) =
     cat_lines [dump_hat r dev_idx inp_idx hat, dump_hats r dev_idx (Suc inp_idx) hats]"

text \<open>The loop over the devices, from device \<open>dev_idx\<close> on.\<close>

fun dump_devices :: "joy_registry \<Rightarrow> nat \<Rightarrow> joystick_device list \<Rightarrow> string list option" where
  "dump_devices r dev_idx [] = Some []"
| "dump_devices r dev_idx (joydev # devs) =
     cat_lines
       [Some [''# '' @ dev_name joydev],
        dump_axes r (int dev_idx) 0 (dev_axes joydev),
        dump_buttons r (int dev_idx) 0 (dev_buttons joydev),
        Some [[]],
        dump_hats r (int dev_idx) 0 (dev_hats joydev),
        Some (if devs \<noteq> [] then [[], []] else []),
        dump_devices r (Suc dev_idx) devs]"

definition dump_lines :: "joy_registry \<Rightarrow> string list option" where
  "dump_lines r =
     cat_lines [Some mapping_dump_header, Some [''!CLEAR'', []],
                dump_devices r 0 (joystick_devices r)]"

text \<open>Every \<^verbatim>\<open>fprintf\<close> of the dump ends its line, so the file is its lines, each
  with its newline.\<close>

definition file_text :: "string list \<Rightarrow> string" where
  "file_text ls = concat (map (\<lambda>l. l @ [newline]) ls)"

text \<open>\<^verbatim>\<open>joy_arch_mapping_dump\<close>: the status and the text written. \<open>can_open\<close> says
  whether \<^verbatim>\<open>fopen\<close> succeeds.\<close>

definition joy_arch_mapping_dump ::
  "string option \<Rightarrow> bool \<Rightarrow> joy_registry \<Rightarrow> (int \<times> string option) option" where
  "joy_arch_mapping_dump filename can_open r =
     (if filename = None then Some (- 1, None)
      else if \<not> can_open then Some (- 1, None)
      else case dump_lines r of
             None \<Rightarrow> None
           | Some ls \<Rightarrow> Some (0, Some (file_text ls)))"

subsection \<open>Reading the mapping file\<close>

text \<open>\<^verbatim>\<open>joy_arch_keyword_clear\<close>. It writes the action of every directional, button and
  hat mapping; it does not write \<^verbatim>\<open>mapping.pot\<close>.\<close>

definition clear_axis :: "joystick_axis \<Rightarrow> joystick_axis" where
  "clear_axis a = a\<lparr>axis_positive := Action_none, axis_negative := Action_none\<rparr>"

definition clear_button :: "joystick_button \<Rightarrow> joystick_button" where
  "clear_button b = b\<lparr>button_mapping := Action_none\<rparr>"

definition clear_hat :: "joystick_hat \<Rightarrow> joystick_hat" where
  "clear_hat h = h\<lparr>hat_up := Action_none, hat_down := Action_none,
                    hat_left := Action_none, hat_right := Action_none\<rparr>"

definition clear_device :: "joystick_device \<Rightarrow> joystick_device" where
  "clear_device d = d\<lparr>dev_axes := map clear_axis (dev_axes d),
                       dev_buttons := map clear_button (dev_buttons d),
                       dev_hats := map clear_hat (dev_hats d)\<rparr>"

definition joy_arch_keyword_clear :: "joy_registry \<Rightarrow> joy_registry" where
  "joy_arch_keyword_clear r = r\<lparr>joystick_devices := map clear_device (joystick_devices r)\<rparr>"

text \<open>\<^verbatim>\<open>strtok(buffer + 1, " \t:")\<close>, first call: the first token, \<open>None\<close> for
  \<^verbatim>\<open>NULL\<close> when there is none.\<close>

definition is_delim :: "char \<Rightarrow> bool" where
  "is_delim c \<longleftrightarrow> c = CHR '' '' \<or> c = CHR 0x09 \<or> c = CHR '':''"

definition strtok_first :: "string \<Rightarrow> string option" where
  "strtok_first s =
     (let t = dropWhile is_delim s
      in if t = [] then None else Some (takeWhile (\<lambda>c. \<not> is_delim c) t))"

text \<open>\<^verbatim>\<open>joy_arch_parse_keyword\<close>: \<^verbatim>\<open>strcmp\<close> on \<^verbatim>\<open>NULL\<close> is undefined.\<close>

definition joy_arch_parse_keyword :: "string \<Rightarrow> joy_registry \<Rightarrow> joy_registry option" where
  "joy_arch_parse_keyword buffer r =
     (case strtok_first (tl buffer) of
        None \<Rightarrow> None
      | Some key \<Rightarrow> if key = ''CLEAR'' then Some (joy_arch_keyword_clear r) else Some r)"

record parser_state =
  ps_filename :: string
  ps_lineno :: int
  ps_joy_index :: int
  ps_input_type :: int
  ps_input_index :: int
  ps_action :: int
  ps_pin :: u16
  ps_pot :: int
  ps_ui_action_id :: int
  ps_key_row :: int
  ps_key_column :: int
  ps_key_flags :: int

text \<open>\<^verbatim>\<open>parser_log_error\<close>: \<^verbatim>\<open>log_error(joy_log, "%s:%d: %s", filename, lineno, message)\<close>.
  The messages of this file are shorter than the buffer of 1024 characters they are
  formatted into.\<close>

definition parser_log_error :: "parser_state \<Rightarrow> string \<Rightarrow> joy_registry \<Rightarrow> joy_registry" where
  "parser_log_error st message r =
     log_add (Log_error (ps_filename st @ '':'' @ print_int (ps_lineno st) @ '': '' @ message)) r"

text \<open>\<^verbatim>\<open>parser_set_mapping\<close>: the mapping the state describes. The default branch only
  logs: the action number it would store has no constructor, and
  \<^verbatim>\<open>joy_arch_parse_entry\<close> has rejected such a number before.\<close>

definition parser_set_mapping ::
  "parser_state \<Rightarrow> joystick_mapping \<Rightarrow> joystick_mapping \<times> string option" where
  "parser_set_mapping st m =
     (let a = ps_action st
      in if a = JOY_ACTION_NONE then (Action_none, None)
         else if a = JOY_ACTION_MAP then (Action_map, None)
         else if a = JOY_ACTION_UI_ACTIVATE then (Action_ui_activate, None)
         else if a = JOY_ACTION_JOYSTICK then (Action_joystick (ps_pin st), None)
         else if a = JOY_ACTION_KEYBOARD
           then (Action_keyboard (ps_key_row st) (ps_key_column st) (ps_key_flags st), None)
         else if a = JOY_ACTION_UI_FUNCTION then (Action_ui_function (ps_ui_action_id st), None)
         else if a = JOY_ACTION_POT_AXIS then (Action_pot_axis, None)
         else (m, Some (''unknown action '' @ print_int a @ ''.'')))"

definition log_opt :: "parser_state \<Rightarrow> string option \<Rightarrow> joy_registry \<Rightarrow> joy_registry" where
  "log_opt st e r = (case e of None \<Rightarrow> r | Some message \<Rightarrow> parser_log_error st message r)"

text \<open>The three setters read \<^verbatim>\<open>joystick_devices[state->joy_index]\<close>; the caller has
  checked that index.\<close>

definition parser_set_axis :: "parser_state \<Rightarrow> joy_registry \<Rightarrow> bool \<times> joy_registry" where
  "parser_set_axis st r =
     (let d = nat (ps_joy_index st);
          joydev = joystick_devices r ! d;
          too_large = parser_log_error st
             (''input index '' @ print_int (ps_input_index st) @
              '' too large for input type axis (pot), joystick '' @
              print_int (ps_joy_index st) @ ''.'')
      in if ps_action st = JOY_ACTION_POT_AXIS
         then (if ps_input_index st < int (length (dev_axes joydev))
               then (True, upd_dev d (\<lambda>dev. dev\<lparr>dev_axes := (dev_axes dev)
                        [nat (ps_input_index st) :=
                           (dev_axes dev ! nat (ps_input_index st))\<lparr>axis_pot := ps_pot st\<rparr>]\<rparr>) r)
               else (False, too_large r))
         else (let index = ps_input_index st div 2;
                   direction = ps_input_index st mod 2
               in if index < int (length (dev_axes joydev))
                  then (let axis = dev_axes joydev ! nat index;
                            (m, e) = parser_set_mapping st
                                       (if direction = 0 then axis_positive axis
                                        else axis_negative axis);
                            axis' = (if direction = 0 then axis\<lparr>axis_positive := m\<rparr>
                                     else axis\<lparr>axis_negative := m\<rparr>)
                        in (True, log_opt st e
                              (upd_dev d (\<lambda>dev. dev\<lparr>dev_axes := (dev_axes dev)[nat index := axis']\<rparr>) r)))
                  else (False, too_large r)))"

definition parser_set_button :: "parser_state \<Rightarrow> joy_registry \<Rightarrow> bool \<times> joy_registry" where
  "parser_set_button st r =
     (let d = nat (ps_joy_index st);
          joydev = joystick_devices r ! d;
          index = ps_input_index st
      in if index < int (length (dev_buttons joydev))
         then (let button = dev_buttons joydev ! nat index;
                   (m, e) = parser_set_mapping st (button_mapping button)
               in (True, log_opt st e
                     (upd_dev d (\<lambda>dev. dev\<lparr>dev_buttons := (dev_buttons dev)
                        [nat index := button\<lparr>button_mapping := m\<rparr>]\<rparr>) r)))
         else (False, parser_log_error st
                 (''invalid button index '' @ print_int index @ '' for joystick '' @
                  print_int (ps_joy_index st) @ ''.'') r))"

definition parser_set_hat :: "parser_state \<Rightarrow> joy_registry \<Rightarrow> bool \<times> joy_registry" where
  "parser_set_hat st r =
     (let index = ps_input_index st div 4;
          direction = ps_input_index st mod 4;
          d = nat (ps_joy_index st);
          joydev = joystick_devices r ! d
      in if index < int (length (dev_hats joydev))
         then (let hat = dev_hats joydev ! nat index;
                   (m, e) = parser_set_mapping st
                              (if direction = 0 then hat_up hat
                               else if direction = 1 then hat_down hat
                               else if direction = 2 then hat_left hat
                               else hat_right hat);
                   hat' = (if direction = 0 then hat\<lparr>hat_up := m\<rparr>
                           else if direction = 1 then hat\<lparr>hat_down := m\<rparr>
                           else if direction = 2 then hat\<lparr>hat_left := m\<rparr>
                           else hat\<lparr>hat_right := m\<rparr>)
               in (True, log_opt st e
                     (upd_dev d (\<lambda>dev. dev\<lparr>dev_hats := (dev_hats dev)[nat index := hat']\<rparr>) r)))
         else (False, parser_log_error st (''invalid hat index '' @ print_int index @ ''.'') r))"

definition parser_set_ball :: "parser_state \<Rightarrow> joy_registry \<Rightarrow> bool \<times> joy_registry" where
  "parser_set_ball st r = (False, parser_log_error st ''balls are currently not supported.'' r)"

text \<open>The characters of a UI action name after its first letter.\<close>

definition is_name_char :: "char \<Rightarrow> bool" where
  "is_name_char c \<longleftrightarrow> isalnum c \<or> c = CHR ''_'' \<or> c = CHR ''-'' \<or> c = CHR '':''"

text \<open>The arguments of the action, read from \<^verbatim>\<open>state.bufptr\<close>: the state with the
  arguments, or the message of the error. \<open>None\<close> is the write past the 256 characters
  of \<^verbatim>\<open>action_name\<close>.\<close>

definition parse_action_args ::
  "joy_registry \<Rightarrow> parser_state \<Rightarrow> string \<Rightarrow> (string + parser_state) option" where
  "parse_action_args r st bufptr =
     (let a = ps_action st
      in if a = JOY_ACTION_JOYSTICK
         then (case parse_int bufptr of
                 None \<Rightarrow> Some (Inl ''missing joystick pin number.'')
               | Some (itmp, e) \<Rightarrow>
                   if itmp < 0 \<or> itmp > 65535
                   then Some (Inl (''pin number '' @ print_int itmp @ '' out of bounds.''))
                   else Some (Inr (st\<lparr>ps_pin := word_of_int itmp\<rparr>)))
         else if a = JOY_ACTION_KEYBOARD
         then (let (key_args, e) = parse_int_args 3 bufptr; nargs = length key_args
               in if nargs < 2
                  then Some (Inl (''incomplete argument list for key press, got '' @
                                  print_int (int nargs) @ '' argument(s), expected 2 or 3.''))
                  else Some (Inr (st\<lparr>ps_key_row := key_args ! 0,
                                       ps_key_column := key_args ! 1,
                                       ps_key_flags := (if nargs = 3 then key_args ! 2 else 0)\<rparr>)))
         else if a = JOY_ACTION_UI_FUNCTION
         then (case bufptr of
                 [] \<Rightarrow> Some (Inl ''missing UI action name'')
               | c # cs \<Rightarrow>
                   if \<not> isalpha c then Some (Inl (''invalid UI action name: '' @ bufptr))
                   else (let action_name = take 256 (c # takeWhile is_name_char cs)
                         in if length action_name = 256 then None
                            else (let a_id = ui_action_get_id r action_name
                                  in if a_id \<le> ACTION_NONE
                                     then Some (Inl (''invalid action '' @ sq @ action_name @ sq))
                                     else Some (Inr (st\<lparr>ps_ui_action_id := a_id\<rparr>)))))
         else if a = JOY_ACTION_POT_AXIS
         then (case parse_int bufptr of
                 None \<Rightarrow> Some (Inl ''missing potentiometer number.'')
               | Some (pot, e) \<Rightarrow> Some (Inr (st\<lparr>ps_pot := pot\<rparr>)))
         else Some (Inr st))"

text \<open>\<^verbatim>\<open>joy_arch_parse_entry\<close>: whether the line was applied, and the registry.\<close>

definition joy_arch_parse_entry ::
  "string \<Rightarrow> string \<Rightarrow> int \<Rightarrow> joy_registry \<Rightarrow> (bool \<times> joy_registry) option" where
  "joy_arch_parse_entry buffer filename lineno r =
     (let (args, endptr) = parse_int_args 4 buffer;
          nargs = length args;
          st0 = \<lparr>ps_filename = filename, ps_lineno = lineno,
                 ps_joy_index = 0, ps_input_type = 0, ps_input_index = 0, ps_action = 0,
                 ps_pin = 0, ps_pot = 0, ps_ui_action_id = 0,
                 ps_key_row = 0, ps_key_column = 0, ps_key_flags = 0\<rparr>;
          fail = (\<lambda>message. Some (False, parser_log_error st0 message r))
      in if nargs < 1 then fail ''missing joystick number.''
         else if args ! 0 < 0 \<or> args ! 0 \<ge> int (length (joystick_devices r))
           then fail (''could not find joystick '' @ print_int (args ! 0) @ ''.'')
         else if nargs < 2 then fail ''missing input type.''
         else if args ! 1 < 0 \<or> args ! 1 > JOY_INPUT_MAX
           then fail (''invalid input type '' @ print_int (args ! 1) @ ''.'')
         else if nargs < 3 then fail ''missing input type.''
         else if args ! 2 < 0 then fail ''input index cannot be negative.''
         else if nargs < 4 then fail ''missing action number.''
         else if args ! 3 < JOY_ACTION_NONE \<or> args ! 3 > JOY_ACTION_MAX
           then fail (''invalid action number '' @ print_int (args ! 3) @ ''.'')
         else
           (let st1 = st0\<lparr>ps_joy_index := args ! 0, ps_input_type := args ! 1,
                           ps_input_index := args ! 2, ps_action := args ! 3\<rparr>
            in case parse_action_args r st1 (util_skip_whitespace endptr) of
                 None \<Rightarrow> None
               | Some (Inl message) \<Rightarrow> fail message
               | Some (Inr st) \<Rightarrow>
                   if ps_input_type st = JOY_INPUT_AXIS then Some (parser_set_axis st r)
                   else if ps_input_type st = JOY_INPUT_BUTTON then Some (parser_set_button st r)
                   else if ps_input_type st = JOY_INPUT_HAT then Some (parser_set_hat st r)
                   else if ps_input_type st = JOY_INPUT_BALL then Some (parser_set_ball st r)
                   else Some (False, parser_log_error st
                                (''unsupported input type '' @ print_uint (ps_input_type st) @ ''.'') r)))"

text \<open>\<^verbatim>\<open>fgets(buffer, size, fp)\<close> with room for \<open>n\<close> more characters: the characters
  read, up to and with the first newline, and the rest of the file.\<close>

fun fgets :: "nat \<Rightarrow> string \<Rightarrow> string \<times> string" where
  "fgets 0 text = ([], text)"
| "fgets (Suc n) [] = ([], [])"
| "fgets (Suc n) (c # cs) =
     (if c = newline then ([c], cs)
      else (case fgets n cs of (l, rest) \<Rightarrow> (c # l, rest)))"

lemma fgets_split: "fst (fgets n t) @ snd (fgets n t) = t"
proof (induction n t rule: fgets.induct)
  case (1 t)
  show ?case by simp
next
  case (2 n)
  show ?case by simp
next
  case (3 n c cs)
  then show ?case by (simp add: split_def)
qed

lemma fgets_shorter: "t \<noteq> [] \<Longrightarrow> length (snd (fgets (Suc n) t)) < length t"
proof -
  assume "t \<noteq> []"
  then have "fst (fgets (Suc n) t) \<noteq> []"
    by (cases t) (simp_all add: split_def)
  moreover have "length (fst (fgets (Suc n) t)) + length (snd (fgets (Suc n) t)) = length t"
    using fgets_split [of "Suc n" t] by (metis length_append)
  ultimately show ?thesis by (cases "fst (fgets (Suc n) t)") simp_all
qed

text \<open>A buffer as a C string: the characters before the first NUL.\<close>

definition c_string :: "string \<Rightarrow> string" where
  "c_string buf = takeWhile (\<lambda>c. c \<noteq> CHR 0x00) buf"

text \<open>The body of the loop for one buffer that \<^verbatim>\<open>fgets\<close> has filled: the last
  character is dropped, the comment is cut, the leading blanks are skipped, and the
  line is a keyword line, an entry or nothing.\<close>

definition strip_line :: "string \<Rightarrow> string" where
  "strip_line buf =
     dropWhile (\<lambda>c. c = CHR '' '' \<or> c = CHR 0x09)
       (takeWhile (\<lambda>c. c \<noteq> CHR ''#'') (butlast buf))"

definition parse_line :: "string \<Rightarrow> string \<Rightarrow> int \<Rightarrow> joy_registry \<Rightarrow> joy_registry option" where
  "parse_line buf filename lineno r =
     (let p = strip_line buf
      in if p = [] then Some r
         else if hd p = CHR ''!'' then joy_arch_parse_keyword p r
         else map_option snd (joy_arch_parse_entry p filename lineno r))"

text \<open>The loop of \<^verbatim>\<open>joy_arch_mapping_load\<close> over the text still unread. \<^verbatim>\<open>fgets\<close> is
  called with \<^verbatim>\<open>sizeof buffer - 1u\<close>, which is 999, so it reads at most 998 characters.
  The loop ends at the end of the file, and on a buffer of length zero.\<close>

function load_loop :: "string \<Rightarrow> int \<Rightarrow> string \<Rightarrow> joy_registry \<Rightarrow> joy_registry option" where
  "load_loop filename lineno text r =
     (if text = [] then Some r
      else (let buf = c_string (fst (fgets 998 text))
            in if buf = [] then Some r
               else (case parse_line buf filename lineno r of
                       None \<Rightarrow> None
                     | Some r' \<Rightarrow> load_loop filename (lineno + 1) (snd (fgets 998 text)) r')))"
  by pat_completeness auto
termination
proof (relation "measure (\<lambda>(filename, lineno, txt, r). length txt)")
  show "wf (measure (\<lambda>(filename, lineno, txt, r). length txt))" by simp
next
  show "\<And>filename lineno txt r x r'. txt \<noteq> [] \<Longrightarrow>
       ((filename, lineno + 1, snd (fgets 998 txt), r'), (filename, lineno, txt, r))
          \<in> measure (\<lambda>(filename, lineno, txt, r). length txt)"
    using fgets_shorter [of _ 997] by simp
qed

declare load_loop.simps [simp del]

text \<open>\<^verbatim>\<open>joy_arch_mapping_load\<close>. The file system is a function from a file name to the
  complete path and the text of the file, \<open>None\<close> when \<^verbatim>\<open>sysfile_open\<close> fails.\<close>

definition joy_arch_mapping_load ::
  "string option \<Rightarrow> (string \<Rightarrow> (string \<times> string) option) \<Rightarrow> joy_registry
     \<Rightarrow> (int \<times> joy_registry) option" where
  "joy_arch_mapping_load filename fs r =
     (if \<not> devices_allocated r then Some (0, r)
      else case filename of
             None \<Rightarrow> Some (- 1, r)
           | Some name \<Rightarrow>
               (case fs name of
                  None \<Rightarrow> Some (- 1, log_add (Log_warning (''Failed to open '' @ bq @ name @ sq @ ''.'')) r)
                | Some (complete_path, text) \<Rightarrow>
                    map_option (\<lambda>r'. (0, r'))
                      (load_loop name 1 text
                         (log_add (Log_message (''Loading joystick map '' @ bq @ complete_path @ sq @ ''.'')) r))))"

subsection \<open>Registering a device\<close>

definition JOYSTICK_DIRECTION_UP :: u16 where "JOYSTICK_DIRECTION_UP = 1"
definition JOYSTICK_DIRECTION_DOWN :: u16 where "JOYSTICK_DIRECTION_DOWN = 2"
definition JOYSTICK_DIRECTION_LEFT :: u16 where "JOYSTICK_DIRECTION_LEFT = 4"
definition JOYSTICK_DIRECTION_RIGHT :: u16 where "JOYSTICK_DIRECTION_RIGHT = 8"
definition JOYPORT_FIRE_POTX :: u16 where "JOYPORT_FIRE_POTX = 0x20"
definition JOYPORT_FIRE_POTY :: u16 where "JOYPORT_FIRE_POTY = 0x40"

text \<open>The test at the head of \<^verbatim>\<open>joystick_device_register\<close>.\<close>

definition min_inputs :: "joystick_device \<Rightarrow> bool" where
  "min_inputs joydev \<longleftrightarrow>
     (length (dev_axes joydev) \<ge> 2 \<or> length (dev_hats joydev) \<ge> 1) \<and>
     length (dev_buttons joydev) \<ge> 1"

definition joystick_device_trim_name :: "joystick_device \<Rightarrow> joystick_device" where
  "joystick_device_trim_name joydev =
     (let trimmed = rev (dropWhile isspace (rev (dev_name joydev)))
      in joydev\<lparr>dev_name := (if length trimmed > 255 then take 255 trimmed else trimmed)\<rparr>)"

text \<open>\<^verbatim>\<open>order_inputs_on_code\<close>. \<^verbatim>\<open>qsort\<close> does not say in which order it leaves inputs
  of equal code; the model keeps their order.\<close>

definition order_inputs_on_code :: "joystick_device \<Rightarrow> joystick_device" where
  "order_inputs_on_code joydev =
     joydev\<lparr>
       dev_axes := map (\<lambda>(i, a). a\<lparr>axis_index := int i\<rparr>)
                     (enumerate 0 (sort_key axis_code (dev_axes joydev))),
       dev_buttons := map (\<lambda>(i, b). b\<lparr>button_index := int i\<rparr>)
                        (enumerate 0 (sort_key button_code (dev_buttons joydev))),
       dev_hats := map (\<lambda>(i, h). h\<lparr>hat_index := int i\<rparr>)
                     (enumerate 0 (sort_key hat_code (dev_hats joydev)))\<rparr>"

text \<open>\<^verbatim>\<open>joystick_device_apply_default_mapping\<close>: its result, the device and the
  warnings.\<close>

definition map_buttons_default :: "joystick_button list \<Rightarrow> joystick_button list" where
  "map_buttons_default bs =
     (let bs0 = bs[0 := (bs ! 0)\<lparr>button_mapping := Action_joystick JOYPORT_FIRE\<rparr>];
          bs1 = (if length bs > 1
                 then bs0[1 := (bs0 ! 1)\<lparr>button_mapping := Action_joystick JOYPORT_FIRE_POTX\<rparr>]
                 else bs0)
      in if length bs > 2
         then bs1[2 := (bs1 ! 2)\<lparr>button_mapping := Action_joystick JOYPORT_FIRE_POTY\<rparr>]
         else bs1)"

definition joystick_device_apply_default_mapping ::
  "joystick_device \<Rightarrow> bool \<times> joystick_device \<times> log_entry list" where
  "joystick_device_apply_default_mapping joydev =
     (if length (dev_hats joydev) = 0 \<and> \<not> length (dev_axes joydev) > 1
      then (False, joydev,
            [Log_warning ''Controller has no hats nor at least two axes - could not apply default mapping.''])
      else
        (let d1 =
           (if length (dev_hats joydev) > 0
            then joydev\<lparr>dev_hats := (dev_hats joydev)
                   [0 := (dev_hats joydev ! 0)\<lparr>
                      hat_up := Action_joystick JOYSTICK_DIRECTION_UP,
                      hat_down := Action_joystick JOYSTICK_DIRECTION_DOWN,
                      hat_left := Action_joystick JOYSTICK_DIRECTION_LEFT,
                      hat_right := Action_joystick JOYSTICK_DIRECTION_RIGHT\<rparr>]\<rparr>
            else joydev\<lparr>dev_axes := (dev_axes joydev)
                   [0 := (dev_axes joydev ! 0)\<lparr>
                      axis_negative := Action_joystick JOYSTICK_DIRECTION_LEFT,
                      axis_positive := Action_joystick JOYSTICK_DIRECTION_RIGHT\<rparr>,
                    1 := (dev_axes joydev ! 1)\<lparr>
                      axis_negative := Action_joystick JOYSTICK_DIRECTION_UP,
                      axis_positive := Action_joystick JOYSTICK_DIRECTION_DOWN\<rparr>]\<rparr>)
         in if length (dev_buttons d1) = 0
            then (False, d1,
                  [Log_warning ''Controller has no buttons - could not apply default mapping.''])
            else (True, d1\<lparr>dev_buttons := map_buttons_default (dev_buttons d1)\<rparr>, [])))"








subsection \<open>Snapshot modules of a port\<close>

text \<open>The name \<^verbatim>\<open>sprintf\<close> writes into \<^verbatim>\<open>snapshot_name[16]\<close>.\<close>

definition snapshot_name :: "int \<Rightarrow> string option" where
  "snapshot_name port =
     (let name = ''JOYSTICK'' @ print_int port in if length name > 15 then None else Some name)"

definition joystick_snapshot_write_module ::
  "snapshot_module list \<Rightarrow> int \<Rightarrow> joy_state \<Rightarrow> (int \<times> snapshot_module list) option" where
  "joystick_snapshot_write_module snap port s =
     (case snapshot_name port of
        None \<Rightarrow> None
      | Some name \<Rightarrow>
          if port < 0 then None
          else (case rd (joystick_value s) (nat port) of
                  None \<Rightarrow> None
                | Some v \<Rightarrow>
                    Some (0, snap @ [\<lparr>sm_name = name, sm_major = DUMP_VER_MAJOR,
                                      sm_minor = DUMP_VER_MINOR, sm_data = [v]\<rparr>])))"

text \<open>\<^verbatim>\<open>joystick_snapshot_read_module\<close> reads the word into
  \<^verbatim>\<open>joystick_value[port + 1]\<close>.\<close>

definition joystick_snapshot_read_module ::
  "snapshot_module list \<Rightarrow> int \<Rightarrow> joy_state \<Rightarrow> (int \<times> joy_state) option" where
  "joystick_snapshot_read_module snap port s =
     (case snapshot_name port of
        None \<Rightarrow> None
      | Some name \<Rightarrow>
          (case find (\<lambda>m. sm_name m = name) snap of
             None \<Rightarrow> Some (- 1, s)
           | Some m \<Rightarrow>
               if \<not> (sm_major m = DUMP_VER_MAJOR \<and> sm_minor m = DUMP_VER_MINOR)
               then Some (- 1, s)
               else (case sm_data m of
                       [] \<Rightarrow> Some (- 1, s)
                     | w # ws \<Rightarrow>
                         if port + 1 < 0 then None
                         else (case wr (joystick_value s) (nat (port + 1)) w of
                                 None \<Rightarrow> None
                               | Some jv \<Rightarrow> Some (0, s\<lparr>joystick_value := jv\<rparr>)))))"

subsection \<open>Notions used to state the properties\<close>

text \<open>What the operations on the latch and on the counters never write.\<close>

definition same_config :: "joy_state \<Rightarrow> joy_state \<Rightarrow> bool" where
  "same_config s s' \<longleftrightarrow>
     playback_active s' = playback_active s \<and>
     joystick_opposite_enable s' = joystick_opposite_enable s \<and>
     max_pins s' = max_pins s \<and>
     joystick_value s' = joystick_value s \<and>
     joystick_autofire_enable s' = joystick_autofire_enable s \<and>
     joystick_autofire_mode s' = joystick_autofire_mode s \<and>
     joystick_autofire_speed s' = joystick_autofire_speed s \<and>
     joystick_hook s' = joystick_hook s \<and>
     joystick_hook_mask s' = joystick_hook_mask s \<and>
     length (joystick_hook_state s') = length (joystick_hook_state s)"

text \<open>The value \<^verbatim>\<open>joystick_set_value_or\<close> leaves in the latch.\<close>

definition or_value :: "int \<Rightarrow> u16 \<Rightarrow> u16 \<Rightarrow> u16" where
  "or_value en old v =
     (if en = 0 then (old OR v) AND NOT (joystick_opposite_direction ! unat (v AND 0xf))
      else old OR v)"

text \<open>The counters of one port after the loops of press and of release.\<close>

fun press_row :: "nat list \<Rightarrow> u16 \<Rightarrow> int list \<Rightarrow> int list" where
  "press_row [] v row = row"
| "press_row (i # pins) v row = press_row pins v (if bit v i then row[i := row ! i + 1] else row)"

fun release_row :: "nat list \<Rightarrow> u16 \<Rightarrow> int list \<Rightarrow> int list" where
  "release_row [] v row = row"
| "release_row (i # pins) v row =
     release_row pins v (if bit v i \<and> row ! i > 0 then row[i := row ! i - 1] else row)"

text \<open>Whether the release loop meets a counter that is zero after its decrement.\<close>

definition release_hits :: "nat list \<Rightarrow> u16 \<Rightarrow> int list \<Rightarrow> bool" where
  "release_hits pins v row = list_ex (\<lambda>i. bit v i \<and> (row ! i = 0 \<or> row ! i = 1)) pins"

text \<open>A sequence of dispatches on one port, and a bit of the latched value of a port.\<close>

fun dispatch_all :: "int \<Rightarrow> (joystick_mapping \<times> int) list \<Rightarrow> joy_state \<Rightarrow> joy_state option" where
  "dispatch_all joyport [] s = Some s"
| "dispatch_all joyport ((m, v) # es) s =
     (case joy_perform_event m joyport v s of
        None \<Rightarrow> None
      | Some s' \<Rightarrow> dispatch_all joyport es s')"

definition latched_bit :: "nat \<Rightarrow> nat \<Rightarrow> joy_state option \<Rightarrow> bool option" where
  "latched_bit p i r = map_option (\<lambda>s. bit (latch_values s ! p) i) r"

text \<open>A sequence of raw values reported for one button.\<close>

fun button_events ::
  "joystick_button \<Rightarrow> int \<Rightarrow> int list \<Rightarrow> joy_state \<Rightarrow> (joystick_button \<times> joy_state) option" where
  "button_events button joyport [] s = Some (button, s)"
| "button_events button joyport (v # vs) s =
     (case joy_button_event button joyport v s of
        None \<Rightarrow> None
      | Some (button', s') \<Rightarrow> button_events button' joyport vs s')"


subsection \<open>Example states\<close>

definition playback_state :: joy_state where
  "playback_state = init_state\<lparr>playback_active := True\<rparr>"

definition both_state :: joy_state where
  "both_state = init_state\<lparr>playback_active := True,
     latch_joystick_value := \<lparr>last_used_joyport = 0, jvalues = replicate 11 0x0c\<rparr>\<rparr>"


definition fire_state :: joy_state where
  "fire_state = init_state\<lparr>joystick_value := (replicate 11 0)[0 := 0x10]\<rparr>"

definition fire_button :: joystick_button where
  "fire_button = \<lparr>button_code = 0, button_prev = 0, button_index = 0,
                   button_mapping = Action_joystick 0x10\<rparr>"

text \<open>A registry with one pad of two axes, two buttons and a hat. The first axis drives
  potentiometer 1 and has its positive direction mapped as well; the first button is a
  key.\<close>

definition pad :: joystick_device where
  "pad = \<lparr>dev_name = ''Pad'', dev_vendor = 0x45e, dev_product = 0x28e,
      dev_axes =
        [\<lparr>axis_code = 0, axis_prev = JOY_AXIS_MIDDLE, axis_index = 0,
           axis_minimum = - 32768, axis_maximum = 32767, axis_digital = False,
           axis_invert = False, axis_threshold_negative = - 16384,
           axis_threshold_positive = 16384,
           axis_positive = Action_joystick 8, axis_negative = Action_none, axis_pot = 1\<rparr>,
         \<lparr>axis_code = 1, axis_prev = JOY_AXIS_MIDDLE, axis_index = 1,
           axis_minimum = - 32768, axis_maximum = 32767, axis_digital = False,
           axis_invert = False, axis_threshold_negative = - 16384,
           axis_threshold_positive = 16384,
           axis_positive = Action_joystick 2, axis_negative = Action_joystick 1, axis_pot = 0\<rparr>],
      dev_buttons =
        [\<lparr>button_code = 304, button_prev = 0, button_index = 0,
           button_mapping = Action_keyboard 7 4 0\<rparr>,
         \<lparr>button_code = 305, button_prev = 0, button_index = 1,
           button_mapping = Action_joystick 16\<rparr>],
      dev_hats =
        [\<lparr>hat_code = 16, hat_prev = 0, hat_index = 0,
           hat_up = Action_joystick 1, hat_down = Action_joystick 2,
           hat_left = Action_joystick 4, hat_right = Action_joystick 8\<rparr>],
      dev_disable_sort = False, dev_joyport = 0\<rparr>"

definition pad_registry :: joy_registry where
  "pad_registry = \<lparr>joystick_devices = [pad], devices_allocated = True,
      max_joystick_devices = 16, driver_customize = None,
      ui_actions = [(''reset-soft'', 1), (''quit'', 2)],
      reg_log = [], driver_calls = []\<rparr>"

text \<open>The mappings and the potentiometer targets of a registry, input by input.\<close>

type_synonym device_slot_values =
  "(joystick_mapping \<times> joystick_mapping \<times> int) list \<times> joystick_mapping list \<times>
   (joystick_mapping \<times> joystick_mapping \<times> joystick_mapping \<times> joystick_mapping) list"

definition axis_slots :: "joystick_axis \<Rightarrow> joystick_mapping \<times> joystick_mapping \<times> int" where
  "axis_slots a = (axis_positive a, axis_negative a, axis_pot a)"

definition hat_slots ::
  "joystick_hat \<Rightarrow> joystick_mapping \<times> joystick_mapping \<times> joystick_mapping \<times> joystick_mapping" where
  "hat_slots h = (hat_up h, hat_down h, hat_left h, hat_right h)"

definition device_slots :: "joystick_device \<Rightarrow> device_slot_values" where
  "device_slots d =
     (map axis_slots (dev_axes d), map button_mapping (dev_buttons d), map hat_slots (dev_hats d))"

definition registry_slots :: "joy_registry \<Rightarrow> device_slot_values list" where
  "registry_slots r = map device_slots (joystick_devices r)"


text \<open>A line that \<^verbatim>\<open>fgets\<close> reads whole and that holds no NUL.\<close>

definition plain_line :: "string \<Rightarrow> bool" where
  "plain_line l \<longleftrightarrow> newline \<notin> set l \<and> CHR 0x00 \<notin> set l \<and> length l < 998"



subsection \<open>Notions for a dump that is loaded again\<close>

text \<open>A file is dumped under a name and loaded from a file system that holds that one
  file; \<open>None\<close> when the dump or the load is undefined.\<close>

definition dump_and_load :: "joy_registry \<Rightarrow> joy_registry \<Rightarrow> joy_registry option" where
  "dump_and_load r r0 =
     (case joy_arch_mapping_dump (Some ''joy.vjm'') True r of
        Some (status, Some txt) \<Rightarrow>
          map_option snd
            (joy_arch_mapping_load (Some ''joy.vjm'')
               (\<lambda>name. if name = ''joy.vjm'' then Some (name, txt) else None) r0)
      | _ \<Rightarrow> None)"

text \<open>The values of an \<^verbatim>\<open>int\<close> of 32 bits.\<close>

definition int32 :: "int \<Rightarrow> bool" where
  "int32 n \<longleftrightarrow> - (2 ^ 31) \<le> n \<and> n < 2 ^ 31"

text \<open>A mapping without the flags of its key.\<close>

fun no_flags :: "joystick_mapping \<Rightarrow> joystick_mapping" where
  "no_flags (Action_keyboard row col flags) = Action_keyboard row col 0"
| "no_flags m = m"

definition forget_flags :: "device_slot_values \<Rightarrow> device_slot_values" where
  "forget_flags s =
     (case s of (axes, buttons, hats) \<Rightarrow>
        (map (\<lambda>(p, n, pot). (no_flags p, no_flags n, pot)) axes,
         map no_flags buttons,
         map (\<lambda>(u, d, l, r). (no_flags u, no_flags d, no_flags l, no_flags r)) hats))"

text \<open>A UI action that the file can carry: it has a name, the name is one the parser
  reads whole (a letter, then letters, digits, \<^verbatim>\<open>_\<close>, \<^verbatim>\<open>-\<close> and \<^verbatim>\<open>:\<close>, fewer than 256
  characters), and the name resolves to the action again.\<close>

definition ui_name_ok :: "joy_registry \<Rightarrow> int \<Rightarrow> bool" where
  "ui_name_ok r a \<longleftrightarrow>
     (case ui_action_get_name r a of
        None \<Rightarrow> False
      | Some name \<Rightarrow>
          name \<noteq> [] \<and> isalpha (hd name) \<and> list_all is_name_char (tl name) \<and>
          length name < 256 \<and> ui_action_get_id r name = a \<and> a > ACTION_NONE)"

text \<open>A mapping of a directional, button or hat slot that the file can carry: the row
  and the column of a key are values of an \<^verbatim>\<open>int\<close>, a UI action is as above, and the
  slot does not hold the action of a potentiometer, which \<^verbatim>\<open>mapping_dump_map\<close> writes
  without its number.\<close>

fun slot_ok :: "joy_registry \<Rightarrow> joystick_mapping \<Rightarrow> bool" where
  "slot_ok r (Action_keyboard row col flags) = (int32 row \<and> int32 col)"
| "slot_ok r (Action_ui_function a) = ui_name_ok r a"
| "slot_ok r Action_pot_axis = False"
| "slot_ok r m = True"

definition axis_ok :: "joy_registry \<Rightarrow> joystick_axis \<Rightarrow> bool" where
  "axis_ok r a \<longleftrightarrow>
     (if axis_pot a > 0 then int32 (axis_pot a)
      else slot_ok r (axis_positive a) \<and> slot_ok r (axis_negative a))"

definition hat_ok :: "joy_registry \<Rightarrow> joystick_hat \<Rightarrow> bool" where
  "hat_ok r h \<longleftrightarrow>
     slot_ok r (hat_up h) \<and> slot_ok r (hat_down h) \<and> slot_ok r (hat_left h) \<and>
     slot_ok r (hat_right h)"

text \<open>A device that the file can carry: its name is a C string without a newline that
  fits the buffer of the loader together with the \<^verbatim>\<open>#\<close> before it, its inputs are as
  above, and the indexes of its inputs are values of an \<^verbatim>\<open>int\<close>.\<close>

definition device_ok :: "joy_registry \<Rightarrow> joystick_device \<Rightarrow> bool" where
  "device_ok r dv \<longleftrightarrow>
     newline \<notin> set (dev_name dv) \<and> CHR 0x00 \<notin> set (dev_name dv) \<and> length (dev_name dv) < 996 \<and>
     list_all (axis_ok r) (dev_axes dv) \<and>
     list_all (\<lambda>b. slot_ok r (button_mapping b)) (dev_buttons dv) \<and>
     list_all (hat_ok r) (dev_hats dv) \<and>
     int32 (2 * int (length (dev_axes dv))) \<and> int32 (int (length (dev_buttons dv))) \<and>
     int32 (4 * int (length (dev_hats dv)))"

definition dump_ready :: "joy_registry \<Rightarrow> bool" where
  "dump_ready r \<longleftrightarrow>
     list_all (device_ok r) (joystick_devices r) \<and> int32 (int (length (joystick_devices r)))"

text \<open>The registry a dump of \<open>r\<close> is loaded into: the array of devices is there, the UI
  actions are those of \<open>r\<close>, and device by device the inputs are as many as in \<open>r\<close>. An
  axis that the dump writes without a potentiometer has the potentiometer target of
  \<open>r\<close> already, since no line of the file writes it.\<close>

definition same_inputs :: "joystick_device \<Rightarrow> joystick_device \<Rightarrow> bool" where
  "same_inputs dv dev \<longleftrightarrow>
     list_all2 (\<lambda>a x. axis_pot a > 0 \<or> axis_pot x = axis_pot a) (dev_axes dv) (dev_axes dev) \<and>
     length (dev_buttons dev) = length (dev_buttons dv) \<and>
     length (dev_hats dev) = length (dev_hats dv)"

definition load_target :: "joy_registry \<Rightarrow> joy_registry \<Rightarrow> bool" where
  "load_target r r0 \<longleftrightarrow>
     devices_allocated r0 \<and> ui_actions r0 = ui_actions r \<and>
     list_all2 same_inputs (joystick_devices r) (joystick_devices r0)"

text \<open>An axis with a potentiometer target has no directional mapping.\<close>

definition pot_alone :: "joystick_axis \<Rightarrow> bool" where
  "pot_alone a \<longleftrightarrow>
     axis_pot a \<le> 0 \<or> (axis_positive a = Action_none \<and> axis_negative a = Action_none)"

definition pots_alone :: "joy_registry \<Rightarrow> bool" where
  "pots_alone r \<longleftrightarrow> list_all (\<lambda>dv. list_all pot_alone (dev_axes dv)) (joystick_devices r)"

text \<open>The pad with its first axis on the potentiometer alone, a key with its flags on
  the first button and a UI action on the second.\<close>

definition key_pad :: joystick_device where
  "key_pad = pad\<lparr>dev_name := ''Key pad'',
      dev_axes := [(dev_axes pad ! 0)\<lparr>axis_positive := Action_none\<rparr>, dev_axes pad ! 1],
      dev_buttons :=
        [\<lparr>button_code = 304, button_prev = 0, button_index = 0,
           button_mapping = Action_keyboard 7 4 2\<rparr>,
         \<lparr>button_code = 305, button_prev = 0, button_index = 1,
           button_mapping = Action_ui_function 2\<rparr>]\<rparr>"

definition key_pad_registry :: joy_registry where
  "key_pad_registry = pad_registry\<lparr>joystick_devices := [key_pad]\<rparr>"

text \<open>What the file keeps of the slots of a device: of an axis with a potentiometer
  target the target, of every other slot the mapping without the flags of a key.\<close>

definition kept_axis :: "joystick_axis \<Rightarrow> joystick_mapping \<times> joystick_mapping \<times> int" where
  "kept_axis a =
     (if axis_pot a > 0 then (Action_none, Action_none, axis_pot a)
      else (no_flags (axis_positive a), no_flags (axis_negative a), axis_pot a))"

definition kept_hat ::
  "joystick_hat \<Rightarrow> joystick_mapping \<times> joystick_mapping \<times> joystick_mapping \<times> joystick_mapping" where
  "kept_hat h =
     (no_flags (hat_up h), no_flags (hat_down h), no_flags (hat_left h), no_flags (hat_right h))"

definition kept_slots :: "joystick_device \<Rightarrow> device_slot_values" where
  "kept_slots dv =
     (map kept_axis (dev_axes dv), map (\<lambda>b. no_flags (button_mapping b)) (dev_buttons dv),
      map kept_hat (dev_hats dv))"

subsection \<open>Notions for the lines of a dump\<close>

text \<open>The characters of a line that the loader neither cuts nor ends at, and a line
  that it passes whole to \<^verbatim>\<open>joy_arch_parse_entry\<close>.\<close>

definition text_char :: "char \<Rightarrow> bool" where
  "text_char c \<longleftrightarrow> c \<noteq> newline \<and> c \<noteq> CHR 0x00 \<and> c \<noteq> CHR ''#''"

definition entry_text :: "string \<Rightarrow> bool" where
  "entry_text l \<longleftrightarrow>
     l \<noteq> [] \<and> hd l \<noteq> CHR '' '' \<and> hd l \<noteq> CHR 0x09 \<and> hd l \<noteq> CHR ''!'' \<and>
     (\<forall>c\<in>set l. c \<noteq> newline \<and> c \<noteq> CHR 0x00 \<and> c \<noteq> CHR ''#'') \<and> length l < 998"

text \<open>The state of the parser after the four numbers of a line, and the end of
  \<^verbatim>\<open>joy_arch_parse_entry\<close>, which passes the state to the setter of its input type.\<close>

definition entry_state :: "string \<Rightarrow> int \<Rightarrow> int \<Rightarrow> int \<Rightarrow> int \<Rightarrow> int \<Rightarrow> parser_state" where
  "entry_state fn ln d t i a =
     \<lparr>ps_filename = fn, ps_lineno = ln, ps_joy_index = d, ps_input_type = t,
      ps_input_index = i, ps_action = a, ps_pin = 0, ps_pot = 0, ps_ui_action_id = 0,
      ps_key_row = 0, ps_key_column = 0, ps_key_flags = 0\<rparr>"

definition apply_entry :: "parser_state \<Rightarrow> joy_registry \<Rightarrow> bool \<times> joy_registry" where
  "apply_entry st r =
     (if ps_input_type st = JOY_INPUT_AXIS then parser_set_axis st r
      else if ps_input_type st = JOY_INPUT_BUTTON then parser_set_button st r
      else if ps_input_type st = JOY_INPUT_HAT then parser_set_hat st r
      else if ps_input_type st = JOY_INPUT_BALL then parser_set_ball st r
      else (False, parser_log_error st
              (''unsupported input type '' @ print_uint (ps_input_type st) @ ''.'') r))"

text \<open>The state of the parser that the line of a mapping leaves.\<close>

definition line_state :: "parser_state \<Rightarrow> int \<Rightarrow> int \<Rightarrow> int \<Rightarrow> joystick_mapping \<Rightarrow> bool" where
  "line_state st d t i m \<longleftrightarrow>
     ps_joy_index st = d \<and> ps_input_type st = t \<and> ps_input_index st = i \<and>
     ps_action st \<noteq> JOY_ACTION_POT_AXIS \<and>
     (\<forall>m0. parser_set_mapping st m0 = (no_flags m, None))"

text \<open>The writes of the setters to one device.\<close>

definition put_pot :: "nat \<Rightarrow> int \<Rightarrow> joystick_device \<Rightarrow> joystick_device" where
  "put_pot j pot dev = dev\<lparr>dev_axes := (dev_axes dev)[j := (dev_axes dev ! j)\<lparr>axis_pot := pot\<rparr>]\<rparr>"

definition put_positive :: "nat \<Rightarrow> joystick_mapping \<Rightarrow> joystick_device \<Rightarrow> joystick_device" where
  "put_positive j m dev =
     dev\<lparr>dev_axes := (dev_axes dev)[j := (dev_axes dev ! j)\<lparr>axis_positive := m\<rparr>]\<rparr>"

definition put_negative :: "nat \<Rightarrow> joystick_mapping \<Rightarrow> joystick_device \<Rightarrow> joystick_device" where
  "put_negative j m dev =
     dev\<lparr>dev_axes := (dev_axes dev)[j := (dev_axes dev ! j)\<lparr>axis_negative := m\<rparr>]\<rparr>"

definition put_button :: "nat \<Rightarrow> joystick_mapping \<Rightarrow> joystick_device \<Rightarrow> joystick_device" where
  "put_button j m dev =
     dev\<lparr>dev_buttons := (dev_buttons dev)[j := (dev_buttons dev ! j)\<lparr>button_mapping := m\<rparr>]\<rparr>"

definition put_hat ::
  "nat \<Rightarrow> (joystick_hat \<Rightarrow> joystick_hat) \<Rightarrow> joystick_device \<Rightarrow> joystick_device" where
  "put_hat j f dev = dev\<lparr>dev_hats := (dev_hats dev)[j := f (dev_hats dev ! j)]\<rparr>"

text \<open>The writes that the lines of an axis, of the buttons, of a hat and of a whole
  device of the dump add up to.\<close>

definition put_axis :: "nat \<Rightarrow> joystick_axis \<Rightarrow> joystick_device \<Rightarrow> joystick_device" where
  "put_axis j a dev =
     (if axis_pot a > 0 then put_pot j (axis_pot a) dev
      else put_negative j (no_flags (axis_negative a))
             (put_positive j (no_flags (axis_positive a)) dev))"

fun put_axes :: "nat \<Rightarrow> joystick_axis list \<Rightarrow> joystick_device \<Rightarrow> joystick_device" where
  "put_axes j [] dev = dev"
| "put_axes j (a # as) dev = put_axes (Suc j) as (put_axis j a dev)"

fun put_buttons :: "nat \<Rightarrow> joystick_button list \<Rightarrow> joystick_device \<Rightarrow> joystick_device" where
  "put_buttons j [] dev = dev"
| "put_buttons j (b # bs) dev =
     put_buttons (Suc j) bs (put_button j (no_flags (button_mapping b)) dev)"

definition put_directions :: "nat \<Rightarrow> joystick_hat \<Rightarrow> joystick_device \<Rightarrow> joystick_device" where
  "put_directions j h dev =
     put_hat j (\<lambda>x. x\<lparr>hat_right := no_flags (hat_right h)\<rparr>)
       (put_hat j (\<lambda>x. x\<lparr>hat_left := no_flags (hat_left h)\<rparr>)
          (put_hat j (\<lambda>x. x\<lparr>hat_down := no_flags (hat_down h)\<rparr>)
             (put_hat j (\<lambda>x. x\<lparr>hat_up := no_flags (hat_up h)\<rparr>) dev)))"

fun put_hats :: "nat \<Rightarrow> joystick_hat list \<Rightarrow> joystick_device \<Rightarrow> joystick_device" where
  "put_hats j [] dev = dev"
| "put_hats j (h # hs) dev = put_hats (Suc j) hs (put_directions j h dev)"

definition put_device :: "joystick_device \<Rightarrow> joystick_device \<Rightarrow> joystick_device" where
  "put_device dv dev =
     put_hats 0 (dev_hats dv) (put_buttons 0 (dev_buttons dv) (put_axes 0 (dev_axes dv) dev))"

fun upd_devs :: "nat \<Rightarrow> joystick_device list \<Rightarrow> joy_registry \<Rightarrow> joy_registry" where
  "upd_devs k [] rc = rc"
| "upd_devs k (dv # devs) rc = upd_devs (Suc k) devs (upd_dev k (put_device dv) rc)"

text \<open>The loop of the loader over lines that \<^verbatim>\<open>fgets\<close> reads whole, and lines that
  take one registry to another at whatever line number they stand.\<close>

fun load_lines :: "string \<Rightarrow> int \<Rightarrow> string list \<Rightarrow> joy_registry \<Rightarrow> joy_registry option" where
  "load_lines fn ln [] r = Some r"
| "load_lines fn ln (l # ls) r =
     (case parse_line (l @ [newline]) fn ln r of
        None \<Rightarrow> None
      | Some r' \<Rightarrow> load_lines fn (ln + 1) ls r')"

definition loads :: "string \<Rightarrow> string list \<Rightarrow> joy_registry \<Rightarrow> joy_registry \<Rightarrow> bool" where
  "loads fn ls r r' \<longleftrightarrow> list_all plain_line ls \<and> (\<forall>ln. load_lines fn ln ls r = Some r')"

text \<open>The numbers of the inputs of a device, and a registry whose device \<open>k\<close> the lines
  of a device of the dump can be loaded into.\<close>

definition dev_shape :: "joystick_device \<Rightarrow> nat \<times> nat \<times> nat" where
  "dev_shape dev = (length (dev_axes dev), length (dev_buttons dev), length (dev_hats dev))"

definition target :: "joy_registry \<Rightarrow> joy_registry \<Rightarrow> nat \<Rightarrow> joystick_device \<Rightarrow> bool" where
  "target r rc k dv \<longleftrightarrow>
     ui_actions rc = ui_actions r \<and> k < length (joystick_devices rc) \<and> int32 (int k) \<and>
     dev_shape (joystick_devices rc ! k) = dev_shape dv \<and>
     int32 (2 * int (length (dev_axes dv))) \<and> int32 (int (length (dev_buttons dv))) \<and>
     int32 (4 * int (length (dev_hats dv)))"

definition targets :: "joy_registry \<Rightarrow> joy_registry \<Rightarrow> nat \<Rightarrow> joystick_device list \<Rightarrow> bool" where
  "targets r rc k devs \<longleftrightarrow>
     ui_actions rc = ui_actions r \<and> int32 (int (length (joystick_devices rc))) \<and>
     list_all2 (\<lambda>dv dev. dev_shape dev = dev_shape dv) devs (drop k (joystick_devices rc))"

text \<open>An axis and a device after \<^verbatim>\<open>!CLEAR\<close>, ready for the lines of an axis and of a
  device of the dump.\<close>

definition axis_fits :: "joystick_axis \<Rightarrow> joystick_axis \<Rightarrow> bool" where
  "axis_fits a x \<longleftrightarrow>
     axis_positive x = Action_none \<and> axis_negative x = Action_none \<and>
     (axis_pot a > 0 \<or> axis_pot x = axis_pot a)"

definition dev_fits :: "joystick_device \<Rightarrow> joystick_device \<Rightarrow> bool" where
  "dev_fits dv dev \<longleftrightarrow>
     list_all2 axis_fits (dev_axes dv) (dev_axes dev) \<and>
     length (dev_buttons dev) = length (dev_buttons dv) \<and>
     length (dev_hats dev) = length (dev_hats dv)"

section \<open>Properties\<close>

subsection \<open>Writes to the latch\<close>

lemma rd_Some [simp]: "i < length xs \<Longrightarrow> rd xs i = Some (xs ! i)"
  by (simp add: rd_def)

lemma rd_None [simp]: "\<not> i < length xs \<Longrightarrow> rd xs i = None"
  by (simp add: rd_def)

lemma same_config_refl [simp]: "same_config s s"
  by (simp add: same_config_def)

lemma same_config_trans: "same_config s s1 \<Longrightarrow> same_config s1 s2 \<Longrightarrow> same_config s s2"
  by (simp add: same_config_def)

lemma wf_state_frame:
  "wf_state s \<Longrightarrow> same_config s s' \<Longrightarrow> length (latch_values s') = length (latch_values s)
     \<Longrightarrow> length (gtkjoy_pins s') = length (gtkjoy_pins s)
     \<Longrightarrow> list_all (\<lambda>row. length row = max_pins s) (gtkjoy_pins s')
     \<Longrightarrow> wf_state s'"
  by (simp add: wf_state_def same_config_def)

lemma latch_values_set_latch [simp]:
  "latch_values (set_latch p v s) = (latch_values s)[p := v]"
  by (simp add: set_latch_def latch_values_def)

lemma latch_values_set_last_used [simp]:
  "latch_values (set_last_used p s) = latch_values s"
  by (simp add: set_last_used_def latch_values_def)

lemma latch_values_process_latch [simp]:
  "latch_values (joystick_process_latch s) = latch_values s"
  by (simp add: joystick_process_latch_def lib_unsigned_rand_def latch_values_def split: list.splits)

lemma same_config_write:
  "same_config s (joystick_process_latch (set_last_used p (set_latch p v s)))"
  by (simp add: same_config_def joystick_process_latch_def lib_unsigned_rand_def
      set_last_used_def set_latch_def split: list.splits)

lemma gtkjoy_pins_write:
  "gtkjoy_pins (joystick_process_latch (set_last_used p (set_latch p v s))) = gtkjoy_pins s"
  by (simp add: joystick_process_latch_def lib_unsigned_rand_def
      set_last_used_def set_latch_def split: list.splits)

lemma handle_hooks_ok:
  assumes "p < length (joystick_hook s)" "p < length (joystick_hook_mask s)"
    "p < length (joystick_hook_state s)" "p < length (latch_values s)"
  shows "\<exists>s'. joystick_handle_hooks p s = Some s' \<and> latch_values s' = latch_values s
     \<and> gtkjoy_pins s' = gtkjoy_pins s \<and> same_config s s'"
  using assms
  by (simp add: joystick_handle_hooks_def Let_def same_config_def latch_values_def)

lemma write_latch_ok:
  assumes "wf_state s" "p < JOYPORT_MAX_PORTS"
  shows "\<exists>s'. joystick_handle_hooks p (joystick_process_latch (set_last_used p (set_latch p v s)))
           = Some s'
     \<and> latch_values s' = (latch_values s)[p := v] \<and> gtkjoy_pins s' = gtkjoy_pins s
     \<and> same_config s s' \<and> wf_state s'"
proof -
  let ?t = "joystick_process_latch (set_last_used p (set_latch p v s))"
  have fr: "same_config s ?t" by (rule same_config_write)
  have lv: "latch_values ?t = (latch_values s)[p := v]" by simp
  have gp: "gtkjoy_pins ?t = gtkjoy_pins s" by (rule gtkjoy_pins_write)
  have "\<exists>s'. joystick_handle_hooks p ?t = Some s' \<and> latch_values s' = latch_values ?t
     \<and> gtkjoy_pins s' = gtkjoy_pins ?t \<and> same_config ?t s'"
    using assms fr lv by (intro handle_hooks_ok) (simp_all add: wf_state_def same_config_def)
  then obtain s' where s': "joystick_handle_hooks p ?t = Some s'"
    "latch_values s' = latch_values ?t" "gtkjoy_pins s' = gtkjoy_pins ?t" "same_config ?t s'"
    by blast
  have sc: "same_config s s'" using fr s'(4) by (rule same_config_trans)
  have len: "length (latch_values s') = length (latch_values s)"
    by (simp add: s'(2))
  have gp': "gtkjoy_pins s' = gtkjoy_pins s"
    by (simp add: s'(3) gp)
  have wf: "wf_state s'"
    using assms(1) sc len by (rule wf_state_frame) (use assms(1) in \<open>simp_all add: gp' wf_state_def\<close>)
  have "latch_values s' = (latch_values s)[p := v]"
    by (simp add: s'(2))
  with s'(1) sc wf gp' show ?thesis by blast
qed

lemma set_value_or_ok:
  assumes "wf_state s" "p < JOYPORT_MAX_PORTS" "\<not> playback_active s"
  shows "\<exists>s'. joystick_set_value_or p v s = Some s'
     \<and> latch_values s' = (latch_values s)[p := or_value (joystick_opposite_enable s) (latch_values s ! p) v]
     \<and> gtkjoy_pins s' = gtkjoy_pins s \<and> same_config s s' \<and> wf_state s'"
proof -
  have "p < length (latch_values s)" using assms by (simp add: wf_state_def)
  then show ?thesis
    using assms write_latch_ok [OF assms(1,2)]
    by (simp add: joystick_set_value_or_def Let_def or_value_def)
qed

lemma set_value_and_ok:
  assumes "wf_state s" "p < JOYPORT_MAX_PORTS" "\<not> playback_active s"
  shows "\<exists>s'. joystick_set_value_and p v s = Some s'
     \<and> latch_values s' = (latch_values s)[p := latch_values s ! p AND v]
     \<and> gtkjoy_pins s' = gtkjoy_pins s \<and> same_config s s' \<and> wf_state s'"
proof -
  have "p < length (latch_values s)" using assms by (simp add: wf_state_def)
  then show ?thesis
    using assms write_latch_ok [OF assms(1,2)]
    by (simp add: joystick_set_value_and_def Let_def)
qed

lemma opposite_W: "joystick_opposite_direction ! unat (JOYPAD_W AND 0xf) = JOYPAD_E"
  and opposite_E: "joystick_opposite_direction ! unat (JOYPAD_E AND 0xf) = JOYPAD_W"
  and opposite_N: "joystick_opposite_direction ! unat (JOYPAD_N AND 0xf) = JOYPAD_S"
  and opposite_S: "joystick_opposite_direction ! unat (JOYPAD_S AND 0xf) = JOYPAD_N"
  by (simp_all add: joystick_opposite_direction_def JOYPAD_W_def JOYPAD_E_def JOYPAD_N_def JOYPAD_S_def)

lemma or_W_E:
  "bit (or_value 0 (or_value 0 x JOYPAD_W) JOYPAD_E) 3 \<and>
   \<not> bit (or_value 0 (or_value 0 x JOYPAD_W) JOYPAD_E) 2 \<and>
   \<not> bit (or_value 0 x JOYPAD_W) 3"
  unfolding or_value_def opposite_W opposite_E
  by (simp add: JOYPAD_W_def JOYPAD_E_def bit_simps)

lemma or_N_S:
  "bit (or_value 0 (or_value 0 x JOYPAD_N) JOYPAD_S) 1 \<and>
   \<not> bit (or_value 0 (or_value 0 x JOYPAD_N) JOYPAD_S) 0 \<and>
   \<not> bit (or_value 0 x JOYPAD_N) 1"
  unfolding or_value_def opposite_N opposite_S
  by (simp add: JOYPAD_N_def JOYPAD_S_def bit_simps)

lemma two_ors_ok:
  assumes "wf_state s" "p < JOYPORT_MAX_PORTS" "\<not> playback_active s"
  shows "\<exists>s1 s2. joystick_set_value_or p a s = Some s1 \<and> joystick_set_value_or p b s1 = Some s2 \<and>
     latch_values s1 ! p = or_value (joystick_opposite_enable s) (latch_values s ! p) a \<and>
     latch_values s2 ! p =
       or_value (joystick_opposite_enable s)
         (or_value (joystick_opposite_enable s) (latch_values s ! p) a) b"
proof -
  obtain s1 where s1: "joystick_set_value_or p a s = Some s1"
    "latch_values s1 = (latch_values s)[p := or_value (joystick_opposite_enable s) (latch_values s ! p) a]"
    "same_config s s1" "wf_state s1"
    using set_value_or_ok [OF assms] by blast
  have np: "\<not> playback_active s1" using s1(3) assms(3) by (simp add: same_config_def)
  obtain s2 where s2: "joystick_set_value_or p b s1 = Some s2"
    "latch_values s2 = (latch_values s1)[p := or_value (joystick_opposite_enable s1) (latch_values s1 ! p) b]"
    using set_value_or_ok [OF s1(4) assms(2) np] by blast
  have en: "joystick_opposite_enable s1 = joystick_opposite_enable s"
    using s1(3) by (simp add: same_config_def)
  have len: "p < length (latch_values s)" using assms by (simp add: wf_state_def)
  have "latch_values s1 ! p = or_value (joystick_opposite_enable s) (latch_values s ! p) a"
    using len by (simp add: s1(2))
  moreover have "latch_values s2 ! p =
       or_value (joystick_opposite_enable s)
         (or_value (joystick_opposite_enable s) (latch_values s ! p) a) b"
    using len by (simp add: s2(2) s1(2) en)
  ultimately show ?thesis using s1(1) s2(1) by blast
qed

subsection \<open>The press counters\<close>

lemma length_press_row [simp]: "length (press_row pins v row) = length row"
  by (induction pins arbitrary: row) simp_all

lemma length_release_row [simp]: "length (release_row pins v row) = length row"
  by (induction pins arbitrary: row) simp_all

lemma press_row_nth:
  "distinct pins \<Longrightarrow> i < length row \<Longrightarrow>
     press_row pins v row ! i = (if i \<in> set pins \<and> bit v i then row ! i + 1 else row ! i)"
proof (induction pins arbitrary: row)
  case Nil
  then show ?case by simp
next
  case (Cons j pins)
  show ?case
  proof (cases "i = j")
    case True
    then show ?thesis using Cons by simp
  next
    case False
    then have "j \<noteq> i" by simp
    then show ?thesis using Cons False by simp
  qed
qed

lemma release_row_nth:
  "distinct pins \<Longrightarrow> i < length row \<Longrightarrow>
     release_row pins v row ! i =
       (if i \<in> set pins \<and> bit v i \<and> row ! i > 0 then row ! i - 1 else row ! i)"
proof (induction pins arbitrary: row)
  case Nil
  then show ?case by simp
next
  case (Cons j pins)
  show ?case
  proof (cases "i = j")
    case True
    then show ?thesis using Cons by simp
  next
    case False
    then have "j \<noteq> i" by simp
    then show ?thesis using Cons False by simp
  qed
qed

lemma pin_count_eq:
  "p < length (gtkjoy_pins s) \<Longrightarrow> i < length (gtkjoy_pins s ! p) \<Longrightarrow>
     pin_count s p i = Some (gtkjoy_pins s ! p ! i)"
  by (simp add: pin_count_def)

lemma wf_state_row:
  "wf_state s \<Longrightarrow> p < JOYPORT_MAX_PORTS \<Longrightarrow>
     p < length (gtkjoy_pins s) \<and> length (gtkjoy_pins s ! p) = max_pins s"
  by (simp add: wf_state_def list_all_length)

lemma wf_state_set_row:
  assumes "wf_state s" "length row = max_pins s"
  shows "wf_state (s\<lparr>gtkjoy_pins := (gtkjoy_pins s)[p := row]\<rparr>)"
proof -
  have "set ((gtkjoy_pins s)[p := row]) \<subseteq> insert row (set (gtkjoy_pins s))"
    by (rule set_update_subset_insert)
  then have "list_all (\<lambda>r. length r = max_pins s) ((gtkjoy_pins s)[p := row])"
    using assms by (auto simp: wf_state_def list_all_iff)
  then show ?thesis using assms(1) by (simp add: wf_state_def latch_values_def)
qed

lemma press_loop_eq:
  "p < length (gtkjoy_pins s) \<Longrightarrow> \<forall>i\<in>set pins. i < length (gtkjoy_pins s ! p) \<Longrightarrow>
     press_loop pins p v s =
       Some (s\<lparr>gtkjoy_pins := (gtkjoy_pins s)[p := press_row pins v (gtkjoy_pins s ! p)]\<rparr>)"
proof (induction pins arbitrary: s)
  case Nil
  then show ?case by simp
next
  case (Cons i pins)
  show ?case
  proof (cases "bit v i")
    case True
    let ?s1 = "set_pin_count p i (gtkjoy_pins s ! p ! i + 1) s"
    have pc: "pin_count s p i = Some (gtkjoy_pins s ! p ! i)"
      using Cons.prems by (simp add: pin_count_eq)
    have row1: "gtkjoy_pins ?s1 ! p = (gtkjoy_pins s ! p)[i := gtkjoy_pins s ! p ! i + 1]"
      using Cons.prems by (simp add: set_pin_count_def)
    have "press_loop pins p v ?s1 =
       Some (?s1\<lparr>gtkjoy_pins := (gtkjoy_pins ?s1)[p := press_row pins v (gtkjoy_pins ?s1 ! p)]\<rparr>)"
      using Cons.prems row1 by (intro Cons.IH) (simp_all add: set_pin_count_def)
    then show ?thesis
      using True pc row1 by (simp add: set_pin_count_def)
  next
    case False
    then show ?thesis using Cons by simp
  qed
qed

lemma gtkjoy_set_value_press_ok:
  assumes "wf_state s" "p < JOYPORT_MAX_PORTS" "\<not> playback_active s"
  shows "\<exists>s'. gtkjoy_set_value_press p v s = Some s'
     \<and> latch_values s' = (latch_values s)[p := or_value (joystick_opposite_enable s) (latch_values s ! p) v]
     \<and> gtkjoy_pins s' = (gtkjoy_pins s)[p := press_row [0..<max_pins s] v (gtkjoy_pins s ! p)]
     \<and> same_config s s' \<and> wf_state s'"
proof -
  let ?row = "press_row [0..<max_pins s] v (gtkjoy_pins s ! p)"
  let ?s1 = "s\<lparr>gtkjoy_pins := (gtkjoy_pins s)[p := ?row]\<rparr>"
  have row: "p < length (gtkjoy_pins s)" "length (gtkjoy_pins s ! p) = max_pins s"
    using wf_state_row [OF assms(1,2)] by simp_all
  have loop: "press_loop [0..<max_pins s] p v s = Some ?s1"
    using row by (intro press_loop_eq) simp_all
  have wf1: "wf_state ?s1" using assms(1) row by (intro wf_state_set_row) simp_all
  have np1: "\<not> playback_active ?s1" using assms(3) by simp
  obtain s' where s': "joystick_set_value_or p v ?s1 = Some s'"
    "latch_values s' = (latch_values ?s1)[p := or_value (joystick_opposite_enable ?s1) (latch_values ?s1 ! p) v]"
    "gtkjoy_pins s' = gtkjoy_pins ?s1" "same_config ?s1 s'" "wf_state s'"
    using set_value_or_ok [OF wf1 assms(2) np1] by blast
  have sc: "same_config s s'" using s'(4) by (simp add: same_config_def)
  have lv: "latch_values ?s1 = latch_values s" by (simp add: latch_values_def)
  show ?thesis
    using loop s'(1,3,5) sc s'(2) by (simp add: gtkjoy_set_value_press_def lv)
qed

lemma release_hits_Cons:
  "release_hits (i # pins) v row \<longleftrightarrow> bit v i \<and> (row ! i = 0 \<or> row ! i = 1) \<or> release_hits pins v row"
  by (simp add: release_hits_def)

lemma release_hits_update:
  "i \<notin> set pins \<Longrightarrow> release_hits pins v (row[i := c]) = release_hits pins v row"
  by (induction pins) (auto simp: release_hits_def)

lemma release_loop_ok:
  assumes "wf_state s" "p < JOYPORT_MAX_PORTS" "\<not> playback_active s"
    "distinct pins" "\<forall>i\<in>set pins. i < max_pins s"
  shows "\<exists>s'. release_loop pins p v s = Some s'
     \<and> gtkjoy_pins s' = (gtkjoy_pins s)[p := release_row pins v (gtkjoy_pins s ! p)]
     \<and> latch_values s' =
         (if release_hits pins v (gtkjoy_pins s ! p)
          then (latch_values s)[p := latch_values s ! p AND NOT v] else latch_values s)
     \<and> same_config s s' \<and> wf_state s'"
  using assms
proof (induction pins arbitrary: s)
  case Nil
  then show ?case by (simp add: release_hits_def)
next
  case (Cons i pins)
  let ?row = "gtkjoy_pins s ! p"
  have row: "p < length (gtkjoy_pins s)" "length ?row = max_pins s"
    using wf_state_row [OF Cons.prems(1,2)] by simp_all
  have lenlv: "p < length (latch_values s)"
    using Cons.prems(1,2) by (simp add: wf_state_def)
  have i: "i < max_pins s" "i \<notin> set pins" "distinct pins" "\<forall>j\<in>set pins. j < max_pins s"
    using Cons.prems(4,5) by simp_all
  show ?case
  proof (cases "bit v i")
    case False
    obtain s' where s': "release_loop pins p v s = Some s'"
      "gtkjoy_pins s' = (gtkjoy_pins s)[p := release_row pins v ?row]"
      "latch_values s' =
         (if release_hits pins v ?row
          then (latch_values s)[p := latch_values s ! p AND NOT v] else latch_values s)"
      "same_config s s'" "wf_state s'"
      using Cons.IH [OF Cons.prems(1,2,3) i(3,4)] by blast
    show ?thesis
      using False s' by (simp add: release_hits_Cons)
  next
    case True
    define c where "c = ?row ! i"
    define c1 where "c1 = (if c > 0 then c - 1 else c)"
    define row1 where "row1 = (if c > 0 then ?row[i := c - 1] else ?row)"
    define s1 where "s1 = (if c > 0 then set_pin_count p i c1 s else s)"
    have pc: "pin_count s p i = Some c"
      using row i(1) by (simp add: pin_count_eq c_def)
    have gp1: "gtkjoy_pins s1 = (gtkjoy_pins s)[p := row1]"
      by (simp add: s1_def row1_def set_pin_count_def c1_def)
    have s1_eq: "s1 = s\<lparr>gtkjoy_pins := (gtkjoy_pins s)[p := row1]\<rparr>"
      by (simp add: s1_def row1_def set_pin_count_def c1_def)
    have len1: "length row1 = max_pins s" using row by (simp add: row1_def)
    have wf1: "wf_state s1"
      unfolding s1_eq using Cons.prems(1) len1 by (rule wf_state_set_row)
    have np1: "\<not> playback_active s1" using Cons.prems(3) by (simp add: s1_eq)
    have mp1: "max_pins s1 = max_pins s" by (simp add: s1_eq)
    have lv1: "latch_values s1 = latch_values s" by (simp add: s1_eq latch_values_def)
    have sc1: "same_config s s1" by (simp add: s1_eq same_config_def)
    have row1p: "gtkjoy_pins s1 ! p = row1" using row by (simp add: gp1)
    have rr: "release_row (i # pins) v ?row = release_row pins v row1"
      using True by (simp add: row1_def c_def)
    have hits1: "release_hits pins v row1 = release_hits pins v ?row"
      using i(2) by (simp add: row1_def release_hits_update)
    have c1_zero: "c1 = 0 \<longleftrightarrow> (c = 0 \<or> c = 1)"
      by (auto simp: c1_def)
    have step: "release_loop (i # pins) p v s =
        (if c1 = 0
         then (case joystick_set_value_and p (NOT v) s1 of
                 None \<Rightarrow> None | Some s2 \<Rightarrow> release_loop pins p v s2)
         else release_loop pins p v s1)"
      using True pc by (simp add: Let_def c1_def s1_def)
    show ?thesis
    proof (cases "c1 = 0")
      case False
      have i1: "\<forall>j\<in>set pins. j < max_pins s1" using i(4) by (simp add: mp1)
      obtain s' where s': "release_loop pins p v s1 = Some s'"
        "gtkjoy_pins s' = (gtkjoy_pins s1)[p := release_row pins v (gtkjoy_pins s1 ! p)]"
        "latch_values s' =
           (if release_hits pins v (gtkjoy_pins s1 ! p)
            then (latch_values s1)[p := latch_values s1 ! p AND NOT v] else latch_values s1)"
        "same_config s1 s'" "wf_state s'"
        using Cons.IH [OF wf1 Cons.prems(2) np1 i(3) i1] by blast
      have a: "release_loop (i # pins) p v s = Some s'"
        unfolding step using False s'(1) by simp
      have "gtkjoy_pins s' = (gtkjoy_pins s1)[p := release_row pins v row1]"
        by (simp only: s'(2) row1p)
      then have b: "gtkjoy_pins s' = (gtkjoy_pins s)[p := release_row (i # pins) v ?row]"
        by (simp only: rr gp1 list_update_overwrite)
      have nh: "\<not> (c = 0 \<or> c = 1)" using False c1_zero by simp
      have d: "latch_values s' =
         (if release_hits (i # pins) v ?row
          then (latch_values s)[p := latch_values s ! p AND NOT v] else latch_values s)"
        using nh True by (simp add: s'(3) row1p hits1 lv1 release_hits_Cons c_def)
      have e: "same_config s s'" using sc1 s'(4) by (rule same_config_trans)
      show ?thesis using a b d e s'(5) by blast
    next
      case True
      obtain s2 where s2: "joystick_set_value_and p (NOT v) s1 = Some s2"
        "latch_values s2 = (latch_values s1)[p := latch_values s1 ! p AND NOT v]"
        "gtkjoy_pins s2 = gtkjoy_pins s1" "same_config s1 s2" "wf_state s2"
        using set_value_and_ok [OF wf1 Cons.prems(2) np1] by blast
      have np2: "\<not> playback_active s2" using np1 s2(4) by (simp add: same_config_def)
      have mp2: "max_pins s2 = max_pins s" using mp1 s2(4) by (simp add: same_config_def)
      have i2: "\<forall>j\<in>set pins. j < max_pins s2" using i(4) by (simp add: mp2)
      obtain s' where s': "release_loop pins p v s2 = Some s'"
        "gtkjoy_pins s' = (gtkjoy_pins s2)[p := release_row pins v (gtkjoy_pins s2 ! p)]"
        "latch_values s' =
           (if release_hits pins v (gtkjoy_pins s2 ! p)
            then (latch_values s2)[p := latch_values s2 ! p AND NOT v] else latch_values s2)"
        "same_config s2 s'" "wf_state s'"
        using Cons.IH [OF s2(5) Cons.prems(2) np2 i(3) i2] by blast
      have a: "release_loop (i # pins) p v s = Some s'"
        unfolding step using True s2(1) s'(1) by simp
      have "gtkjoy_pins s' = (gtkjoy_pins s1)[p := release_row pins v row1]"
        by (simp only: s'(2) s2(3) row1p)
      then have b: "gtkjoy_pins s' = (gtkjoy_pins s)[p := release_row (i # pins) v ?row]"
        by (simp only: rr gp1 list_update_overwrite)
      have h: "c = 0 \<or> c = 1" using True c1_zero by simp
      have hit: "release_hits (i # pins) v ?row"
        using h \<open>bit v i\<close> by (simp add: release_hits_Cons c_def)
      have d: "latch_values s' = (latch_values s)[p := latch_values s ! p AND NOT v]"
        using lenlv by (simp add: s'(3) s2(2) lv1)
      have e: "same_config s s'"
        using sc1 s2(4) s'(4) by (blast intro: same_config_trans)
      show ?thesis using a b d e s'(5) hit by simp
    qed
  qed
qed

subsection \<open>Dispatch to a pin\<close>

lemma add_effect_frame [simp]:
  "latch_values (add_effect e s) = latch_values s"
  "gtkjoy_pins (add_effect e s) = gtkjoy_pins s"
  "playback_active (add_effect e s) = playback_active s"
  "joystick_opposite_enable (add_effect e s) = joystick_opposite_enable s"
  "max_pins (add_effect e s) = max_pins s"
  "wf_state (add_effect e s) = wf_state s"
  "same_config (add_effect e s) s' = same_config s s'"
  by (simp_all add: add_effect_def latch_values_def wf_state_def same_config_def)

lemma perform_press_ok:
  assumes "wf_state s" "p < JOYPORT_MAX_PORTS" "\<not> playback_active s" "x \<noteq> 0"
  shows "\<exists>s'. joy_perform_event (Action_joystick v) (int p) x s = Some s'
     \<and> latch_values s' = (latch_values s)[p := or_value (joystick_opposite_enable s) (latch_values s ! p) v]
     \<and> gtkjoy_pins s' = (gtkjoy_pins s)[p := press_row [0..<max_pins s] v (gtkjoy_pins s ! p)]
     \<and> same_config s s' \<and> wf_state s'"
proof -
  let ?t = "add_effect (Perform_event (Action_joystick v) (int p) x) s"
  have "\<exists>s'. gtkjoy_set_value_press p v ?t = Some s'
     \<and> latch_values s' = (latch_values ?t)[p := or_value (joystick_opposite_enable ?t) (latch_values ?t ! p) v]
     \<and> gtkjoy_pins s' = (gtkjoy_pins ?t)[p := press_row [0..<max_pins ?t] v (gtkjoy_pins ?t ! p)]
     \<and> same_config ?t s' \<and> wf_state s'"
    using assms by (intro gtkjoy_set_value_press_ok) simp_all
  then show ?thesis
    using assms(2,4) by (simp add: joy_perform_event_def Let_def)
qed

lemma perform_release_ok:
  assumes "wf_state s" "p < JOYPORT_MAX_PORTS" "\<not> playback_active s"
  shows "\<exists>s'. joy_perform_event (Action_joystick v) (int p) 0 s = Some s'
     \<and> gtkjoy_pins s' = (gtkjoy_pins s)[p := release_row [0..<max_pins s] v (gtkjoy_pins s ! p)]
     \<and> latch_values s' =
         (if release_hits [0..<max_pins s] v (gtkjoy_pins s ! p)
          then (latch_values s)[p := latch_values s ! p AND NOT v] else latch_values s)
     \<and> same_config s s' \<and> wf_state s'"
proof -
  let ?t = "add_effect (Perform_event (Action_joystick v) (int p) 0) s"
  have "\<exists>s'. release_loop [0..<max_pins ?t] p v ?t = Some s'
     \<and> gtkjoy_pins s' = (gtkjoy_pins ?t)[p := release_row [0..<max_pins ?t] v (gtkjoy_pins ?t ! p)]
     \<and> latch_values s' =
         (if release_hits [0..<max_pins ?t] v (gtkjoy_pins ?t ! p)
          then (latch_values ?t)[p := latch_values ?t ! p AND NOT v] else latch_values ?t)
     \<and> same_config ?t s' \<and> wf_state s'"
    using assms by (intro release_loop_ok) simp_all
  then show ?thesis
    using assms(2)
    by (simp add: joy_perform_event_def Let_def gtkjoy_set_value_release_def cong: if_cong)
qed

lemma bit_or_value:
  "bit v i \<Longrightarrow> en \<noteq> 0 \<or> \<not> bit (joystick_opposite_direction ! unat (v AND 0xf)) i \<Longrightarrow>
     bit (or_value en old v) i"
  by (auto simp: or_value_def bit_simps dest: bit_imp_le_length)

lemma wf_init: "wf_state init_state"
  by code_simp

subsection \<open>Autofire\<close>




subsection \<open>The claims about the ports\<close>

text \<open>
  C10. While event playback is active, \<^verbatim>\<open>joystick_set_value_absolute\<close>,
  \<^verbatim>\<open>joystick_set_value_or\<close> and \<^verbatim>\<open>joystick_set_value_and\<close> return at once and leave the
  whole state as it was: the latched values, the last used port, the alarm and the
  trace of recorded events.
\<close>

theorem playback_blocks_writes:
  "playback_active s \<Longrightarrow>
     joystick_set_value_absolute p v s = Some s \<and>
     joystick_set_value_or p v s = Some s \<and>
     joystick_set_value_and p v s = Some s"
  by (simp add: joystick_set_value_absolute_def joystick_set_value_or_def
      joystick_set_value_and_def)

text \<open>Witness of C10: the initial state with playback switched on, port 3, value
  \<open>0x1f\<close>.\<close>

theorem playback_blocks_writes_witness:
  "playback_active playback_state \<and>
   joystick_set_value_absolute 3 0x1f playback_state = Some playback_state \<and>
   joystick_set_value_or 3 0x1f playback_state = Some playback_state \<and>
   joystick_set_value_and 3 0x1f playback_state = Some playback_state"
proof -
  have a: "playback_active playback_state"
    by (simp add: playback_state_def)
  show ?thesis
    using playback_blocks_writes [OF a, of 3 "0x1f"] a by simp
qed

text \<open>
  C2 as stated fails: the claim holds for every state in which the option is off, and
  during event playback \<^verbatim>\<open>joystick_set_value_or\<close> writes nothing. In \<open>both_state\<close> the
  option is off, playback is active and port 0 has left and right latched (as
  \<^verbatim>\<open>joystick_set_value_absolute\<close> and \<^verbatim>\<open>joystick_event_playback\<close> can latch them, neither
  of which masks); the two calls leave both bits set.
\<close>

theorem opposite_playback_counterexample:
  "wf_state both_state \<and> joystick_opposite_enable both_state = 0 \<and>
   joystick_set_value_or 0 JOYPAD_W both_state = Some both_state \<and>
   joystick_set_value_or 0 JOYPAD_E both_state = Some both_state \<and>
   bit (latch_values both_state ! 0) 2 \<and> bit (latch_values both_state ! 0) 3"
  by code_simp

text \<open>
  C2, amended. When event playback is not active and the option is off, on every port:
  after \<^verbatim>\<open>joystick_set_value_or\<close> with left (\<open>0x04\<close>) the right bit (bit 3) is clear,
  and after the following call with right (\<open>0x08\<close>) the right bit is set and the left
  bit (bit 2) is clear; the same for up (\<open>0x01\<close>, bit 0) followed by down (\<open>0x02\<close>,
  bit 1).
\<close>

theorem opposite_masking_last_wins:
  assumes "wf_state s" "p < JOYPORT_MAX_PORTS" "\<not> playback_active s"
    "joystick_opposite_enable s = 0"
  shows "(\<exists>s1 s2. joystick_set_value_or p JOYPAD_W s = Some s1 \<and>
            joystick_set_value_or p JOYPAD_E s1 = Some s2 \<and>
            \<not> bit (latch_values s1 ! p) 3 \<and>
            bit (latch_values s2 ! p) 3 \<and> \<not> bit (latch_values s2 ! p) 2) \<and>
         (\<exists>s1 s2. joystick_set_value_or p JOYPAD_N s = Some s1 \<and>
            joystick_set_value_or p JOYPAD_S s1 = Some s2 \<and>
            \<not> bit (latch_values s1 ! p) 1 \<and>
            bit (latch_values s2 ! p) 1 \<and> \<not> bit (latch_values s2 ! p) 0)"
proof -
  obtain s1 s2 where we: "joystick_set_value_or p JOYPAD_W s = Some s1"
    "joystick_set_value_or p JOYPAD_E s1 = Some s2"
    "latch_values s1 ! p = or_value 0 (latch_values s ! p) JOYPAD_W"
    "latch_values s2 ! p = or_value 0 (or_value 0 (latch_values s ! p) JOYPAD_W) JOYPAD_E"
    using two_ors_ok [OF assms(1,2,3), of JOYPAD_W JOYPAD_E] assms(4) by auto
  obtain t1 t2 where ns: "joystick_set_value_or p JOYPAD_N s = Some t1"
    "joystick_set_value_or p JOYPAD_S t1 = Some t2"
    "latch_values t1 ! p = or_value 0 (latch_values s ! p) JOYPAD_N"
    "latch_values t2 ! p = or_value 0 (or_value 0 (latch_values s ! p) JOYPAD_N) JOYPAD_S"
    using two_ors_ok [OF assms(1,2,3), of JOYPAD_N JOYPAD_S] assms(4) by auto
  have "\<not> bit (latch_values s1 ! p) 3 \<and> bit (latch_values s2 ! p) 3 \<and>
        \<not> bit (latch_values s2 ! p) 2"
    using or_W_E [of "latch_values s ! p"] by (simp add: we(3,4))
  moreover have "\<not> bit (latch_values t1 ! p) 1 \<and> bit (latch_values t2 ! p) 1 \<and>
        \<not> bit (latch_values t2 ! p) 0"
    using or_N_S [of "latch_values s ! p"] by (simp add: ns(3,4))
  ultimately show ?thesis using we(1,2) ns(1,2) by blast
qed

text \<open>Witness of C2: the initial state, port 0.\<close>

theorem opposite_masking_last_wins_witness:
  "wf_state init_state \<and> (0::nat) < JOYPORT_MAX_PORTS \<and> \<not> playback_active init_state \<and>
   joystick_opposite_enable init_state = 0 \<and>
   (\<exists>s1 s2. joystick_set_value_or 0 JOYPAD_W init_state = Some s1 \<and>
            joystick_set_value_or 0 JOYPAD_E s1 = Some s2 \<and>
            \<not> bit (latch_values s1 ! 0) 3 \<and>
            bit (latch_values s2 ! 0) 3 \<and> \<not> bit (latch_values s2 ! 0) 2) \<and>
   (\<exists>s1 s2. joystick_set_value_or 0 JOYPAD_N init_state = Some s1 \<and>
            joystick_set_value_or 0 JOYPAD_S s1 = Some s2 \<and>
            \<not> bit (latch_values s1 ! 0) 1 \<and>
            bit (latch_values s2 ! 0) 1 \<and> \<not> bit (latch_values s2 ! 0) 0)"
proof -
  have a: "wf_state init_state" by (rule wf_init)
  have b: "(0::nat) < JOYPORT_MAX_PORTS" by (simp add: JOYPORT_MAX_PORTS_def)
  have c: "\<not> playback_active init_state" by (simp add: init_state_def)
  have d: "joystick_opposite_enable init_state = 0" by (simp add: init_state_def)
  show ?thesis
    using opposite_masking_last_wins [OF a b c d] a b c d by simp
qed

text \<open>
  C1 as stated fails, by design, where a write to the latch is gated: during event
  playback \<^verbatim>\<open>joystick_set_value_or\<close> returns before it writes, so with two controls
  mapped to fire (\<open>0x10\<close>), a press counter of 0 and the fire bit clear, the fire bit is
  still clear after press, press, release.
\<close>

theorem debounce_playback_counterexample:
  "wf_state playback_state \<and>
   pin_count playback_state 0 4 = Some 0 \<and>
   latched_bit 0 4 (Some playback_state) = Some False \<and>
   latched_bit 0 4 (dispatch_all 0
      [(Action_joystick 0x10, 1), (Action_joystick 0x10, 1), (Action_joystick 0x10, 0)]
      playback_state) = Some False"
  by code_simp

text \<open>
  C1, amended. On every port, when event playback is not active and no press counter of
  the port is negative: for a pin \<open>i\<close> below \<^verbatim>\<open>JOYPORT_MAX_PINS\<close> that is set in the pin
  mask \<open>v\<close> shared by two controls and that opposite-direction masking of \<open>v\<close> does not
  clear (the option is on, or the table entry for the low four bits of \<open>v\<close> does not
  hold \<open>i\<close>), and whose press counter is 0: after press, press and release the bit \<open>i\<close>
  is set in the latched value (as it is after each press), and the second release
  clears it.
\<close>

theorem many_to_one_debounce:
  assumes wf: "wf_state s" and p: "p < JOYPORT_MAX_PORTS" and np: "\<not> playback_active s"
    and i: "i < max_pins s" and vi: "bit v i"
    and zero: "pin_count s p i = Some 0"
    and nonneg: "list_all (\<lambda>c. 0 \<le> c) (gtkjoy_pins s ! p)"
    and opp: "joystick_opposite_enable s \<noteq> 0 \<or>
              \<not> bit (joystick_opposite_direction ! unat (v AND 0xf)) i"
  shows "\<exists>s1 s2 s3 s4.
     joy_perform_event (Action_joystick v) (int p) 1 s = Some s1 \<and>
     joy_perform_event (Action_joystick v) (int p) 1 s1 = Some s2 \<and>
     joy_perform_event (Action_joystick v) (int p) 0 s2 = Some s3 \<and>
     joy_perform_event (Action_joystick v) (int p) 0 s3 = Some s4 \<and>
     bit (latch_values s1 ! p) i \<and> bit (latch_values s2 ! p) i \<and>
     bit (latch_values s3 ! p) i \<and> \<not> bit (latch_values s4 ! p) i"
proof -
  let ?n = "max_pins s"
  let ?en = "joystick_opposite_enable s"
  let ?r0 = "gtkjoy_pins s ! p"
  have row: "p < length (gtkjoy_pins s)" "length ?r0 = ?n"
    using wf_state_row [OF wf p] by simp_all
  have lenlv: "p < length (latch_values s)" using wf p by (simp add: wf_state_def)
  have r0i: "?r0 ! i = 0" using zero row i by (simp add: pin_count_eq)
  have r0nn: "\<And>j. j < ?n \<Longrightarrow> 0 \<le> ?r0 ! j"
    using nonneg row by (simp add: list_all_length)
  \<comment> \<open>press(A)\<close>
  obtain s1 where s1: "joy_perform_event (Action_joystick v) (int p) 1 s = Some s1"
    "latch_values s1 = (latch_values s)[p := or_value ?en (latch_values s ! p) v]"
    "gtkjoy_pins s1 = (gtkjoy_pins s)[p := press_row [0..<?n] v ?r0]"
    "same_config s s1" "wf_state s1"
    using perform_press_ok [OF wf p np, of 1 v] by auto
  have c1: "\<not> playback_active s1" "max_pins s1 = ?n" "joystick_opposite_enable s1 = ?en"
    using s1(4) np by (simp_all add: same_config_def)
  let ?r1 = "press_row [0..<?n] v ?r0"
  have r1: "gtkjoy_pins s1 ! p = ?r1" using row by (simp add: s1(3))
  have r1j: "\<And>j. j < ?n \<Longrightarrow> ?r1 ! j = (if bit v j then ?r0 ! j + 1 else ?r0 ! j)"
    using row by (simp add: press_row_nth)
  have b1: "bit (latch_values s1 ! p) i"
    using lenlv vi opp by (simp add: s1(2) bit_or_value)
  \<comment> \<open>press(B)\<close>
  obtain s2 where s2: "joy_perform_event (Action_joystick v) (int p) 1 s1 = Some s2"
    "latch_values s2 = (latch_values s1)[p := or_value (joystick_opposite_enable s1) (latch_values s1 ! p) v]"
    "gtkjoy_pins s2 = (gtkjoy_pins s1)[p := press_row [0..<max_pins s1] v (gtkjoy_pins s1 ! p)]"
    "same_config s1 s2" "wf_state s2"
    using perform_press_ok [OF s1(5) p c1(1), of 1 v] by auto
  have c2: "\<not> playback_active s2" "max_pins s2 = ?n"
    using s2(4) c1 by (simp_all add: same_config_def)
  let ?r2 = "press_row [0..<?n] v ?r1"
  have r2: "gtkjoy_pins s2 ! p = ?r2" using row by (simp add: s2(3) s1(3) c1(2))
  have r2j: "\<And>j. j < ?n \<Longrightarrow> ?r2 ! j = (if bit v j then ?r0 ! j + 2 else ?r0 ! j)"
    using row by (simp add: press_row_nth r1j)
  have lenlv1: "p < length (latch_values s1)" using lenlv by (simp add: s1(2))
  have b2: "bit (latch_values s2 ! p) i"
    using lenlv1 vi opp by (simp add: s2(2) c1(3) bit_or_value)
  \<comment> \<open>release(A)\<close>
  obtain s3 where s3: "joy_perform_event (Action_joystick v) (int p) 0 s2 = Some s3"
    "gtkjoy_pins s3 = (gtkjoy_pins s2)[p := release_row [0..<max_pins s2] v (gtkjoy_pins s2 ! p)]"
    "latch_values s3 =
         (if release_hits [0..<max_pins s2] v (gtkjoy_pins s2 ! p)
          then (latch_values s2)[p := latch_values s2 ! p AND NOT v] else latch_values s2)"
    "same_config s2 s3" "wf_state s3"
    using perform_release_ok [OF s2(5) p c2(1), of v] by auto
  have c3: "\<not> playback_active s3" "max_pins s3 = ?n"
    using s3(4) c2 by (simp_all add: same_config_def)
  have nohit: "\<not> release_hits [0..<?n] v ?r2"
  proof -
    have "\<And>j. j < ?n \<Longrightarrow> bit v j \<Longrightarrow> ?r2 ! j \<noteq> 0 \<and> ?r2 ! j \<noteq> 1"
      using r0nn by (simp only: r2j) force
    then show ?thesis by (auto simp: release_hits_def list_ex_iff)
  qed
  have lv3: "latch_values s3 = latch_values s2"
    using nohit by (simp add: s3(3) c2(2) r2)
  have b3: "bit (latch_values s3 ! p) i" using b2 by (simp add: lv3)
  let ?r3 = "release_row [0..<?n] v ?r2"
  have len2: "p < length (gtkjoy_pins s2)" using row by (simp add: s2(3) s1(3))
  have r3: "gtkjoy_pins s3 ! p = ?r3" using len2 by (simp add: s3(2) c2(2) r2)
  have r3i: "?r3 ! i = 1"
    using row i vi r0i by (simp add: release_row_nth r2j)
  \<comment> \<open>release(B)\<close>
  obtain s4 where s4: "joy_perform_event (Action_joystick v) (int p) 0 s3 = Some s4"
    "latch_values s4 =
         (if release_hits [0..<max_pins s3] v (gtkjoy_pins s3 ! p)
          then (latch_values s3)[p := latch_values s3 ! p AND NOT v] else latch_values s3)"
    using perform_release_ok [OF s3(5) p c3(1), of v] by auto
  have hit: "release_hits [0..<?n] v ?r3"
    using i vi r3i by (auto simp: release_hits_def list_ex_iff)
  have lenlv3: "p < length (latch_values s3)" using lenlv1 by (simp add: lv3 s2(2))
  have b4: "\<not> bit (latch_values s4 ! p) i"
    using hit lenlv3 vi by (simp add: s4(2) c3(2) r3 bit_simps)
  show ?thesis using s1(1) s2(1) s3(1) s4(1) b1 b2 b3 b4 by blast
qed

text \<open>Witness of C1: the initial state, port 0, fire (\<open>0x10\<close>, pin 4).\<close>

theorem many_to_one_debounce_witness:
  "\<exists>s1 s2 s3 s4.
     joy_perform_event (Action_joystick 0x10) 0 1 init_state = Some s1 \<and>
     joy_perform_event (Action_joystick 0x10) 0 1 s1 = Some s2 \<and>
     joy_perform_event (Action_joystick 0x10) 0 0 s2 = Some s3 \<and>
     joy_perform_event (Action_joystick 0x10) 0 0 s3 = Some s4 \<and>
     bit (latch_values s1 ! 0) 4 \<and> bit (latch_values s2 ! 0) 4 \<and>
     bit (latch_values s3 ! 0) 4 \<and> \<not> bit (latch_values s4 ! 0) 4"
proof -
  have a: "wf_state init_state" by (rule wf_init)
  have b: "(0::nat) < JOYPORT_MAX_PORTS" by (simp add: JOYPORT_MAX_PORTS_def)
  have c: "\<not> playback_active init_state" by (simp add: init_state_def)
  have d: "(4::nat) < max_pins init_state" by (simp add: init_state_def)
  have e: "bit (0x10 :: u16) (4::nat)" by simp
  have f: "pin_count init_state 0 4 = Some 0" by (simp add: init_state_def pin_count_def rd_def)
  have g: "list_all (\<lambda>c. 0 \<le> c) (gtkjoy_pins init_state ! 0)" by code_simp
  have h: "joystick_opposite_enable init_state \<noteq> 0 \<or>
              \<not> bit (joystick_opposite_direction ! unat ((0x10 :: u16) AND 0xf)) (4::nat)"
    by (simp add: joystick_opposite_direction_def)
  show ?thesis using many_to_one_debounce [OF a b c d e f g h] by simp
qed

text \<open>
  The last clause of C1 (a bit leaves the latch only when its own counter reaches zero)
  is what the comment above \<^verbatim>\<open>gtkjoy_set_value_release\<close> promises, and the code misses
  it for a mask of several pins: the call \<^verbatim>\<open>joystick_set_value_and(joyport, ~value)\<close>
  clears every pin of the mask as soon as one counter is zero. Control A maps to
  \<open>0x30\<close>, control B to \<open>0x20\<close>; after press A, press B, release A the counter of pin 5
  is 1 and its latched bit is clear.
\<close>

lemma release_clears_held_pin:
  "map_option (\<lambda>s. (pin_count s 0 5, bit (latch_values s ! 0) 5))
     (dispatch_all 0 [(Action_joystick 0x30, 1), (Action_joystick 0x20, 1),
                      (Action_joystick 0x30, 0)] init_state) =
   Some (Some 1, False)"
  by code_simp



subsection \<open>Events that change nothing\<close>

text \<open>The part of C3 that holds: an axis event with an unchanged direction, a hat event
  with an unchanged mask or with unchanged direction bits, and a button event with an
  unchanged raw value perform nothing.\<close>

lemma axis_event_unchanged:
  "axis_direction axis v = axis_prev axis \<Longrightarrow> joy_axis_event axis joyport v s = Some (axis, s)"
  by (simp add: joy_axis_event_def)

lemma hat_event_unchanged:
  "v = hat_prev hat \<Longrightarrow> joy_hat_event hat joyport v s = Some (hat, s)"
  by (simp add: joy_hat_event_def)

lemma hat_event_same_directions:
  "\<forall>i<4. bit v i = bit (hat_prev hat) i \<Longrightarrow>
     \<exists>hat'. joy_hat_event hat joyport v s = Some (hat', s)"
  by (simp add: joy_hat_event_def perform_if_def Let_def numeral_eq_Suc)

lemma button_event_unchanged:
  "v = button_prev button \<Longrightarrow> joy_button_event button joyport v s = Some (button, s)"
  by (simp add: joy_button_event_def)

text \<open>
  C3 fails for buttons. \<^verbatim>\<open>joy_button_event\<close> computes \<^verbatim>\<open>pressed\<close> from the raw value and
  then compares and stores the raw value, so a button that reports 1 and then 2 (both
  pressed) is dispatched as pressed twice. The press counter of the pin is then 2, and
  the release that follows leaves the pin latched.
\<close>

theorem button_event_repeats_press:
  "map_option (\<lambda>(b, s). (button_prev b, performs s, latched_bit 0 4 (Some s), pin_count s 0 4))
     (button_events fire_button 0 [1, 2] init_state) =
   Some (2, [Perform_event (Action_joystick 0x10) 0 1, Perform_event (Action_joystick 0x10) 0 1],
         Some True, Some 2)"
  by code_simp

lemma button_event_stuck_pin:
  "map_option (\<lambda>(b, s). (button_prev b, latched_bit 0 4 (Some s), pin_count s 0 4))
     (button_events fire_button 0 [1, 2, 0] init_state) =
   Some (0, Some True, Some 1)"
  by code_simp

subsection \<open>Snapshots of a port\<close>

text \<open>
  C5 fails. \<^verbatim>\<open>joystick_snapshot_write_module\<close> writes \<^verbatim>\<open>joystick_value[port]\<close> and
  \<^verbatim>\<open>joystick_snapshot_read_module\<close> reads into \<^verbatim>\<open>joystick_value[port + 1]\<close>. The module
  of port 0 written with fire held, read into the initial state, leaves port 0 at 0 and
  sets port 1 to \<open>0x10\<close>; both calls return 0.
\<close>

theorem snapshot_read_restores_next_port:
  "map_option (\<lambda>(rc, snap). map_option (\<lambda>(rc', s). (rc, rc', take 3 (joystick_value s)))
       (joystick_snapshot_read_module snap 0 init_state))
     (joystick_snapshot_write_module [] 0 fire_state) =
   Some (Some (0, 0, [0, 0x10, 0]))"
  by code_simp

text \<open>For the last port the read writes behind the array.\<close>

lemma snapshot_read_last_port_out_of_bounds:
  "map_option (\<lambda>(rc, snap). joystick_snapshot_read_module snap 10 init_state)
     (joystick_snapshot_write_module [] 10 fire_state) = Some None"
  by code_simp

subsection \<open>The registry\<close>

lemma min_inputs_trim_name [simp]:
  "min_inputs (joystick_device_trim_name d) = min_inputs d"
  by (simp add: min_inputs_def joystick_device_trim_name_def Let_def)

lemma min_inputs_order_inputs [simp]:
  "min_inputs (order_inputs_on_code d) = min_inputs d"
  by (simp add: min_inputs_def order_inputs_on_code_def)

lemma length_map_buttons_default [simp]:
  "length (map_buttons_default bs) = length bs"
  by (simp add: map_buttons_default_def Let_def)

lemma min_inputs_default_mapping [simp]:
  "min_inputs (fst (snd (joystick_device_apply_default_mapping d))) = min_inputs d"
  by (simp add: min_inputs_def joystick_device_apply_default_mapping_def Let_def)




subsection \<open>Lines of a file\<close>

lemma fgets_line:
  "newline \<notin> set l \<Longrightarrow> length l < n \<Longrightarrow> fgets n (l @ newline # rest) = (l @ [newline], rest)"
proof (induction l arbitrary: n)
  case Nil
  then show ?case by (cases n) simp_all
next
  case (Cons c cs)
  then show ?case by (cases n) auto
qed

lemma c_string_id: "CHR 0x00 \<notin> set l \<Longrightarrow> c_string l = l"
  by (auto simp: c_string_def takeWhile_eq_all_conv)

lemma load_loop_line:
  assumes "plain_line l"
  shows "load_loop fn ln (l @ newline # rest) r =
     (case parse_line (l @ [newline]) fn ln r of
        None \<Rightarrow> None
      | Some r' \<Rightarrow> load_loop fn (ln + 1) rest r')"
proof -
  have fg: "fgets 998 (l @ newline # rest) = (l @ [newline], rest)"
    using assms by (intro fgets_line) (simp_all add: plain_line_def)
  have cs: "c_string (l @ [newline]) = l @ [newline]"
    using assms by (intro c_string_id) (simp add: plain_line_def newline_def)
  show ?thesis
    by (subst load_loop.simps) (simp add: fg cs cong: option.case_cong)
qed

lemma load_loop_Nil [simp]: "load_loop fn ln [] r = Some r"
  by (subst load_loop.simps) simp

lemma strip_line_newline:
  "strip_line (l @ [newline]) =
     dropWhile (\<lambda>c. c = CHR '' '' \<or> c = CHR 0x09) (takeWhile (\<lambda>c. c \<noteq> CHR ''#'') l)"
  by (simp add: strip_line_def)

lemma parse_line_comment:
  "parse_line ((CHR ''#'' # l) @ [newline]) fn ln r = Some r"
  by (simp add: parse_line_def Let_def strip_line_def)

lemma parse_line_empty:
  "parse_line ([] @ [newline]) fn ln r = Some r"
  by (simp add: parse_line_def Let_def strip_line_def)

lemma parse_line_clear:
  "parse_line (''!CLEAR'' @ [newline]) fn ln r = Some (joy_arch_keyword_clear r)"
  by (simp add: parse_line_def Let_def strip_line_def joy_arch_parse_keyword_def
      strtok_first_def is_delim_def newline_def)

subsection \<open>The keyword line\<close>

text \<open>The part of C6 that holds: after the keyword every directional, button and hat
  mapping is unmapped; the potentiometer targets are the old ones.\<close>

lemma keyword_clear_slots:
  "registry_slots (joy_arch_keyword_clear r) =
     map (\<lambda>d. (map (\<lambda>a. (Action_none, Action_none, axis_pot a)) (dev_axes d),
               map (\<lambda>b. Action_none) (dev_buttons d),
               map (\<lambda>h. (Action_none, Action_none, Action_none, Action_none)) (dev_hats d)))
       (joystick_devices r)"
  by (simp add: registry_slots_def joy_arch_keyword_clear_def device_slots_def clear_device_def
      clear_axis_def clear_button_def clear_hat_def axis_slots_def hat_slots_def comp_def)

lemma load_clear_line:
  "load_loop fn ln (''!CLEAR'' @ newline # rest) r =
     load_loop fn (ln + 1) rest (joy_arch_keyword_clear r)"
proof -
  have "plain_line ''!CLEAR''" by (simp add: plain_line_def newline_def)
  then have "load_loop fn ln (''!CLEAR'' @ newline # rest) r =
     (case parse_line (''!CLEAR'' @ [newline]) fn ln r of
        None \<Rightarrow> None
      | Some r' \<Rightarrow> load_loop fn (ln + 1) rest r')"
    by (rule load_loop_line)
  also have "\<dots> = load_loop fn (ln + 1) rest (joy_arch_keyword_clear r)"
    by (simp only: parse_line_clear option.case)
  finally show ?thesis .
qed

text \<open>
  C6 fails for the potentiometer targets. \<^verbatim>\<open>joy_arch_keyword_clear\<close> writes the action
  of the directional, button and hat mappings and leaves \<^verbatim>\<open>mapping.pot\<close> as it is, while
  \<^verbatim>\<open>joystick_axis_clear_mappings\<close> resets it and the header of the file says that the
  keyword clears all mappings. A file with the one line \<^verbatim>\<open>!CLEAR\<close>, loaded into the
  registry of the pad, leaves the first axis on potentiometer 1.
\<close>

theorem clear_keeps_pot:
  "map_option registry_slots (load_loop ''joy.vjm'' 1 (''!CLEAR'' @ [newline]) pad_registry) =
   Some [([(Action_none, Action_none, 1), (Action_none, Action_none, 0)],
          [Action_none, Action_none],
          [(Action_none, Action_none, Action_none, Action_none)])]"
proof -
  have "load_loop ''joy.vjm'' 1 (''!CLEAR'' @ [newline]) pad_registry =
      Some (joy_arch_keyword_clear pad_registry)"
    using load_clear_line [of "''joy.vjm''" 1 "[]" pad_registry] by simp
  then show ?thesis
    by (simp add: keyword_clear_slots pad_registry_def pad_def)
qed

subsection \<open>A line with a button index out of range\<close>







subsection \<open>Numbers in the mapping file\<close>

lemma digit_cases: "0 \<le> d \<Longrightarrow> d < 10 \<Longrightarrow> d \<in> {0, 1, 2, 3, 4, 5, 6, 7, 8, 9 :: int}"
  by simp arith

lemma isdigit_digit_char: "0 \<le> d \<Longrightarrow> d < 10 \<Longrightarrow> isdigit (digit_char d)"
  using digit_cases [of d] by (auto simp: isdigit_def digit_char_def)

lemma digit_val_digit_char: "0 \<le> d \<Longrightarrow> d < 10 \<Longrightarrow> digit_val (digit_char d) = d"
  by (simp add: digit_val_def digit_char_def)

lemma isdigit_not:
  assumes "isdigit c"
  shows "\<not> isspace c" "c \<noteq> CHR ''-''" "c \<noteq> CHR ''+''" "c \<noteq> CHR ''#''" "c \<noteq> CHR ''!''"
    "c \<noteq> newline" "c \<noteq> CHR 0x00" "c \<noteq> CHR '' ''" "c \<noteq> CHR 0x09"
  using assms by (auto simp: isdigit_def isspace_def newline_def)

lemma dec_nonempty: "dec n \<noteq> []"
  by (subst dec.simps) simp

lemma dec_digits: "0 \<le> n \<Longrightarrow> c \<in> set (dec n) \<Longrightarrow> isdigit c"
proof (induction n arbitrary: c rule: dec.induct)
  case (1 n)
  show ?case
  proof (cases "n < 10")
    case True
    then have "dec n = [digit_char n]" by (subst dec.simps) simp
    with 1(2,3) True show ?thesis by (simp add: isdigit_digit_char)
  next
    case False
    then have eq: "dec n = dec (n div 10) @ [digit_char (n mod 10)]" by (subst dec.simps) simp
    have "isdigit (digit_char (n mod 10))" by (intro isdigit_digit_char) simp_all
    moreover have "c \<in> set (dec (n div 10)) \<Longrightarrow> isdigit c"
      using 1(1) [of c] False 1(2) by simp
    ultimately show ?thesis using 1(3) eq by auto
  qed
qed

lemma digits_val_snoc: "digits_val (ds @ [c]) = 10 * digits_val ds + digit_val c"
  by (simp add: digits_val_def)

lemma digits_val_dec: "0 \<le> n \<Longrightarrow> digits_val (dec n) = n"
proof (induction n rule: dec.induct)
  case (1 n)
  show ?case
  proof (cases "n < 10")
    case True
    then have "dec n = [digit_char n]" by (subst dec.simps) simp
    with 1(2) True show ?thesis by (simp add: digits_val_def digit_val_digit_char)
  next
    case False
    then have eq: "dec n = dec (n div 10) @ [digit_char (n mod 10)]" by (subst dec.simps) simp
    have "digits_val (dec (n div 10)) = n div 10"
      using 1(1) False 1(2) by simp
    then show ?thesis
      by (simp add: eq digits_val_snoc digit_val_digit_char)
  qed
qed

lemma length_dec: "0 \<le> n \<Longrightarrow> n < 10 ^ k \<Longrightarrow> 0 < k \<Longrightarrow> length (dec n) \<le> k"
proof (induction n arbitrary: k rule: dec.induct)
  case (1 n)
  show ?case
  proof (cases "n < 10")
    case True
    then have "dec n = [digit_char n]" by (subst dec.simps) simp
    with 1(4) show ?thesis by simp
  next
    case False
    then have eq: "dec n = dec (n div 10) @ [digit_char (n mod 10)]" by (subst dec.simps) simp
    obtain j where k: "k = Suc j" using 1(4) by (cases k) simp_all
    have "j \<noteq> 0"
    proof
      assume "j = 0"
      with 1(3) k False show False by simp
    qed
    moreover have "n div 10 < 10 ^ j" using 1(3) k by simp
    ultimately have "length (dec (n div 10)) \<le> j"
      using 1(1) [of j] False 1(2) by simp
    then show ?thesis by (simp add: eq k)
  qed
qed

lemma takeWhile_stop:
  "\<forall>x\<in>set xs. P x \<Longrightarrow> ys = [] \<or> \<not> P (hd ys) \<Longrightarrow> takeWhile P (xs @ ys) = xs"
  by (cases ys) (simp_all add: takeWhile_append2)

lemma dropWhile_stop:
  "\<forall>x\<in>set xs. P x \<Longrightarrow> ys = [] \<or> \<not> P (hd ys) \<Longrightarrow> dropWhile P (xs @ ys) = ys"
  by (cases ys) (simp_all add: dropWhile_append2)

lemma dropWhile_start: "xs \<noteq> [] \<Longrightarrow> \<not> P (hd xs) \<Longrightarrow> dropWhile P xs = xs"
  by (cases xs) simp_all

lemma hd_dec_digit: "0 \<le> n \<Longrightarrow> isdigit (hd (dec n))"
  using dec_nonempty [of n] dec_digits [of n "hd (dec n)"] by simp

lemma s32_id: "int32 n \<Longrightarrow> s32 n = n"
  by (simp add: s32_def int32_def)

lemma strtol_dec:
  assumes "0 \<le> n" "n < 2 ^ 63" "rest = [] \<or> \<not> isdigit (hd rest)"
  shows "strtol (dec n @ rest) = Some (n, rest)"
proof -
  have ne: "dec n \<noteq> []" by (rule dec_nonempty)
  have hd: "isdigit (hd (dec n))" using assms(1) by (rule hd_dec_digit)
  have s1: "dropWhile isspace (dec n @ rest) = dec n @ rest"
    using ne hd by (intro dropWhile_start) (simp_all add: isdigit_not)
  have h: "hd (dec n @ rest) = hd (dec n)" using ne by simp
  have tw: "takeWhile isdigit (dec n @ rest) = dec n"
    using assms(1,3) by (intro takeWhile_stop) (auto intro: dec_digits)
  have dw: "dropWhile isdigit (dec n @ rest) = rest"
    using assms(1,3) by (intro dropWhile_stop) (auto intro: dec_digits)
  show ?thesis
    unfolding strtol_def s1 h
    using hd ne assms(1,2)
    by (simp add: Let_def isdigit_not tw dw digits_val_dec)
qed

lemma strtol_neg:
  assumes "0 < n" "n \<le> 2 ^ 63" "rest = [] \<or> \<not> isdigit (hd rest)"
  shows "strtol (CHR ''-'' # dec n @ rest) = Some (- n, rest)"
proof -
  have pos: "0 \<le> n" using assms(1) by simp
  have ne: "dec n \<noteq> []" by (rule dec_nonempty)
  have tw: "takeWhile isdigit (dec n @ rest) = dec n"
    using pos assms(3) by (intro takeWhile_stop) (auto intro: dec_digits)
  have dw: "dropWhile isdigit (dec n @ rest) = rest"
    using pos assms(3) by (intro dropWhile_stop) (auto intro: dec_digits)
  have sp: "\<not> isspace CHR ''-''" by (simp add: isspace_def)
  show ?thesis
    unfolding strtol_def
    using ne assms(1,2)
    by (simp add: Let_def sp tw dw digits_val_dec)
qed

lemma parse_int_print_int:
  assumes "int32 n" "rest = [] \<or> \<not> isdigit (hd rest)"
  shows "parse_int (print_int n @ rest) = Some (n, rest)"
proof (cases "n < 0")
  case True
  then have "strtol (CHR ''-'' # dec (- n) @ rest) = Some (- (- n), rest)"
    using assms by (intro strtol_neg) (simp_all add: int32_def)
  then show ?thesis
    using True assms(1) by (simp add: parse_int_def print_int_def s32_id)
next
  case False
  then have "strtol (dec n @ rest) = Some (n, rest)"
    using assms by (intro strtol_dec) (simp_all add: int32_def)
  then show ?thesis
    using False assms(1) by (simp add: parse_int_def print_int_def s32_id)
qed

lemma print_uint_eq: "0 \<le> n \<Longrightarrow> n < 2 ^ 32 \<Longrightarrow> print_uint n = print_int n"
  by (simp add: print_uint_def print_int_def)

lemma print_int_nonempty: "print_int n \<noteq> []"
  by (simp add: print_int_def dec_nonempty)

lemma hd_print_int_cases: "hd (print_int n) = CHR ''-'' \<or> isdigit (hd (print_int n))"
  using hd_dec_digit [of n] by (simp add: print_int_def)

lemma hd_print_int: "\<not> isspace (hd (print_int n))" "hd (print_int n) \<noteq> CHR ''#''"
  "hd (print_int n) \<noteq> CHR ''!''" "hd (print_int n) \<noteq> CHR '' ''" "hd (print_int n) \<noteq> CHR 0x09"
  using hd_print_int_cases [of n] by (auto simp: isspace_def isdigit_def)

lemma skip_print_int: "util_skip_whitespace (CHR '' '' # print_int n @ rest) = print_int n @ rest"
proof -
  have "dropWhile isspace (print_int n @ rest) = print_int n @ rest"
    using print_int_nonempty [of n] hd_print_int(1) [of n]
    by (intro dropWhile_start) simp_all
  then show ?thesis by (simp add: util_skip_whitespace_def isspace_def)
qed

lemma skip_print_int0: "util_skip_whitespace (print_int n @ rest) = print_int n @ rest"
proof -
  have "dropWhile isspace (print_int n @ rest) = print_int n @ rest"
    using print_int_nonempty [of n] hd_print_int(1) [of n]
    by (intro dropWhile_start) simp_all
  then show ?thesis by (simp add: util_skip_whitespace_def)
qed

lemma space_stop: "\<not> isdigit CHR '' ''"
  by (simp add: isdigit_def)

lemma parse_four:
  assumes "int32 a" "int32 b" "int32 c" "int32 d" "rest = [] \<or> \<not> isdigit (hd rest)"
  shows "parse_int_args 4
           (print_int a @ CHR '' '' # print_int b @ CHR '' '' # print_int c @ CHR '' '' #
            print_int d @ rest) = ([a, b, c, d], rest)"
proof -
  have four: "4 = Suc (Suc (Suc (Suc 0)))" by simp
  show ?thesis
    unfolding four parse_int_args.simps
    using assms
    by (simp add: skip_print_int0 skip_print_int parse_int_print_int space_stop Let_def)
qed

lemma parse_two_of_three:
  assumes "int32 a" "int32 b"
  shows "parse_int_args 3 (print_int a @ CHR '' '' # print_int b) = ([a, b], [])"
proof -
  have three: "3 = Suc (Suc (Suc 0))" by simp
  have e: "parse_int [] = None"
    by (simp add: parse_int_def strtol_def)
  have b: "parse_int (print_int b) = Some (b, [])"
    using parse_int_print_int [of b "[]"] assms by simp
  have sb: "util_skip_whitespace (CHR '' '' # print_int b) = print_int b"
    using skip_print_int [of b "[]"] by simp
  show ?thesis
    unfolding three parse_int_args.simps
    using assms
    by (simp add: skip_print_int0 parse_int_print_int space_stop Let_def e b sb
        util_skip_whitespace_def [of "[]"])
qed

subsection \<open>The line of a mapping\<close>

lemma entry_text_plain: "entry_text l \<Longrightarrow> plain_line l"
  by (auto simp: entry_text_def plain_line_def)

lemma parse_line_entry:
  assumes "entry_text l"
  shows "parse_line (l @ [newline]) fn ln r = map_option snd (joy_arch_parse_entry l fn ln r)"
proof -
  have tw: "takeWhile (\<lambda>c. c \<noteq> CHR ''#'') l = l"
    using assms by (simp add: entry_text_def takeWhile_eq_all_conv)
  have dw: "dropWhile (\<lambda>c. c = CHR '' '' \<or> c = CHR 0x09) l = l"
    using assms by (intro dropWhile_start) (simp_all add: entry_text_def)
  show ?thesis
    using assms by (simp add: parse_line_def strip_line_newline tw dw Let_def entry_text_def)
qed

lemma parse_entry_numbers:
  assumes "int32 d" "0 \<le> d" "d < int (length (joystick_devices r))"
    "0 \<le> t" "t \<le> 2" "int32 i" "0 \<le> i" "0 \<le> a" "a \<le> 6"
    "rest = [] \<or> \<not> isdigit (hd rest)"
  shows "joy_arch_parse_entry
           (print_int d @ CHR '' '' # print_int t @ CHR '' '' # print_int i @ CHR '' '' #
            print_int a @ rest) fn ln r =
         (case parse_action_args r (entry_state fn ln d t i a) (util_skip_whitespace rest) of
            None \<Rightarrow> None
          | Some (Inl message) \<Rightarrow> Some (False, parser_log_error (entry_state fn ln 0 0 0 0) message r)
          | Some (Inr st) \<Rightarrow> Some (apply_entry st r))"
proof -
  have args: "parse_int_args 4
           (print_int d @ CHR '' '' # print_int t @ CHR '' '' # print_int i @ CHR '' '' #
            print_int a @ rest) = ([d, t, i, a], rest)"
    using assms by (intro parse_four) (simp_all add: int32_def)
  show ?thesis
    unfolding joy_arch_parse_entry_def args
    using assms(2-5,7-9)
    by (simp add: Let_def JOY_INPUT_MAX_def JOY_ACTION_NONE_def JOY_ACTION_MAX_def
        entry_state_def apply_entry_def split: option.split sum.split)
qed

lemma print_int_chars: "c \<in> set (print_int n) \<Longrightarrow> text_char c"
proof -
  assume c: "c \<in> set (print_int n)"
  have "c = CHR ''-'' \<or> isdigit c"
  proof (cases "n < 0")
    case True
    with c dec_digits [of "- n" c] show ?thesis by (auto simp: print_int_def)
  next
    case False
    with c dec_digits [of n c] show ?thesis by (auto simp: print_int_def)
  qed
  then show ?thesis
    by (auto simp: text_char_def isdigit_def newline_def)
qed

lemma length_print_int: "int32 n \<Longrightarrow> length (print_int n) \<le> 11"
proof (cases "n < 0")
  case True
  assume "int32 n"
  then have "length (dec (- n)) \<le> 10"
    using True by (intro length_dec) (simp_all add: int32_def)
  then show ?thesis using True by (simp add: print_int_def)
next
  case False
  assume "int32 n"
  then have "length (dec n) \<le> 10"
    using False by (intro length_dec) (simp_all add: int32_def)
  then show ?thesis using False by (simp add: print_int_def)
qed

lemma text_char_space: "text_char CHR '' ''"
  by (simp add: text_char_def newline_def)

lemma entry_text_numbers:
  assumes "int32 d" "int32 t" "int32 i" "int32 a" "\<forall>c\<in>set rest. text_char c" "length rest \<le> 600"
  shows "entry_text (print_int d @ CHR '' '' # print_int t @ CHR '' '' # print_int i @ CHR '' '' #
            print_int a @ rest)"
proof -
  let ?l = "print_int d @ CHR '' '' # print_int t @ CHR '' '' # print_int i @ CHR '' '' #
            print_int a @ rest"
  have ne: "?l \<noteq> []" by (simp add: print_int_nonempty)
  have hd: "hd ?l = hd (print_int d)" by (simp add: print_int_nonempty)
  have chars: "\<forall>c\<in>set ?l. text_char c"
    using assms(5) by (auto simp: text_char_space print_int_chars)
  have len: "length ?l < 998"
    using length_print_int [OF assms(1)] length_print_int [OF assms(2)]
      length_print_int [OF assms(3)] length_print_int [OF assms(4)] assms(6)
    by simp
  show ?thesis
    unfolding entry_text_def hd
    using ne chars len by (simp add: hd_print_int text_char_def)
qed

lemma entry_line:
  assumes "int32 d" "0 \<le> d" "d < int (length (joystick_devices rc))"
    "0 \<le> t" "t \<le> 2" "int32 i" "0 \<le> i" "0 \<le> a" "a \<le> 6"
    "rest = [] \<or> \<not> isdigit (hd rest)" "\<forall>c\<in>set rest. text_char c" "length rest \<le> 600"
    "parse_action_args rc (entry_state fn ln d t i a) (util_skip_whitespace rest) = Some (Inr st)"
  shows "entry_text (print_int d @ CHR '' '' # print_int t @ CHR '' '' # print_int i @ CHR '' '' #
            print_int a @ rest) \<and>
         joy_arch_parse_entry (print_int d @ CHR '' '' # print_int t @ CHR '' '' # print_int i @
            CHR '' '' # print_int a @ rest) fn ln rc = Some (apply_entry st rc)"
proof -
  have "entry_text (print_int d @ CHR '' '' # print_int t @ CHR '' '' # print_int i @ CHR '' '' #
            print_int a @ rest)"
    using assms by (intro entry_text_numbers) (simp_all add: int32_def)
  moreover have "joy_arch_parse_entry (print_int d @ CHR '' '' # print_int t @ CHR '' '' #
            print_int i @ CHR '' '' # print_int a @ rest) fn ln rc = Some (apply_entry st rc)"
    using parse_entry_numbers [OF assms(1-10), of fn ln] assms(13) by simp
  ultimately show ?thesis by simp
qed

lemma skip_nothing: "util_skip_whitespace [] = []"
  by (simp add: util_skip_whitespace_def)

lemma action_numbers:
  "JOY_ACTION_NONE = 0" "JOY_ACTION_JOYSTICK = 1" "JOY_ACTION_KEYBOARD = 2" "JOY_ACTION_MAP = 3"
  "JOY_ACTION_UI_ACTIVATE = 4" "JOY_ACTION_UI_FUNCTION = 5" "JOY_ACTION_POT_AXIS = 6"
  by (simp_all add: JOY_ACTION_NONE_def JOY_ACTION_JOYSTICK_def JOY_ACTION_KEYBOARD_def
      JOY_ACTION_MAP_def JOY_ACTION_UI_ACTIVATE_def JOY_ACTION_UI_FUNCTION_def
      JOY_ACTION_POT_AXIS_def)

lemma dump_map_plain:
  assumes "m = Action_none \<or> m = Action_map \<or> m = Action_ui_activate"
    "int32 d" "0 \<le> d" "d < int (length (joystick_devices rc))"
    "0 \<le> t" "t \<le> 2" "int32 i" "0 \<le> i"
  shows "\<exists>l st. mapping_dump_map r d t i m = Some l \<and> entry_text l \<and>
           joy_arch_parse_entry l fn ln rc = Some (apply_entry st rc) \<and> line_state st d t i m"
proof -
  let ?a = "action_number m"
  let ?l = "print_int d @ CHR '' '' # print_int t @ CHR '' '' # print_int i @ CHR '' '' #
            print_int ?a @ []"
  let ?st = "entry_state fn ln d t i ?a"
  have a: "0 \<le> ?a" "?a \<le> 6" "?a = 0 \<or> ?a = 3 \<or> ?a = 4"
    using assms(1) by (auto simp: action_numbers)
  have dump: "mapping_dump_map r d t i m = Some ?l"
    using assms(1,5,6) a(1,2) by (auto simp: mapping_dump_map_def print_uint_eq)
  have args: "parse_action_args rc ?st (util_skip_whitespace []) = Some (Inr ?st)"
    using a(3) by (auto simp: parse_action_args_def entry_state_def action_numbers Let_def)
  have line: "entry_text ?l \<and> joy_arch_parse_entry ?l fn ln rc = Some (apply_entry ?st rc)"
    using assms(2-8) a(1,2) args by (intro entry_line) simp_all
  have st: "line_state ?st d t i m"
    using assms(1)
    by (auto simp: line_state_def entry_state_def parser_set_mapping_def action_numbers)
  show ?thesis using dump line st by blast
qed

lemma dump_map_joystick:
  assumes "m = Action_joystick pin"
    "int32 d" "0 \<le> d" "d < int (length (joystick_devices rc))"
    "0 \<le> t" "t \<le> 2" "int32 i" "0 \<le> i"
  shows "\<exists>l st. mapping_dump_map r d t i m = Some l \<and> entry_text l \<and>
           joy_arch_parse_entry l fn ln rc = Some (apply_entry st rc) \<and> line_state st d t i m"
proof -
  let ?rest = "CHR '' '' # print_int (uint pin)"
  let ?l = "print_int d @ CHR '' '' # print_int t @ CHR '' '' # print_int i @ CHR '' '' #
            print_int 1 @ ?rest"
  let ?st = "(entry_state fn ln d t i 1)\<lparr>ps_pin := pin\<rparr>"
  have pin0: "0 \<le> uint pin" "uint pin < 65536"
    using uint_lt2p [of pin] by simp_all
  have lo: "- (2 ^ 31) \<le> uint pin"
    by (rule order_trans [of _ 0]) simp_all
  have hi: "uint pin < 2 ^ 31"
    by (rule less_trans [OF pin0(2)]) simp
  have pin3: "int32 (uint pin)"
    unfolding int32_def using lo hi by (rule conjI)
  note pin = pin0 pin3
  have dump: "mapping_dump_map r d t i m = Some ?l"
    using assms(1,5,6) by (simp add: mapping_dump_map_def print_uint_eq action_numbers)
  have p: "parse_int (print_int (uint pin)) = Some (uint pin, [])"
    using parse_int_print_int [of "uint pin" "[]"] pin(3) by simp
  have sk: "util_skip_whitespace ?rest = print_int (uint pin)"
    using skip_print_int [of "uint pin" "[]"] by simp
  have args: "parse_action_args rc (entry_state fn ln d t i 1) (util_skip_whitespace ?rest) =
      Some (Inr ?st)"
    unfolding sk using pin(1,2)
    by (simp add: parse_action_args_def p action_numbers Let_def entry_state_def)
  have len: "length ?rest \<le> 600"
    using length_print_int [OF pin(3)] by simp
  have line: "entry_text ?l \<and> joy_arch_parse_entry ?l fn ln rc = Some (apply_entry ?st rc)"
    using assms(2-8) args len
    by (intro entry_line) (simp_all add: space_stop text_char_space print_int_chars)
  have st: "line_state ?st d t i m"
    using assms(1)
    by (simp add: line_state_def entry_state_def parser_set_mapping_def action_numbers)
  show ?thesis using dump line st by blast
qed

lemma dump_map_keyboard:
  assumes "m = Action_keyboard row col flags" "int32 row" "int32 col"
    "int32 d" "0 \<le> d" "d < int (length (joystick_devices rc))"
    "0 \<le> t" "t \<le> 2" "int32 i" "0 \<le> i"
  shows "\<exists>l st. mapping_dump_map r d t i m = Some l \<and> entry_text l \<and>
           joy_arch_parse_entry l fn ln rc = Some (apply_entry st rc) \<and> line_state st d t i m"
proof -
  let ?rest = "CHR '' '' # print_int row @ CHR '' '' # print_int col"
  let ?l = "print_int d @ CHR '' '' # print_int t @ CHR '' '' # print_int i @ CHR '' '' #
            print_int 2 @ ?rest"
  let ?st = "(entry_state fn ln d t i 2)\<lparr>ps_key_row := row, ps_key_column := col, ps_key_flags := 0\<rparr>"
  have dump: "mapping_dump_map r d t i m = Some ?l"
    using assms(1,7,8) by (simp add: mapping_dump_map_def print_uint_eq action_numbers)
  have sk: "util_skip_whitespace ?rest = print_int row @ CHR '' '' # print_int col"
    by (rule skip_print_int)
  have args: "parse_action_args rc (entry_state fn ln d t i 2) (util_skip_whitespace ?rest) =
      Some (Inr ?st)"
    unfolding sk
    by (simp add: parse_action_args_def parse_two_of_three [OF assms(2,3)] action_numbers
        Let_def entry_state_def)
  have len: "length ?rest \<le> 600"
    using length_print_int [OF assms(2)] length_print_int [OF assms(3)] by simp
  have line: "entry_text ?l \<and> joy_arch_parse_entry ?l fn ln rc = Some (apply_entry ?st rc)"
    using assms(4-10) args len
    by (intro entry_line) (auto simp: space_stop text_char_space print_int_chars)
  have st: "line_state ?st d t i m"
    using assms(1)
    by (simp add: line_state_def entry_state_def parser_set_mapping_def action_numbers)
  show ?thesis using dump line st by blast
qed

lemma name_chars:
  "isalpha c \<Longrightarrow> text_char c" "is_name_char c \<Longrightarrow> text_char c" "isalpha c \<Longrightarrow> \<not> isspace c"
  "isalpha c \<Longrightarrow> \<not> isdigit c"
  by (auto simp: isalpha_def is_name_char_def isalnum_def isdigit_def text_char_def newline_def
      isspace_def)

lemma dump_map_ui_function:
  assumes "m = Action_ui_function a" "ui_name_ok r a" "ui_actions rc = ui_actions r"
    "int32 d" "0 \<le> d" "d < int (length (joystick_devices rc))"
    "0 \<le> t" "t \<le> 2" "int32 i" "0 \<le> i"
  shows "\<exists>l st. mapping_dump_map r d t i m = Some l \<and> entry_text l \<and>
           joy_arch_parse_entry l fn ln rc = Some (apply_entry st rc) \<and> line_state st d t i m"
proof -
  obtain name where name: "ui_action_get_name r a = Some name" "name \<noteq> []" "isalpha (hd name)"
    "list_all is_name_char (tl name)" "length name < 256" "ui_action_get_id r name = a"
    "a > ACTION_NONE"
    using assms(2) by (auto simp: ui_name_ok_def split: option.splits)
  obtain c cs where cs: "name = c # cs" using name(2) by (cases name) simp_all
  let ?rest = "CHR '' '' # name"
  let ?l = "print_int d @ CHR '' '' # print_int t @ CHR '' '' # print_int i @ CHR '' '' #
            print_int 5 @ ?rest"
  let ?st = "(entry_state fn ln d t i 5)\<lparr>ps_ui_action_id := a\<rparr>"
  have dump: "mapping_dump_map r d t i m = Some ?l"
    using assms(1,7,8) name(1) by (simp add: mapping_dump_map_def print_uint_eq action_numbers)
  have ns: "\<not> isspace c" using name(3) cs by (simp add: name_chars)
  have sp: "isspace CHR '' ''" by (simp add: isspace_def)
  have sk: "util_skip_whitespace ?rest = name"
    by (simp add: util_skip_whitespace_def cs sp ns)
  have tw: "takeWhile is_name_char cs = cs"
    using name(4) cs by (simp add: takeWhile_eq_all_conv list_all_iff)
  have id: "ui_action_get_id rc name = a"
    using name(6) assms(3) by (simp add: ui_action_get_id_def)
  have args: "parse_action_args rc (entry_state fn ln d t i 5) (util_skip_whitespace ?rest) =
      Some (Inr ?st)"
    unfolding sk using name(3,5,7) id
    by (simp add: parse_action_args_def cs tw action_numbers Let_def entry_state_def)
  have chars: "\<forall>x\<in>set ?rest. text_char x"
    using name(3,4) cs by (auto simp: text_char_space name_chars list_all_iff)
  have len: "length ?rest \<le> 600" using name(5) by simp
  have line: "entry_text ?l \<and> joy_arch_parse_entry ?l fn ln rc = Some (apply_entry ?st rc)"
    using assms(4-10) args len chars
    by (intro entry_line) (simp_all add: space_stop)
  have st: "line_state ?st d t i m"
    using assms(1)
    by (simp add: line_state_def entry_state_def parser_set_mapping_def action_numbers)
  show ?thesis using dump line st by blast
qed

lemma dump_map_line:
  assumes "slot_ok r m" "ui_actions rc = ui_actions r"
    "int32 d" "0 \<le> d" "d < int (length (joystick_devices rc))"
    "0 \<le> t" "t \<le> 2" "int32 i" "0 \<le> i"
  shows "\<exists>l st. mapping_dump_map r d t i m = Some l \<and> entry_text l \<and>
           joy_arch_parse_entry l fn ln rc = Some (apply_entry st rc) \<and> line_state st d t i m"
proof (cases m)
  case Action_none
  then show ?thesis using assms by (intro dump_map_plain) simp_all
next
  case (Action_joystick pin)
  then show ?thesis using assms by (intro dump_map_joystick [of m pin]) simp_all
next
  case (Action_keyboard row col flags)
  then show ?thesis using assms by (intro dump_map_keyboard [of m row col flags]) simp_all
next
  case Action_map
  then show ?thesis using assms by (intro dump_map_plain) simp_all
next
  case Action_ui_activate
  then show ?thesis using assms by (intro dump_map_plain) simp_all
next
  case (Action_ui_function a)
  then show ?thesis using assms by (intro dump_map_ui_function [of m a]) simp_all
next
  case Action_pot_axis
  then show ?thesis using assms(1) by simp
qed

subsection \<open>The setters of the parser\<close>

lemma input_types: "JOY_INPUT_AXIS = 0" "JOY_INPUT_BUTTON = 1" "JOY_INPUT_HAT = 2"
  by (simp_all add: JOY_INPUT_AXIS_def JOY_INPUT_BUTTON_def JOY_INPUT_HAT_def)

lemma set_button:
  assumes "line_state st (int k) 1 (int j) m" "j < length (dev_buttons (joystick_devices rc ! k))"
  shows "apply_entry st rc = (True, upd_dev k (put_button j (no_flags m)) rc)"
  using assms
  by (simp add: apply_entry_def line_state_def input_types parser_set_button_def Let_def
      log_opt_def upd_dev_def put_button_def)

lemma set_positive:
  assumes "line_state st (int k) 0 (2 * int j) m" "j < length (dev_axes (joystick_devices rc ! k))"
  shows "apply_entry st rc = (True, upd_dev k (put_positive j (no_flags m)) rc)"
  using assms
  by (simp add: apply_entry_def line_state_def input_types parser_set_axis_def Let_def
      log_opt_def upd_dev_def put_positive_def)

lemma set_negative:
  assumes "line_state st (int k) 0 (2 * int j + 1) m" "j < length (dev_axes (joystick_devices rc ! k))"
  shows "apply_entry st rc = (True, upd_dev k (put_negative j (no_flags m)) rc)"
proof -
  have "(2 * int j + 1) div 2 = int j" "(2 * int j + 1) mod 2 = 1" by simp_all
  then show ?thesis
    using assms
    by (simp add: apply_entry_def line_state_def input_types parser_set_axis_def Let_def
        log_opt_def upd_dev_def put_negative_def)
qed

lemma set_hat:
  assumes "line_state st (int k) 2 (4 * int j + dir) m" "j < length (dev_hats (joystick_devices rc ! k))"
    "0 \<le> dir" "dir < 4"
  shows "apply_entry st rc =
     (True, upd_dev k (put_hat j (\<lambda>h. if dir = 0 then h\<lparr>hat_up := no_flags m\<rparr>
                                       else if dir = 1 then h\<lparr>hat_down := no_flags m\<rparr>
                                       else if dir = 2 then h\<lparr>hat_left := no_flags m\<rparr>
                                       else h\<lparr>hat_right := no_flags m\<rparr>)) rc)"
proof -
  have "(4 * int j + dir) div 4 = int j" "(4 * int j + dir) mod 4 = dir"
    using assms(3,4) by simp_all
  then show ?thesis
    using assms
    by (simp add: apply_entry_def line_state_def input_types parser_set_hat_def Let_def
        log_opt_def upd_dev_def put_hat_def)
qed

subsection \<open>Lines that load\<close>

lemma file_text_Cons: "file_text (l # ls) = l @ newline # file_text ls"
  by (simp add: file_text_def)

lemma load_loop_lines:
  "list_all plain_line ls \<Longrightarrow> load_loop fn ln (file_text ls) r = load_lines fn ln ls r"
proof (induction ls arbitrary: ln r)
  case Nil
  show ?case by (simp add: file_text_def)
next
  case (Cons l ls)
  then have pl: "plain_line l" and rest: "list_all plain_line ls" by simp_all
  show ?case
    unfolding file_text_Cons load_loop_line [OF pl]
    by (simp add: Cons.IH [OF rest] cong: option.case_cong)
qed

lemma load_lines_append:
  "load_lines fn ln (xs @ ys) r =
     (case load_lines fn ln xs r of
        None \<Rightarrow> None
      | Some r' \<Rightarrow> load_lines fn (ln + int (length xs)) ys r')"
proof (induction xs arbitrary: ln r)
  case Nil
  show ?case by simp
next
  case (Cons x xs)
  show ?case
    by (simp add: Cons.IH add.assoc split: option.split)
qed

lemma loads_Nil: "loads fn [] r r"
  by (simp add: loads_def)

lemma loads_append: "loads fn xs r r1 \<Longrightarrow> loads fn ys r1 r2 \<Longrightarrow> loads fn (xs @ ys) r r2"
  by (simp add: loads_def load_lines_append)

lemma loads_Cons: "loads fn [x] r r1 \<Longrightarrow> loads fn ys r1 r2 \<Longrightarrow> loads fn (x # ys) r r2"
  using loads_append [of fn "[x]" r r1 ys r2] by simp

lemma loads_line:
  "plain_line l \<Longrightarrow> (\<And>ln. parse_line (l @ [newline]) fn ln r = Some r') \<Longrightarrow> loads fn [l] r r'"
  by (simp add: loads_def)

lemma loads_empty: "loads fn [[]] r r"
  using parse_line_empty by (intro loads_line) (simp_all add: plain_line_def)

lemma loads_comment: "plain_line (CHR ''#'' # l) \<Longrightarrow> loads fn [CHR ''#'' # l] r r"
  using parse_line_comment by (intro loads_line) simp_all

lemma loads_clear: "loads fn [''!CLEAR''] r (joy_arch_keyword_clear r)"
proof -
  have "plain_line ''!CLEAR''" by (simp add: plain_line_def newline_def)
  moreover have "parse_line (''!CLEAR'' @ [newline]) fn ln r = Some (joy_arch_keyword_clear r)" for ln
    by (rule parse_line_clear)
  ultimately show ?thesis by (rule loads_line)
qed

lemma slot_line:
  assumes "slot_ok r m" "ui_actions rc = ui_actions r" "k < length (joystick_devices rc)"
    "int32 (int k)" "0 \<le> t" "t \<le> 2" "int32 i" "0 \<le> i"
    "\<And>st. line_state st (int k) t i m \<Longrightarrow> apply_entry st rc = (True, rc')"
  shows "\<exists>l. mapping_dump_map r (int k) t i m = Some l \<and> loads fn [l] rc rc'"
proof -
  have line: "\<exists>l st. mapping_dump_map r (int k) t i m = Some l \<and> entry_text l \<and>
           joy_arch_parse_entry l fn ln rc = Some (apply_entry st rc) \<and>
           line_state st (int k) t i m" for ln
    using assms(1-8) by (intro dump_map_line) simp_all
  obtain l where l: "mapping_dump_map r (int k) t i m = Some l" "entry_text l"
    using line [of 0] by blast
  have "parse_line (l @ [newline]) fn ln rc = Some rc'" for ln
  proof -
    obtain l' st where st: "mapping_dump_map r (int k) t i m = Some l'"
      "joy_arch_parse_entry l' fn ln rc = Some (apply_entry st rc)"
      "line_state st (int k) t i m"
      using line [of ln] by blast
    have "l' = l" using st(1) l(1) by simp
    then show ?thesis
      using st(2) assms(9) [OF st(3)] by (simp add: parse_line_entry [OF l(2)])
  qed
  then have "loads fn [l] rc rc'"
    using entry_text_plain [OF l(2)] by (intro loads_line) simp_all
  then show ?thesis using l(1) by blast
qed

lemma pot_line:
  assumes "0 < pot" "int32 pot" "k < length (joystick_devices rc)" "int32 (int k)"
    "j < length (dev_axes (joystick_devices rc ! k))" "int32 (int j)"
  shows "loads fn
           [print_int (int k) @ '' '' @ print_int JOY_INPUT_AXIS @ '' '' @
            print_int (int j) @ '' '' @ print_int JOY_ACTION_POT_AXIS @ '' '' @ print_uint pot]
           rc (upd_dev k (put_pot j pot) rc)"
proof -
  let ?rest = "CHR '' '' # print_int pot"
  let ?l = "print_int (int k) @ CHR '' '' # print_int 0 @ CHR '' '' # print_int (int j) @
            CHR '' '' # print_int 6 @ ?rest"
  have eq: "print_int (int k) @ '' '' @ print_int JOY_INPUT_AXIS @ '' '' @
            print_int (int j) @ '' '' @ print_int JOY_ACTION_POT_AXIS @ '' '' @ print_uint pot = ?l"
    using assms(1,2) by (simp add: input_types action_numbers print_uint_eq int32_def)
  have p: "parse_int (print_int pot) = Some (pot, [])"
    using parse_int_print_int [of pot "[]"] assms(2) by simp
  have sk: "util_skip_whitespace ?rest = print_int pot"
    using skip_print_int [of pot "[]"] by simp
  have args: "parse_action_args rc (entry_state fn ln (int k) 0 (int j) 6)
      (util_skip_whitespace ?rest) = Some (Inr ((entry_state fn ln (int k) 0 (int j) 6)\<lparr>ps_pot := pot\<rparr>))"
    for ln
    unfolding sk
    by (simp add: parse_action_args_def p action_numbers Let_def entry_state_def)
  have len: "length ?rest \<le> 600"
    using length_print_int [OF assms(2)] by simp
  have line: "entry_text ?l \<and> joy_arch_parse_entry ?l fn ln rc =
      Some (apply_entry ((entry_state fn ln (int k) 0 (int j) 6)\<lparr>ps_pot := pot\<rparr>) rc)" for ln
    using assms(3,4,6) args [of ln] len
    by (intro entry_line) (simp_all add: space_stop text_char_space print_int_chars)
  have set: "apply_entry ((entry_state fn ln (int k) 0 (int j) 6)\<lparr>ps_pot := pot\<rparr>) rc =
      (True, upd_dev k (put_pot j pot) rc)" for ln
    using assms(5)
    by (simp add: apply_entry_def entry_state_def input_types action_numbers
        parser_set_axis_def Let_def upd_dev_def put_pot_def)
  have "parse_line (?l @ [newline]) fn ln rc = Some (upd_dev k (put_pot j pot) rc)" for ln
    using parse_line_entry [of ?l fn ln rc] line [of ln] set [of ln] by simp
  moreover have "plain_line ?l" using line [of 0] by (simp add: entry_text_plain)
  ultimately show ?thesis unfolding eq by (rule loads_line [rotated])
qed

subsection \<open>The lines of the inputs\<close>

lemma shape_put [simp]:
  "dev_shape (put_pot j p dev) = dev_shape dev"
  "dev_shape (put_positive j m dev) = dev_shape dev"
  "dev_shape (put_negative j m dev) = dev_shape dev"
  "dev_shape (put_button j m dev) = dev_shape dev"
  "dev_shape (put_hat j f dev) = dev_shape dev"
  by (simp_all add: dev_shape_def put_pot_def put_positive_def put_negative_def put_button_def
      put_hat_def)

lemma shape_put_axis [simp]: "dev_shape (put_axis j a dev) = dev_shape dev"
  by (simp add: put_axis_def)

lemma shape_put_directions [simp]: "dev_shape (put_directions j h dev) = dev_shape dev"
  by (simp add: put_directions_def)

lemma upd_dev_twice:
  "k < length (joystick_devices rc) \<Longrightarrow>
   upd_dev k g (upd_dev k f rc) = upd_dev k (\<lambda>dev. g (f dev)) rc"
  by (simp add: upd_dev_def)

lemma upd_dev_simps [simp]:
  "ui_actions (upd_dev k f rc) = ui_actions rc"
  "length (joystick_devices (upd_dev k f rc)) = length (joystick_devices rc)"
  "k < length (joystick_devices rc) \<Longrightarrow> joystick_devices (upd_dev k f rc) ! k = f (joystick_devices rc ! k)"
  "k' \<noteq> k \<Longrightarrow> joystick_devices (upd_dev k f rc) ! k' = joystick_devices rc ! k'"
  by (simp_all add: upd_dev_def)

lemma target_upd:
  "target r rc k dv \<Longrightarrow> dev_shape (f (joystick_devices rc ! k)) = dev_shape (joystick_devices rc ! k)
   \<Longrightarrow> target r (upd_dev k f rc) k dv"
  by (simp add: target_def)

lemma int32_nat: "int32 (int n) \<Longrightarrow> j \<le> n \<Longrightarrow> int32 (int j)"
  by (simp add: int32_def)

lemma load_buttons:
  assumes "target r rc k dv" "\<forall>b\<in>set bs. slot_ok r (button_mapping b)"
    "j + length bs \<le> length (dev_buttons dv)"
  shows "\<exists>ls. dump_buttons r (int k) j bs = Some ls \<and>
           loads fn ls rc (upd_dev k (put_buttons j bs) rc)"
  using assms
proof (induction bs arbitrary: j rc)
  case Nil
  then show ?case by (simp add: loads_Nil upd_dev_def)
next
  case (Cons b bs)
  let ?m = "button_mapping b"
  let ?rc1 = "upd_dev k (put_button j (no_flags ?m)) rc"
  have t: "ui_actions rc = ui_actions r" "k < length (joystick_devices rc)" "int32 (int k)"
    "length (dev_buttons (joystick_devices rc ! k)) = length (dev_buttons dv)"
    "int32 (int (length (dev_buttons dv)))"
    using Cons.prems(1) by (simp_all add: target_def dev_shape_def)
  have j: "j < length (dev_buttons (joystick_devices rc ! k))" "int32 (int j)"
    using Cons.prems(3) t(4) int32_nat [OF t(5), of j] by simp_all
  have "\<exists>l. mapping_dump_map r (int k) JOY_INPUT_BUTTON (int j) ?m = Some l \<and> loads fn [l] rc ?rc1"
    using Cons.prems(2) t j
    by (intro slot_line) (simp_all add: input_types set_button)
  then obtain l where l: "mapping_dump_map r (int k) JOY_INPUT_BUTTON (int j) ?m = Some l"
    "loads fn [l] rc ?rc1" by blast
  have t1: "target r ?rc1 k dv"
    by (rule target_upd [OF Cons.prems(1)]) simp
  obtain ls where ls: "dump_buttons r (int k) (Suc j) bs = Some ls"
    "loads fn ls ?rc1 (upd_dev k (put_buttons (Suc j) bs) ?rc1)"
    using Cons.IH [OF t1, of "Suc j"] Cons.prems(2,3) by auto
  have eq: "upd_dev k (put_buttons (Suc j) bs) ?rc1 = upd_dev k (put_buttons j (b # bs)) rc"
    using t(2) by (simp add: upd_dev_def)
  have "dump_buttons r (int k) j (b # bs) = Some (l # ls)"
    using l(1) ls(1) by (simp add: one_line_def)
  moreover have "loads fn (l # ls) rc (upd_dev k (put_buttons j (b # bs)) rc)"
    using loads_Cons [OF l(2) ls(2)] unfolding eq .
  ultimately show ?case by blast
qed

lemma axis_lines:
  assumes "target r rc k dv" "axis_ok r a" "j < length (dev_axes dv)"
  shows "\<exists>ls. dump_axis r (int k) j a = Some ls \<and> loads fn ls rc (upd_dev k (put_axis j a) rc)"
proof (cases "axis_pot a > 0")
  case True
  have t: "k < length (joystick_devices rc)" "int32 (int k)"
    "length (dev_axes (joystick_devices rc ! k)) = length (dev_axes dv)"
    "int32 (2 * int (length (dev_axes dv)))"
    using assms(1) by (simp_all add: target_def dev_shape_def)
  have j: "j < length (dev_axes (joystick_devices rc ! k))" "int32 (int j)"
    using assms(3) t(3,4) by (simp_all add: int32_def)
  have pot: "int32 (axis_pot a)" using assms(2) True by (simp add: axis_ok_def)
  have "loads fn
           [print_int (int k) @ '' '' @ print_int JOY_INPUT_AXIS @ '' '' @
            print_int (int j) @ '' '' @ print_int JOY_ACTION_POT_AXIS @ '' '' @
            print_uint (axis_pot a)]
           rc (upd_dev k (put_pot j (axis_pot a)) rc)"
    using True pot t(1,2) j by (rule pot_line)
  moreover have "upd_dev k (put_pot j (axis_pot a)) rc = upd_dev k (put_axis j a) rc"
    using True by (simp add: upd_dev_def put_axis_def)
  ultimately have "loads fn
           [print_int (int k) @ '' '' @ print_int JOY_INPUT_AXIS @ '' '' @
            print_int (int j) @ '' '' @ print_int JOY_ACTION_POT_AXIS @ '' '' @
            print_uint (axis_pot a)]
           rc (upd_dev k (put_axis j a) rc)"
    by simp
  from loads_append [OF this loads_empty]
  show ?thesis using True by (simp add: dump_axis_def)
next
  case False
  let ?p = "no_flags (axis_positive a)"
  let ?n = "no_flags (axis_negative a)"
  let ?rc1 = "upd_dev k (put_positive j ?p) rc"
  let ?rc2 = "upd_dev k (put_negative j ?n) ?rc1"
  have ok: "slot_ok r (axis_positive a)" "slot_ok r (axis_negative a)"
    using assms(2) False by (simp_all add: axis_ok_def)
  have t1: "target r ?rc1 k dv"
    by (rule target_upd [OF assms(1)]) simp
  have t: "ui_actions rc' = ui_actions r" "k < length (joystick_devices rc')" "int32 (int k)"
    "j < length (dev_axes (joystick_devices rc' ! k))"
    "int32 (int (2 * j) + 0)" "int32 (int (2 * j) + 1)"
    if "target r rc' k dv" for rc'
    using that assms(3) by (simp_all add: target_def dev_shape_def int32_def)
  have "\<exists>l. mapping_dump_map r (int k) JOY_INPUT_AXIS (int (2 * j) + 0) (axis_positive a) = Some l \<and>
          loads fn [l] rc ?rc1"
    using ok(1) t [OF assms(1)]
    by (intro slot_line) (simp_all add: input_types set_positive)
  then obtain l1 where l1:
    "mapping_dump_map r (int k) JOY_INPUT_AXIS (int (2 * j) + 0) (axis_positive a) = Some l1"
    "loads fn [l1] rc ?rc1" by blast
  have "\<exists>l. mapping_dump_map r (int k) JOY_INPUT_AXIS (int (2 * j) + 1) (axis_negative a) = Some l \<and>
          loads fn [l] ?rc1 ?rc2"
    using ok(2) t [OF t1]
    by (intro slot_line) (simp_all add: input_types set_negative)
  then obtain l2 where l2:
    "mapping_dump_map r (int k) JOY_INPUT_AXIS (int (2 * j) + 1) (axis_negative a) = Some l2"
    "loads fn [l2] ?rc1 ?rc2" by blast
  have eq: "?rc2 = upd_dev k (put_axis j a) rc"
    using False t(2) [OF assms(1)] by (simp add: upd_dev_def put_axis_def)
  have "dump_axis r (int k) j a = Some [l1, l2, []]"
    using False l1(1) l2(1) by (simp add: dump_axis_def one_line_def)
  moreover have "loads fn [l1, l2, []] rc ?rc2"
    using loads_Cons [OF l1(2) loads_Cons [OF l2(2) loads_empty]] .
  ultimately show ?thesis unfolding eq by blast
qed

lemma hat_lines:
  assumes "target r rc k dv" "hat_ok r h" "j < length (dev_hats dv)"
  shows "\<exists>ls. dump_hat r (int k) j h = Some ls \<and> loads fn ls rc (upd_dev k (put_directions j h) rc)"
proof -
  let ?rc1 = "upd_dev k (put_hat j (\<lambda>x. x\<lparr>hat_up := no_flags (hat_up h)\<rparr>)) rc"
  let ?rc2 = "upd_dev k (put_hat j (\<lambda>x. x\<lparr>hat_down := no_flags (hat_down h)\<rparr>)) ?rc1"
  let ?rc3 = "upd_dev k (put_hat j (\<lambda>x. x\<lparr>hat_left := no_flags (hat_left h)\<rparr>)) ?rc2"
  let ?rc4 = "upd_dev k (put_hat j (\<lambda>x. x\<lparr>hat_right := no_flags (hat_right h)\<rparr>)) ?rc3"
  have ok: "slot_ok r (hat_up h)" "slot_ok r (hat_down h)" "slot_ok r (hat_left h)"
    "slot_ok r (hat_right h)"
    using assms(2) by (simp_all add: hat_ok_def)
  have t1: "target r ?rc1 k dv"
    by (rule target_upd [OF assms(1)]) simp
  have t2: "target r ?rc2 k dv"
    by (rule target_upd [OF t1]) simp
  have t3: "target r ?rc3 k dv"
    by (rule target_upd [OF t2]) simp
  have t: "ui_actions rc' = ui_actions r" "k < length (joystick_devices rc')" "int32 (int k)"
    "j < length (dev_hats (joystick_devices rc' ! k))"
    "int32 (int (4 * j) + 0)" "int32 (int (4 * j) + 1)" "int32 (int (4 * j) + 2)"
    "int32 (int (4 * j) + 3)"
    if "target r rc' k dv" for rc'
    using that assms(3) by (simp_all add: target_def dev_shape_def int32_def)
  have step: "\<exists>l. mapping_dump_map r (int k) JOY_INPUT_HAT (int (4 * j) + dir) m = Some l \<and>
      loads fn [l] rc'
        (upd_dev k (put_hat j (\<lambda>h. if dir = 0 then h\<lparr>hat_up := no_flags m\<rparr>
                                     else if dir = 1 then h\<lparr>hat_down := no_flags m\<rparr>
                                     else if dir = 2 then h\<lparr>hat_left := no_flags m\<rparr>
                                     else h\<lparr>hat_right := no_flags m\<rparr>)) rc')"
    if "target r rc' k dv" "slot_ok r m" "dir \<in> {0, 1, 2, 3}" for rc' m dir
  proof -
    have d: "0 \<le> dir" "dir < 4" "int32 (int (4 * j) + dir)"
      using that(3) t(5-8) [OF that(1)] by auto
    show ?thesis
      using that(2) t(1-4) [OF that(1)] d
      by (intro slot_line) (simp_all add: input_types set_hat)
  qed
  obtain l1 where l1:
    "mapping_dump_map r (int k) JOY_INPUT_HAT (int (4 * j) + 0) (hat_up h) = Some l1"
    "loads fn [l1] rc ?rc1"
    using step [OF assms(1) ok(1), of 0] by auto
  obtain l2 where l2:
    "mapping_dump_map r (int k) JOY_INPUT_HAT (int (4 * j) + 1) (hat_down h) = Some l2"
    "loads fn [l2] ?rc1 ?rc2"
    using step [OF t1 ok(2), of 1] by auto
  obtain l3 where l3:
    "mapping_dump_map r (int k) JOY_INPUT_HAT (int (4 * j) + 2) (hat_left h) = Some l3"
    "loads fn [l3] ?rc2 ?rc3"
    using step [OF t2 ok(3), of 2] by auto
  obtain l4 where l4:
    "mapping_dump_map r (int k) JOY_INPUT_HAT (int (4 * j) + 3) (hat_right h) = Some l4"
    "loads fn [l4] ?rc3 ?rc4"
    using step [OF t3 ok(4), of 3] by auto
  have eq: "?rc4 = upd_dev k (put_directions j h) rc"
    using t(2) [OF assms(1)] by (simp add: upd_dev_def put_directions_def)
  have "dump_hat r (int k) j h = Some [l1, l2, l3, l4]"
    using l1(1) l2(1) l3(1) l4(1) by (simp add: dump_hat_def one_line_def)
  moreover have "loads fn [l1, l2, l3, l4] rc ?rc4"
    using loads_Cons [OF l1(2) loads_Cons [OF l2(2) loads_Cons [OF l3(2) l4(2)]]] .
  ultimately show ?thesis unfolding eq by blast
qed

lemma load_axes:
  assumes "target r rc k dv" "\<forall>a\<in>set as. axis_ok r a" "j + length as \<le> length (dev_axes dv)"
  shows "\<exists>ls. dump_axes r (int k) j as = Some ls \<and> loads fn ls rc (upd_dev k (put_axes j as) rc)"
  using assms
proof (induction as arbitrary: j rc)
  case Nil
  then show ?case by (simp add: loads_Nil upd_dev_def)
next
  case (Cons a as)
  let ?rc1 = "upd_dev k (put_axis j a) rc"
  have k: "k < length (joystick_devices rc)"
    using Cons.prems(1) by (simp add: target_def)
  obtain l where l: "dump_axis r (int k) j a = Some l" "loads fn l rc ?rc1"
    using axis_lines [OF Cons.prems(1), of a j fn] Cons.prems(2,3) by auto
  have t1: "target r ?rc1 k dv"
    by (rule target_upd [OF Cons.prems(1)]) simp
  obtain ls where ls: "dump_axes r (int k) (Suc j) as = Some ls"
    "loads fn ls ?rc1 (upd_dev k (put_axes (Suc j) as) ?rc1)"
    using Cons.IH [OF t1, of "Suc j"] Cons.prems(2,3) by auto
  have eq: "upd_dev k (put_axes (Suc j) as) ?rc1 = upd_dev k (put_axes j (a # as)) rc"
    using k by (simp add: upd_dev_def)
  have "dump_axes r (int k) j (a # as) = Some (l @ ls)"
    using l(1) ls(1) by simp
  moreover have "loads fn (l @ ls) rc (upd_dev k (put_axes j (a # as)) rc)"
    using loads_append [OF l(2) ls(2)] unfolding eq .
  ultimately show ?case by blast
qed

lemma load_hats:
  assumes "target r rc k dv" "\<forall>h\<in>set hs. hat_ok r h" "j + length hs \<le> length (dev_hats dv)"
  shows "\<exists>ls. dump_hats r (int k) j hs = Some ls \<and> loads fn ls rc (upd_dev k (put_hats j hs) rc)"
  using assms
proof (induction hs arbitrary: j rc)
  case Nil
  then show ?case by (simp add: loads_Nil upd_dev_def)
next
  case (Cons h hs)
  let ?rc1 = "upd_dev k (put_directions j h) rc"
  have k: "k < length (joystick_devices rc)"
    using Cons.prems(1) by (simp add: target_def)
  obtain l where l: "dump_hat r (int k) j h = Some l" "loads fn l rc ?rc1"
    using hat_lines [OF Cons.prems(1), of h j fn] Cons.prems(2,3) by auto
  have t1: "target r ?rc1 k dv"
    by (rule target_upd [OF Cons.prems(1)]) simp
  obtain ls where ls: "dump_hats r (int k) (Suc j) hs = Some ls"
    "loads fn ls ?rc1 (upd_dev k (put_hats (Suc j) hs) ?rc1)"
    using Cons.IH [OF t1, of "Suc j"] Cons.prems(2,3) by auto
  have eq: "upd_dev k (put_hats (Suc j) hs) ?rc1 = upd_dev k (put_hats j (h # hs)) rc"
    using k by (simp add: upd_dev_def)
  have "dump_hats r (int k) j (h # hs) = Some (l @ ls)"
    using l(1) ls(1) by simp
  moreover have "loads fn (l @ ls) rc (upd_dev k (put_hats j (h # hs)) rc)"
    using loads_append [OF l(2) ls(2)] unfolding eq .
  ultimately show ?case by blast
qed

subsection \<open>The lines of the devices\<close>

lemma shape_put_axes [simp]: "dev_shape (put_axes j as dev) = dev_shape dev"
  by (induction as arbitrary: j dev) simp_all

lemma shape_put_buttons [simp]: "dev_shape (put_buttons j bs dev) = dev_shape dev"
  by (induction bs arbitrary: j dev) simp_all

lemma shape_put_hats [simp]: "dev_shape (put_hats j hs dev) = dev_shape dev"
  by (induction hs arbitrary: j dev) simp_all

lemma shape_put_device [simp]: "dev_shape (put_device dv dev) = dev_shape dev"
  by (simp add: put_device_def)

lemma loads_comments:
  "list_all (\<lambda>l. plain_line l \<and> (l = [] \<or> hd l = CHR ''#'')) ls \<Longrightarrow> loads fn ls rc rc"
proof (induction ls)
  case Nil
  show ?case by (rule loads_Nil)
next
  case (Cons l ls)
  then have rest: "loads fn ls rc rc" by simp
  have "loads fn [l] rc rc"
  proof (cases l)
    case Nil
    then show ?thesis by (simp add: loads_empty)
  next
    case (Cons c cs)
    with Cons.prems have c: "c = CHR ''#''" and pl: "plain_line (c # cs)" by auto
    show ?thesis using loads_comment [of cs fn rc] pl unfolding Cons c by simp
  qed
  then show ?case using rest by (rule loads_Cons)
qed

lemma loads_header: "loads fn mapping_dump_header rc rc"
  by (rule loads_comments) (simp add: mapping_dump_header_def plain_line_def sq_def newline_def)

lemma device_lines:
  assumes "target r rc k dv" "device_ok r dv"
  shows "\<exists>la lb lh.
           dump_axes r (int k) 0 (dev_axes dv) = Some la \<and>
           dump_buttons r (int k) 0 (dev_buttons dv) = Some lb \<and>
           dump_hats r (int k) 0 (dev_hats dv) = Some lh \<and>
           loads fn ((''# '' @ dev_name dv) # la @ lb @ [] # lh) rc (upd_dev k (put_device dv) rc)"
proof -
  let ?rc1 = "upd_dev k (put_axes 0 (dev_axes dv)) rc"
  let ?rc2 = "upd_dev k (put_buttons 0 (dev_buttons dv)) ?rc1"
  let ?rc3 = "upd_dev k (put_hats 0 (dev_hats dv)) ?rc2"
  have k: "k < length (joystick_devices rc)"
    using assms(1) by (simp add: target_def)
  have ok: "\<forall>a\<in>set (dev_axes dv). axis_ok r a"
    "\<forall>b\<in>set (dev_buttons dv). slot_ok r (button_mapping b)"
    "\<forall>h\<in>set (dev_hats dv). hat_ok r h"
    using assms(2) by (simp_all add: device_ok_def list_all_iff)
  have name: "plain_line (CHR ''#'' # CHR '' '' # dev_name dv)"
    using assms(2) by (simp add: device_ok_def plain_line_def newline_def)
  have t1: "target r ?rc1 k dv"
    by (rule target_upd [OF assms(1)]) simp
  have t2: "target r ?rc2 k dv"
    by (rule target_upd [OF t1]) simp
  obtain la where la: "dump_axes r (int k) 0 (dev_axes dv) = Some la" "loads fn la rc ?rc1"
    using load_axes [OF assms(1) ok(1), of 0 fn] by auto
  obtain lb where lb: "dump_buttons r (int k) 0 (dev_buttons dv) = Some lb" "loads fn lb ?rc1 ?rc2"
    using load_buttons [OF t1 ok(2), of 0 fn] by auto
  obtain lh where lh: "dump_hats r (int k) 0 (dev_hats dv) = Some lh" "loads fn lh ?rc2 ?rc3"
    using load_hats [OF t2 ok(3), of 0 fn] by auto
  have eq: "?rc3 = upd_dev k (put_device dv) rc"
    using k by (simp add: upd_dev_def put_device_def)
  have "loads fn ((''# '' @ dev_name dv) # la @ lb @ [] # lh) rc ?rc3"
    using loads_Cons [OF loads_comment [OF name]
        loads_append [OF la(2) loads_append [OF lb(2) loads_Cons [OF loads_empty lh(2)]]]]
    by simp
  then show ?thesis using la(1) lb(1) lh(1) unfolding eq by blast
qed

lemma targets_Cons:
  assumes "targets r rc k (dv # devs)" "list_all (device_ok r) (dv # devs)"
  shows "target r rc k dv" "targets r (upd_dev k f rc) (Suc k) devs"
proof -
  obtain x xs where d: "drop k (joystick_devices rc) = x # xs" "dev_shape x = dev_shape dv"
    "list_all2 (\<lambda>dv dev. dev_shape dev = dev_shape dv) devs xs"
    using assms(1) by (auto simp: targets_def list_all2_Cons1)
  have k: "k < length (joystick_devices rc)"
    using d(1) by (cases "k < length (joystick_devices rc)") simp_all
  have x: "joystick_devices rc ! k = x" "drop (Suc k) (joystick_devices rc) = xs"
    using d(1) Cons_nth_drop_Suc [OF k] by simp_all
  have len: "int32 (int (length (joystick_devices rc)))" "ui_actions rc = ui_actions r"
    using assms(1) by (simp_all add: targets_def)
  have "int32 (int k)" using int32_nat [OF len(1), of k] k by simp
  then show "target r rc k dv"
    using assms(2) k x(1) d(2) len(2) by (simp add: target_def device_ok_def)
  show "targets r (upd_dev k f rc) (Suc k) devs"
    using len d(3) x(2) by (simp add: targets_def upd_dev_def)
qed

lemma load_devices:
  assumes "targets r rc k devs" "list_all (device_ok r) devs"
  shows "\<exists>ls. dump_devices r k devs = Some ls \<and> loads fn ls rc (upd_devs k devs rc)"
  using assms
proof (induction devs arbitrary: k rc)
  case Nil
  then show ?case by (simp add: loads_Nil)
next
  case (Cons dv devs)
  let ?rc1 = "upd_dev k (put_device dv) rc"
  have t: "target r rc k dv" and ts: "targets r ?rc1 (Suc k) devs"
    using targets_Cons [OF Cons.prems] by simp_all
  have ok: "device_ok r dv" "list_all (device_ok r) devs"
    using Cons.prems(2) by simp_all
  obtain la lb lh where l:
    "dump_axes r (int k) 0 (dev_axes dv) = Some la"
    "dump_buttons r (int k) 0 (dev_buttons dv) = Some lb"
    "dump_hats r (int k) 0 (dev_hats dv) = Some lh"
    "loads fn ((''# '' @ dev_name dv) # la @ lb @ [] # lh) rc ?rc1"
    using device_lines [OF t ok(1), of fn] by blast
  obtain ls where ls: "dump_devices r (Suc k) devs = Some ls"
    "loads fn ls ?rc1 (upd_devs (Suc k) devs ?rc1)"
    using Cons.IH [OF ts ok(2)] by blast
  let ?gap = "if devs \<noteq> [] then [[], []] else []"
  have gap: "loads fn ?gap ?rc1 ?rc1"
    using loads_Cons [OF loads_empty loads_empty, of fn ?rc1] by (simp add: loads_Nil)
  have "dump_devices r k (dv # devs) =
      Some (((''# '' @ dev_name dv) # la @ lb @ [] # lh) @ ?gap @ ls)"
    using l(1-3) ls(1) by simp
  moreover have "loads fn (((''# '' @ dev_name dv) # la @ lb @ [] # lh) @ ?gap @ ls) rc
      (upd_devs k (dv # devs) rc)"
    using loads_append [OF l(4) loads_append [OF gap ls(2)]] by simp
  ultimately show ?case by blast
qed

subsection \<open>The slots after the load\<close>

lemma take_Suc_update: "j < length xs \<Longrightarrow> take (Suc j) (xs[j := y]) = take j xs @ [y]"
  by (simp add: take_Suc_conv_app_nth)

lemma frame_put_axes [simp]:
  "dev_buttons (put_axes j as dev) = dev_buttons dev"
  "dev_hats (put_axes j as dev) = dev_hats dev"
  by (induction as arbitrary: j dev)
    (simp_all add: put_axis_def put_pot_def put_positive_def put_negative_def)

lemma frame_put_buttons [simp]:
  "dev_axes (put_buttons j bs dev) = dev_axes dev"
  "dev_hats (put_buttons j bs dev) = dev_hats dev"
  by (induction bs arbitrary: j dev) (simp_all add: put_button_def)

lemma frame_put_hats [simp]:
  "dev_axes (put_hats j hs dev) = dev_axes dev"
  "dev_buttons (put_hats j hs dev) = dev_buttons dev"
  by (induction hs arbitrary: j dev) (simp_all add: put_directions_def put_hat_def)

lemma slots_put_axes:
  "list_all2 axis_fits as (drop j (dev_axes dev)) \<Longrightarrow>
   map axis_slots (dev_axes (put_axes j as dev)) =
     take j (map axis_slots (dev_axes dev)) @ map kept_axis as"
proof (induction as arbitrary: j dev)
  case Nil
  then show ?case by simp
next
  case (Cons a as)
  obtain x xs where d: "drop j (dev_axes dev) = x # xs" "axis_fits a x" "list_all2 axis_fits as xs"
    using Cons.prems by (auto simp: list_all2_Cons1)
  have j: "j < length (dev_axes dev)"
    using d(1) by (cases "j < length (dev_axes dev)") simp_all
  have x: "dev_axes dev ! j = x" "drop (Suc j) (dev_axes dev) = xs"
    using d(1) Cons_nth_drop_Suc [OF j] by simp_all
  let ?dev1 = "put_axis j a dev"
  define y where "y = (if axis_pot a > 0 then x\<lparr>axis_pot := axis_pot a\<rparr>
     else x\<lparr>axis_positive := no_flags (axis_positive a),
            axis_negative := no_flags (axis_negative a)\<rparr>)"
  have y: "dev_axes ?dev1 = (dev_axes dev)[j := y]" "axis_slots y = kept_axis a"
    using d(2) x(1) j
    by (auto simp: y_def put_axis_def put_pot_def put_positive_def put_negative_def
        axis_slots_def kept_axis_def axis_fits_def)
  have "list_all2 axis_fits as (drop (Suc j) (dev_axes ?dev1))"
    using d(3) x(2) y(1) by simp
  from Cons.IH [OF this]
  have "map axis_slots (dev_axes (put_axes (Suc j) as ?dev1)) =
      take (Suc j) (map axis_slots (dev_axes ?dev1)) @ map kept_axis as" .
  also have "take (Suc j) (map axis_slots (dev_axes ?dev1)) =
      take j (map axis_slots (dev_axes dev)) @ [kept_axis a]"
    using j y by (simp add: take_map take_Suc_update)
  finally show ?case by simp
qed

lemma slots_put_buttons:
  "j + length bs = length (dev_buttons dev) \<Longrightarrow>
   map button_mapping (dev_buttons (put_buttons j bs dev)) =
     take j (map button_mapping (dev_buttons dev)) @ map (\<lambda>b. no_flags (button_mapping b)) bs"
proof (induction bs arbitrary: j dev)
  case Nil
  then show ?case by simp
next
  case (Cons b bs)
  have j: "j < length (dev_buttons dev)" using Cons.prems by simp
  let ?dev1 = "put_button j (no_flags (button_mapping b)) dev"
  define y where "y = (dev_buttons dev ! j)\<lparr>button_mapping := no_flags (button_mapping b)\<rparr>"
  have y: "dev_buttons ?dev1 = (dev_buttons dev)[j := y]"
    "button_mapping y = no_flags (button_mapping b)"
    by (simp_all add: y_def put_button_def)
  have "Suc j + length bs = length (dev_buttons ?dev1)"
    using Cons.prems y(1) by simp
  from Cons.IH [OF this]
  have "map button_mapping (dev_buttons (put_buttons (Suc j) bs ?dev1)) =
      take (Suc j) (map button_mapping (dev_buttons ?dev1)) @
      map (\<lambda>b. no_flags (button_mapping b)) bs" .
  also have "take (Suc j) (map button_mapping (dev_buttons ?dev1)) =
      take j (map button_mapping (dev_buttons dev)) @ [no_flags (button_mapping b)]"
    using j y by (simp add: take_map take_Suc_update)
  finally show ?case by simp
qed

lemma slots_put_hats:
  "j + length hs = length (dev_hats dev) \<Longrightarrow>
   map hat_slots (dev_hats (put_hats j hs dev)) =
     take j (map hat_slots (dev_hats dev)) @ map kept_hat hs"
proof (induction hs arbitrary: j dev)
  case Nil
  then show ?case by simp
next
  case (Cons h hs)
  have j: "j < length (dev_hats dev)" using Cons.prems by simp
  let ?dev1 = "put_directions j h dev"
  define y where "y = (dev_hats dev ! j)\<lparr>hat_up := no_flags (hat_up h),
     hat_down := no_flags (hat_down h), hat_left := no_flags (hat_left h),
     hat_right := no_flags (hat_right h)\<rparr>"
  have y: "dev_hats ?dev1 = (dev_hats dev)[j := y]" "hat_slots y = kept_hat h"
    using j by (simp_all add: y_def put_directions_def put_hat_def hat_slots_def kept_hat_def)
  have "Suc j + length hs = length (dev_hats ?dev1)"
    using Cons.prems y(1) by simp
  from Cons.IH [OF this]
  have "map hat_slots (dev_hats (put_hats (Suc j) hs ?dev1)) =
      take (Suc j) (map hat_slots (dev_hats ?dev1)) @ map kept_hat hs" .
  also have "take (Suc j) (map hat_slots (dev_hats ?dev1)) =
      take j (map hat_slots (dev_hats dev)) @ [kept_hat h]"
    using j y by (simp add: take_map take_Suc_update)
  finally show ?case by simp
qed

lemma slots_put_device: "dev_fits dv dev \<Longrightarrow> device_slots (put_device dv dev) = kept_slots dv"
  using slots_put_axes [of "dev_axes dv" 0 dev]
    slots_put_buttons [of 0 "dev_buttons dv" "put_axes 0 (dev_axes dv) dev"]
    slots_put_hats [of 0 "dev_hats dv" "put_buttons 0 (dev_buttons dv) (put_axes 0 (dev_axes dv) dev)"]
  by (simp add: dev_fits_def device_slots_def kept_slots_def put_device_def)

lemma slots_upd_devs:
  "list_all2 dev_fits devs (drop k (joystick_devices rc)) \<Longrightarrow>
   registry_slots (upd_devs k devs rc) = take k (registry_slots rc) @ map kept_slots devs"
proof (induction devs arbitrary: k rc)
  case Nil
  then show ?case by (simp add: registry_slots_def)
next
  case (Cons dv devs)
  obtain x xs where d: "drop k (joystick_devices rc) = x # xs" "dev_fits dv x"
    "list_all2 dev_fits devs xs"
    using Cons.prems by (auto simp: list_all2_Cons1)
  have k: "k < length (joystick_devices rc)"
    using d(1) by (cases "k < length (joystick_devices rc)") simp_all
  have x: "joystick_devices rc ! k = x" "drop (Suc k) (joystick_devices rc) = xs"
    using d(1) Cons_nth_drop_Suc [OF k] by simp_all
  let ?rc1 = "upd_dev k (put_device dv) rc"
  have "list_all2 dev_fits devs (drop (Suc k) (joystick_devices ?rc1))"
    using d(3) x(2) by (simp add: upd_dev_def)
  from Cons.IH [OF this]
  have "registry_slots (upd_devs (Suc k) devs ?rc1) =
      take (Suc k) (registry_slots ?rc1) @ map kept_slots devs" .
  also have "take (Suc k) (registry_slots ?rc1) = take k (registry_slots rc) @ [kept_slots dv]"
    using k x(1) d(2)
    by (simp add: registry_slots_def upd_dev_def take_map take_Suc_update slots_put_device)
  finally show ?case by simp
qed

subsection \<open>The dump, loaded\<close>

lemma dump_load_kept:
  assumes "dump_ready r" "load_target r r0"
  shows "\<exists>r'. dump_and_load r r0 = Some r' \<and>
           registry_slots r' = map kept_slots (joystick_devices r)"
proof -
  let ?fn = "''joy.vjm''"
  let ?r1 = "log_add (Log_message (''Loading joystick map '' @ bq @ ?fn @ sq @ ''.'')) r0"
  let ?rc = "joy_arch_keyword_clear ?r1"
  let ?devs = "joystick_devices r"
  have ok: "list_all (device_ok r) ?devs" and n: "int32 (int (length ?devs))"
    using assms(1) by (simp_all add: dump_ready_def)
  have t: "devices_allocated r0" "ui_actions r0 = ui_actions r"
    "list_all2 same_inputs ?devs (joystick_devices r0)"
    using assms(2) by (simp_all add: load_target_def)
  have devs: "joystick_devices (joy_arch_keyword_clear (log_add e r0)) =
      map clear_device (joystick_devices r0)" for e
    by (simp add: joy_arch_keyword_clear_def log_add_def)
  have len: "length (joystick_devices r0) = length ?devs"
    using t(3) by (simp add: list_all2_lengthD)
  have shape: "dev_shape (clear_device dev) = dev_shape dv" if "same_inputs dv dev" for dv dev
  proof -
    have "length (dev_axes dv) = length (dev_axes dev)"
      using that by (auto simp: same_inputs_def dest: list_all2_lengthD)
    then show ?thesis
      using that by (simp add: same_inputs_def dev_shape_def clear_device_def)
  qed
  have fits: "dev_fits dv (clear_device dev)" if "same_inputs dv dev" for dv dev
  proof -
    have "list_all2 (\<lambda>a x. axis_fits a (clear_axis x)) (dev_axes dv) (dev_axes dev)"
      using that
      by (auto simp: same_inputs_def axis_fits_def clear_axis_def elim: list_all2_mono)
    then show ?thesis
      using that by (simp add: dev_fits_def same_inputs_def clear_device_def list_all2_map2)
  qed
  have "list_all2 (\<lambda>dv dev. dev_shape (clear_device dev) = dev_shape dv) ?devs (joystick_devices r0)"
    using t(3) shape by (rule list_all2_mono)
  then have ts: "targets r ?rc 0 ?devs"
    using t(2) n len
    by (simp add: targets_def devs list_all2_map2 joy_arch_keyword_clear_def log_add_def)
  have "list_all2 (\<lambda>dv dev. dev_fits dv (clear_device dev)) ?devs (joystick_devices r0)"
    using t(3) fits by (rule list_all2_mono)
  then have fs: "list_all2 dev_fits ?devs (drop 0 (joystick_devices ?rc))"
    by (simp add: devs list_all2_map2)
  obtain ls where ls: "dump_devices r 0 ?devs = Some ls" "loads ?fn ls ?rc (upd_devs 0 ?devs ?rc)"
    using load_devices [OF ts ok, of ?fn] by blast
  let ?all = "mapping_dump_header @ ''!CLEAR'' # [] # ls"
  have dump: "dump_lines r = Some ?all"
    using ls(1) by (simp add: dump_lines_def)
  have "loads ?fn ?all ?r1 (upd_devs 0 ?devs ?rc)"
    using loads_append [OF loads_header loads_Cons [OF loads_clear loads_Cons [OF loads_empty ls(2)]]] .
  then have "load_loop ?fn 1 (file_text ?all) ?r1 = Some (upd_devs 0 ?devs ?rc)"
    by (simp add: loads_def load_loop_lines)
  then have "dump_and_load r r0 = Some (upd_devs 0 ?devs ?rc)"
    using t(1) dump by (simp add: dump_and_load_def joy_arch_mapping_dump_def joy_arch_mapping_load_def)
  moreover have "registry_slots (upd_devs 0 ?devs ?rc) = map kept_slots ?devs"
    using slots_upd_devs [OF fs] by simp
  ultimately show ?thesis by blast
qed

subsection \<open>The round trip of the mapping file\<close>

lemma no_flags_idem [simp]: "no_flags (no_flags m) = no_flags m"
  by (cases m) simp_all

lemma forget_kept:
  "list_all pot_alone (dev_axes dv) \<Longrightarrow> forget_flags (kept_slots dv) = forget_flags (device_slots dv)"
  by (auto simp: forget_flags_def kept_slots_def device_slots_def kept_axis_def kept_hat_def
      axis_slots_def hat_slots_def pot_alone_def list_all_iff)

lemma pad_ready: "dump_ready pad_registry" "load_target pad_registry pad_registry"
  by code_simp+

lemma key_pad_ready: "dump_ready key_pad_registry" "load_target key_pad_registry pad_registry"
  "pots_alone key_pad_registry"
  by code_simp+

text \<open>
  C4 fails as stated. \<^verbatim>\<open>joy_arch_mapping_dump\<close> writes an axis with a potentiometer
  target as the one line of that target and does not write its two directional
  mappings, so after \<^verbatim>\<open>!CLEAR\<close> the loader leaves them unmapped. The pad has its first
  axis on potentiometer 1 with pin 8 on the positive direction: the dump of its
  registry, loaded into that registry, returns the axis with no directional mapping.
\<close>

theorem pot_axis_drops_directions:
  "map_option registry_slots (dump_and_load pad_registry pad_registry) =
     Some [([(Action_none, Action_none, 1), (Action_joystick 2, Action_joystick 1, 0)],
            [Action_keyboard 7 4 0, Action_joystick 16],
            [(Action_joystick 1, Action_joystick 2, Action_joystick 4, Action_joystick 8)])] \<and>
   registry_slots pad_registry =
     [([(Action_joystick 8, Action_none, 1), (Action_joystick 2, Action_joystick 1, 0)],
       [Action_keyboard 7 4 0, Action_joystick 16],
       [(Action_joystick 1, Action_joystick 2, Action_joystick 4, Action_joystick 8)])]"
proof -
  obtain r' where r': "dump_and_load pad_registry pad_registry = Some r'"
    "registry_slots r' = map kept_slots (joystick_devices pad_registry)"
    using dump_load_kept [OF pad_ready] by blast
  have "map kept_slots (joystick_devices pad_registry) =
     [([(Action_none, Action_none, 1), (Action_joystick 2, Action_joystick 1, 0)],
            [Action_keyboard 7 4 0, Action_joystick 16],
            [(Action_joystick 1, Action_joystick 2, Action_joystick 4, Action_joystick 8)])]"
    by (simp add: pad_registry_def pad_def kept_slots_def kept_axis_def kept_hat_def)
  moreover have "registry_slots pad_registry =
     [([(Action_joystick 8, Action_none, 1), (Action_joystick 2, Action_joystick 1, 0)],
       [Action_keyboard 7 4 0, Action_joystick 16],
       [(Action_joystick 1, Action_joystick 2, Action_joystick 4, Action_joystick 8)])]"
    by (simp add: pad_registry_def pad_def registry_slots_def device_slots_def axis_slots_def
        hat_slots_def)
  ultimately show ?thesis using r' by simp
qed

text \<open>
  C4, amended. Let the registry be one that the file can carry (\<open>dump_ready\<close>: names of
  devices that fit a line, UI actions with a name that the parser reads back, no slot
  with the action of a potentiometer), let every axis with a potentiometer target have
  no directional mapping (\<open>pots_alone\<close>), and let the dump be loaded into a registry
  with the same UI actions and as many inputs device by device, in which the axes that
  the dump writes without a potentiometer have the target of the dumped registry
  (\<open>load_target\<close>). Then \<^verbatim>\<open>joy_arch_mapping_dump\<close> followed by \<^verbatim>\<open>joy_arch_mapping_load\<close> returns,
  and every positive and negative slot of an axis, every potentiometer target, every
  button slot and every hat slot has the action and the payload it had when dumped:
  the pin, the row and the column of the key, the UI action, the number of the
  potentiometer. The flags of a key are left out of the comparison.
\<close>

theorem dump_load_round_trip:
  assumes "dump_ready r" "load_target r r0" "pots_alone r"
  shows "\<exists>r'. dump_and_load r r0 = Some r' \<and>
           map forget_flags (registry_slots r') = map forget_flags (registry_slots r)"
proof -
  obtain r' where r': "dump_and_load r r0 = Some r'"
    "registry_slots r' = map kept_slots (joystick_devices r)"
    using dump_load_kept [OF assms(1,2)] by blast
  have kept: "map forget_flags (map kept_slots (joystick_devices r)) =
      map forget_flags (map device_slots (joystick_devices r))"
    using assms(3) by (simp add: pots_alone_def list_all_iff forget_kept)
  have "map forget_flags (registry_slots r') =
      map forget_flags (map kept_slots (joystick_devices r))"
    by (simp only: r'(2))
  also have "\<dots> = map forget_flags (registry_slots r)"
    by (simp only: kept registry_slots_def)
  finally show ?thesis using r'(1) by blast
qed

text \<open>Witness of C4, amended: the dump of the registry of the key pad, loaded into the
  registry of the pad.\<close>

theorem dump_load_round_trip_witness:
  "dump_ready key_pad_registry \<and> load_target key_pad_registry pad_registry \<and>
   pots_alone key_pad_registry \<and>
   (\<exists>r'. dump_and_load key_pad_registry pad_registry = Some r' \<and>
      map forget_flags (registry_slots r') = map forget_flags (registry_slots key_pad_registry))"
  using dump_load_round_trip [OF key_pad_ready] key_pad_ready by simp

text \<open>The flags of a key, which the amended C4 leaves out: \<^verbatim>\<open>mapping_dump_map\<close> prints the
  row and the column of a key and not its flags, while the parser reads a third
  number as the flags, so a key comes back with the flags 0. The first button of the
  key pad has the flags 2.\<close>

lemma key_flags_come_back_zero:
  "map_option (\<lambda>r. map button_mapping (dev_buttons (joystick_devices r ! 0)))
     (dump_and_load key_pad_registry pad_registry) =
   Some [Action_keyboard 7 4 0, Action_ui_function 2]"
proof -
  obtain r' where r': "dump_and_load key_pad_registry pad_registry = Some r'"
    "registry_slots r' = map kept_slots (joystick_devices key_pad_registry)"
    using dump_load_kept [OF key_pad_ready(1,2)] by blast
  have "map kept_slots (joystick_devices key_pad_registry) =
     [([(Action_none, Action_none, 1), (Action_joystick 2, Action_joystick 1, 0)],
       [Action_keyboard 7 4 0, Action_ui_function 2],
       [(Action_joystick 1, Action_joystick 2, Action_joystick 4, Action_joystick 8)])]"
    by (simp add: key_pad_registry_def key_pad_def pad_registry_def pad_def kept_slots_def
        kept_axis_def kept_hat_def)
  then have "map device_slots (joystick_devices r') =
     [([(Action_none, Action_none, 1), (Action_joystick 2, Action_joystick 1, 0)],
       [Action_keyboard 7 4 0, Action_ui_function 2],
       [(Action_joystick 1, Action_joystick 2, Action_joystick 4, Action_joystick 8)])]"
    using r'(2) by (simp add: registry_slots_def)
  then have "map button_mapping (dev_buttons (joystick_devices r' ! 0)) =
     [Action_keyboard 7 4 0, Action_ui_function 2]"
    by (cases "joystick_devices r'") (simp_all add: device_slots_def)
  then show ?thesis using r'(1) by simp
qed

end
